(* ===== verification/Prelude.thy ===== *)
theory Prelude
  imports Complex_Main "HOL-Library.Word" "HOL-Library.Sublist" "HOL-Library.Multiset"
begin

text \<open>
  Shared vocabulary of the development: the Python exceptions the script can raise
  (as values of \<open>py_error\<close>), ceiling division (the output length of a strided
  convolution with \<open>padding='same'\<close> and the number of mini-batches of an epoch),
  generic lemmas on lists and sums that the component theories use through the
  \<open>model_simps\<close> collection, and lemmas on finite sums over index ranges (flat
  row-major indices, reordering nested sums, sums with a single non-zero term) for
  the value-level layers.
\<close>

named_theorems model_simps "facts about the model's helpers, for simp add: model_simps"

section \<open>Python and library exceptions\<close>

text \<open>
  The reason carried by a \<open>ValueError\<close>: numpy's inhomogeneous stacking and failed
  reshape, Keras' input-shape check, its "Empty logs" error on training data without
  a sample, mismatched \<open>x\<close>/\<open>y\<close> cardinalities, Keras 3's weight
  file-name check and a \<open>Reshape\<close> layer whose target size differs from its input.
\<close>

datatype value_error =
    InhomogeneousShape
  | CannotReshape
  | IncompatibleInput
  | EmptyTrainingData
  | CardinalityMismatch
  | WeightsFilename
  | ReshapeLayerSize
  | LayerRank
  | NegativeDimension
  | BroadcastShapes

datatype py_error =
    ValueError value_error
  | ZeroDivisionError
  | FileNotFoundError string
  | AxisError
  | TypeError
  | IndexError
  | UnidentifiedImageError string

type_synonym 'a result = "py_error + 'a"

text \<open>Sequencing of statements that may raise: the first exception propagates.\<close>

definition bindr :: "'a result \<Rightarrow> ('a \<Rightarrow> 'b result) \<Rightarrow> 'b result" where
  "bindr r f = (case r of Inl e \<Rightarrow> Inl e | Inr a \<Rightarrow> f a)"

section \<open>Ceiling division\<close>

definition cdiv :: "nat \<Rightarrow> nat \<Rightarrow> nat" where
  "cdiv a b = (a + b - 1) div b"

lemma bindr_simps [simp]: "bindr (Inl e) f = Inl e" "bindr (Inr a) f = f a"
  by (simp_all add: bindr_def)

lemma cdiv_Suc: "cdiv a (Suc c) = (a + c) div Suc c"
  by (simp add: cdiv_def)

lemma cdiv_mult [model_simps]: "0 < b \<Longrightarrow> cdiv (k * b) b = k"
proof -
  assume "0 < b"
  then obtain c where b: "b = Suc c" by (cases b) auto
  have "(c + k * Suc c) div Suc c = k + c div Suc c"
    by (rule div_mult_self1) simp
  then show ?thesis by (simp add: b cdiv_Suc add.commute)
qed

lemma cdiv_zero [model_simps]: "cdiv 0 b = 0"
  by (cases b) (simp_all add: cdiv_def)

lemma cdiv_eq_0_iff [model_simps]: "0 < b \<Longrightarrow> cdiv a b = 0 \<longleftrightarrow> a = 0"
  by (cases b) (auto simp: cdiv_Suc div_eq_0_iff)

lemma cdiv_bounds:
  assumes "0 < b"
  shows "a \<le> cdiv a b * b" and "cdiv a b * b < a + b"
proof -
  obtain c where b: "b = Suc c" using assms by (cases b) auto
  have dm: "(a + c) div Suc c * Suc c + (a + c) mod Suc c = a + c"
    by (rule div_mult_mod_eq)
  have m: "(a + c) mod Suc c < Suc c" by simp
  from dm m show "a \<le> cdiv a b * b" unfolding b cdiv_Suc by linarith
  from dm show "cdiv a b * b < a + b" by (simp add: b cdiv_Suc)
qed

lemma cdiv_step:
  assumes "0 < b" and "0 < a" shows "cdiv a b = Suc (cdiv (a - b) b)"
proof -
  obtain c where b: "b = Suc c" using assms(1) by (cases b) auto
  show ?thesis
  proof (cases "b \<le> a")
    case True
    then have "a + c = (a - b + c) + 1 * Suc c" using b by simp
    then have "(a + c) div Suc c = (a - b + c) div Suc c + 1"
      by (simp only: div_mult_self1 [OF nat.distinct(1)[symmetric]])
    then show ?thesis by (simp add: b cdiv_Suc)
  next
    case False
    then have "Suc c \<le> a + c" "a + c < 2 * Suc c" using assms b by auto
    then have "(a + c) div Suc c = 1" by (simp add: div_nat_eqI)
    with False show ?thesis by (simp add: b cdiv_Suc)
  qed
qed

lemma cdiv_1 [model_simps]: "cdiv a 1 = a" and cdiv_Suc_0 [model_simps]: "cdiv a (Suc 0) = a"
  by (simp_all add: cdiv_def)

section \<open>Lists and sums\<close>

lemma sum_list_nonneg_real [model_simps]:
  "(\<forall>x\<in>set xs. 0 \<le> (x::real)) \<Longrightarrow> 0 \<le> sum_list xs"
  by (induction xs) auto

lemma sum_list_le_length_real:
  "(\<forall>x\<in>set xs. (x::real) \<le> c) \<Longrightarrow> sum_list xs \<le> of_nat (length xs) * c"
  by (induction xs) (auto simp: algebra_simps)

lemma sum_list_unit_bounds:
  "\<forall>x\<in>set xs. 0 \<le> f x \<and> f x \<le> (1::real) \<Longrightarrow>
   0 \<le> sum_list (map f xs) \<and> sum_list (map f xs) \<le> real (length xs)"
  using sum_list_nonneg_real [of "map f xs"] sum_list_le_length_real [of "map f xs" 1] by auto

lemma sum_list_eq_0_iff_real:
  "(\<forall>x\<in>set xs. 0 \<le> (x::real)) \<Longrightarrow> sum_list xs = 0 \<longleftrightarrow> (\<forall>x\<in>set xs. x = 0)"
  by (induction xs) (auto simp: add_nonneg_eq_0_iff sum_list_nonneg_real)

lemma sum_list_concat_map [model_simps]:
  "sum_list (concat xss) = sum_list (map sum_list (xss :: 'a::monoid_add list list))"
  by (induction xss) auto

lemma sum_list_divide_real [model_simps]:
  "sum_list (map (\<lambda>x. f x / c) xs) = sum_list (map f xs) / (c::real)"
  by (induction xs) (auto simp: add_divide_distrib)

lemma length_concat_const [model_simps]:
  "(\<forall>x\<in>set xss. length x = k) \<Longrightarrow> length (concat xss) = length xss * k"
  by (induction xss) auto

lemma length_concat_map_const [model_simps]:
  "(\<forall>x\<in>set xs. length (f x) = k) \<Longrightarrow> length (concat (map f xs)) = length xs * k"
  by (induction xs) auto

lemma prod_list_butlast [model_simps]:
  "s \<noteq> [] \<Longrightarrow> prod_list (butlast s) * last s = prod_list s"
  by (induction s rule: rev_induct) auto

lemma nth_concat_const:
  "\<forall>xs\<in>set xss. length xs = b \<Longrightarrow> e < length xss \<Longrightarrow> r < b \<Longrightarrow> concat xss ! (e * b + r) = xss ! e ! r"
proof (induction xss arbitrary: e)
  case (Cons xs xss)
  then show ?case by (cases e) (simp_all add: nth_append add.assoc)
qed simp

lemma concat_replicate_length [model_simps]:
  "length (concat (map (replicate r) xs)) = r * length xs"
  by (induction xs) auto


section \<open>Finite sums over index ranges\<close>

lemma concat_map_upt_div_mod:
  "concat (map (\<lambda>i. map (F i) [0..<m]) [0..<n]) = map (\<lambda>k. F (k div m) (k mod m)) [0..<n * m]"
proof (induction n)
  case (Suc n)
  have "[0..<Suc n * m] = [0..<n * m] @ [n * m..<n * m + m]"
    using upt_add_eq_append [of 0 "n * m" m] by (simp add: add.commute)
  also have "[n * m..<n * m + m] = map (\<lambda>q. n * m + q) [0..<m]"
    using map_add_upt [of "n * m" m] by (simp add: add.commute)
  finally have "[0..<Suc n * m] = [0..<n * m] @ map (\<lambda>q. n * m + q) [0..<m]" .
  moreover have "map (\<lambda>k. F (k div m) (k mod m)) (map (\<lambda>q. n * m + q) [0..<m]) = map (F n) [0..<m]"
    by simp
  ultimately show ?case using Suc by simp
qed simp

lemma sum_lessThan_mult:
  "(\<Sum>k<a * b. F k) = (\<Sum>i<a. \<Sum>j<b. F (i * b + j :: nat))"
proof (induction a)
  case (Suc a)
  have "(\<Sum>k<Suc a * b. F k) = (\<Sum>k<a * b. F k) + (\<Sum>k\<in>{a * b..<a * b + b}. F k)"
    by (simp add: sum.atLeastLessThan_concat [symmetric] lessThan_atLeast0 add.commute)
  also have "(\<Sum>k\<in>{a * b..<a * b + b}. F k) = (\<Sum>j<b. F (a * b + j))"
    by (simp add: sum.shift_bounds_nat_ivl [of F 0 "a * b" b, simplified] lessThan_atLeast0 add.commute)
  finally show ?case using Suc by (simp add: add.commute)
qed simp

lemma sum_int_delta:
  "(\<Sum>a<H. if int a = t then F a else 0) = (if 0 \<le> t \<and> t < int H then F (nat t) else (0::real))"
proof (cases "0 \<le> t")
  case True
  then have "(\<Sum>a<H. if int a = t then F a else 0) = (\<Sum>a<H. if a = nat t then F a else 0)"
    by (intro sum.cong refl) auto
  then show ?thesis using True by (simp add: sum.delta' nat_less_iff)
next
  case False
  then show ?thesis by (simp add: sum.neutral)
qed

lemma sum_list_map_upt: "sum_list (map f [0..<n]) = (\<Sum>i<n. f i)"
  by (induction n) simp_all

lemma sum_pull4:
  "(\<Sum>i\<in>I. \<Sum>a\<in>A. \<Sum>b\<in>B. \<Sum>c\<in>C. \<Sum>q\<in>Q. H i a b c q)
   = (\<Sum>a\<in>A. \<Sum>b\<in>B. \<Sum>c\<in>C. \<Sum>q\<in>Q. \<Sum>i\<in>I. H i a b c q)"
proof -
  have "(\<Sum>i\<in>I. \<Sum>a\<in>A. \<Sum>b\<in>B. \<Sum>c\<in>C. \<Sum>q\<in>Q. H i a b c q)
        = (\<Sum>a\<in>A. \<Sum>i\<in>I. \<Sum>b\<in>B. \<Sum>c\<in>C. \<Sum>q\<in>Q. H i a b c q)"
    by (rule sum.swap)
  also have "\<dots> = (\<Sum>a\<in>A. \<Sum>b\<in>B. \<Sum>i\<in>I. \<Sum>c\<in>C. \<Sum>q\<in>Q. H i a b c q)"
    by (rule sum.cong [OF refl], rule sum.swap)
  also have "\<dots> = (\<Sum>a\<in>A. \<Sum>b\<in>B. \<Sum>c\<in>C. \<Sum>i\<in>I. \<Sum>q\<in>Q. H i a b c q)"
    by (rule sum.cong [OF refl], rule sum.cong [OF refl], rule sum.swap)
  also have "\<dots> = (\<Sum>a\<in>A. \<Sum>b\<in>B. \<Sum>c\<in>C. \<Sum>q\<in>Q. \<Sum>i\<in>I. H i a b c q)"
    by (rule sum.cong [OF refl], rule sum.cong [OF refl], rule sum.cong [OF refl], rule sum.swap)
  finally show ?thesis .
qed

lemma sum_pull3:
  "(\<Sum>i\<in>I. \<Sum>a\<in>A. \<Sum>b\<in>B. \<Sum>c\<in>C. H i a b c)
   = (\<Sum>a\<in>A. \<Sum>b\<in>B. \<Sum>c\<in>C. \<Sum>i\<in>I. H i a b c)"
proof -
  have "(\<Sum>i\<in>I. \<Sum>a\<in>A. \<Sum>b\<in>B. \<Sum>c\<in>C. H i a b c)
        = (\<Sum>a\<in>A. \<Sum>i\<in>I. \<Sum>b\<in>B. \<Sum>c\<in>C. H i a b c)"
    by (rule sum.swap)
  also have "\<dots> = (\<Sum>a\<in>A. \<Sum>b\<in>B. \<Sum>i\<in>I. \<Sum>c\<in>C. H i a b c)"
    by (rule sum.cong [OF refl], rule sum.swap)
  also have "\<dots> = (\<Sum>a\<in>A. \<Sum>b\<in>B. \<Sum>c\<in>C. \<Sum>i\<in>I. H i a b c)"
    by (rule sum.cong [OF refl], rule sum.cong [OF refl], rule sum.swap)
  finally show ?thesis .
qed

lemma sum_pull2:
  "(\<Sum>i\<in>I. \<Sum>a\<in>A. \<Sum>b\<in>B. H i a b) = (\<Sum>a\<in>A. \<Sum>b\<in>B. \<Sum>i\<in>I. H i a b)"
proof -
  have "(\<Sum>i\<in>I. \<Sum>a\<in>A. \<Sum>b\<in>B. H i a b) = (\<Sum>a\<in>A. \<Sum>i\<in>I. \<Sum>b\<in>B. H i a b)"
    by (rule sum.swap)
  also have "\<dots> = (\<Sum>a\<in>A. \<Sum>b\<in>B. \<Sum>i\<in>I. H i a b)"
    by (rule sum.cong [OF refl], rule sum.swap)
  finally show ?thesis .
qed

end
