(* ===== verification/Numpy.thy ===== *)
theory Numpy
  imports Prelude
begin

text \<open>
  The numpy arrays the script manipulates, as numpy stores them: a shape and a flat
  row-major buffer.  Each operation the script calls is one definition, with the
  exception numpy raises as an \<open>Inl\<close> value: \<open>reshape\<close> (lines 66, 67, 91),
  \<open>expand_dims(axis=-1)\<close> and \<open>repeat(axis=-1)\<close> (lines 36--37), stacking a list
  of arrays with \<open>np.array\<close> (line 39), iterating and slicing along the first axis
  (lines 65, 90), element-wise maps (\<open>astype\<close>, scalar arithmetic, \<open>** 2\<close>),
  subtraction with numpy's broadcasting and \<open>np.mean\<close> (line 93).  The invariant
  \<open>wf_nd\<close> (buffer length is the product of the shape) is kept by every operation,
  stacking then iterating gives the stacked arrays back, and on operands of equal
  shape (the only case line 93 meets: both are \<open>(1, 128, 128, 3)\<close>) broadcasting
  subtraction is element-wise subtraction (\<open>np_sub_same_shape\<close>).
\<close>

record 'a ndarray =
  shape :: "nat list"
  data :: "'a list"

definition wf_nd :: "'a ndarray \<Rightarrow> bool" where
  "wf_nd a \<longleftrightarrow> length (data a) = prod_list (shape a)"

definition np_size :: "'a ndarray \<Rightarrow> nat" where
  "np_size a = prod_list (shape a)"

definition np_reshape :: "nat list \<Rightarrow> 'a ndarray \<Rightarrow> 'a ndarray result" where
  "np_reshape s a =
     (if prod_list s = np_size a then Inr (a\<lparr>shape := s\<rparr>) else Inl (ValueError CannotReshape))"

definition np_expand_dims_last :: "'a ndarray \<Rightarrow> 'a ndarray" where
  "np_expand_dims_last a = a\<lparr>shape := shape a @ [1]\<rparr>"

definition np_repeat_last :: "nat \<Rightarrow> 'a ndarray \<Rightarrow> 'a ndarray result" where
  "np_repeat_last r a =
     (if shape a = [] then Inl AxisError
      else Inr \<lparr>shape = butlast (shape a) @ [last (shape a) * r],
                data = concat (map (replicate r) (data a))\<rparr>)"

text \<open>\<open>np.array(list_of_arrays)\<close>: an empty list gives the empty array of shape
  \<open>(0,)\<close>; arrays of one common shape are stacked along a new first axis; arrays of
  different shapes raise (numpy 1.24 and later) a ValueError.\<close>

definition np_array_stack :: "'a ndarray list \<Rightarrow> 'a ndarray result" where
  "np_array_stack as =
     (case as of
        [] \<Rightarrow> Inr \<lparr>shape = [0], data = []\<rparr>
      | a # rest \<Rightarrow>
          (if list_all (\<lambda>b. shape b = shape a) rest
           then Inr \<lparr>shape = length as # shape a, data = concat (map data as)\<rparr>
           else Inl (ValueError InhomogeneousShape)))"

fun chunks :: "nat \<Rightarrow> nat \<Rightarrow> 'a list \<Rightarrow> 'a list list" where
  "chunks k 0 xs = []"
| "chunks k (Suc n) xs = take k xs # chunks k n (drop k xs)"

text \<open>\<open>for x in a\<close>: the sub-arrays along the first axis; a 0-d array is not
  iterable.\<close>

definition np_iter :: "'a ndarray \<Rightarrow> 'a ndarray list result" where
  "np_iter a =
     (case shape a of
        [] \<Rightarrow> Inl TypeError
      | n # s \<Rightarrow> Inr (map (\<lambda>c. \<lparr>shape = s, data = c\<rparr>) (chunks (prod_list s) n (data a))))"

text \<open>\<open>a[:m]\<close>: the first \<open>m\<close> sub-arrays along the first axis.\<close>

definition np_slice_first :: "nat \<Rightarrow> 'a ndarray \<Rightarrow> 'a ndarray result" where
  "np_slice_first m a =
     (case shape a of
        [] \<Rightarrow> Inl IndexError
      | n # s \<Rightarrow> Inr \<lparr>shape = min m n # s, data = take (min m n * prod_list s) (data a)\<rparr>)"

definition np_map :: "('a \<Rightarrow> 'b) \<Rightarrow> 'a ndarray \<Rightarrow> 'b ndarray" where
  "np_map f a = \<lparr>shape = shape a, data = map f (data a)\<rparr>"

text \<open>Numpy's broadcasting of two shapes: aligned at their last axes, each pair of
  lengths equal or one of them 1 (the result takes the other); a shorter shape is
  padded with leading axes.  Incompatible shapes raise ValueError.\<close>

fun broadcast_dims :: "nat list \<Rightarrow> nat list \<Rightarrow> nat list option" where
  "broadcast_dims [] ys = Some ys"
| "broadcast_dims xs [] = Some xs"
| "broadcast_dims (x # xs) (y # ys) =
     (if x = y \<or> y = 1 then map_option (Cons x) (broadcast_dims xs ys)
      else if x = 1 then map_option (Cons y) (broadcast_dims xs ys) else None)"

definition np_broadcast_shape :: "nat list \<Rightarrow> nat list \<Rightarrow> nat list option" where
  "np_broadcast_shape s t = map_option rev (broadcast_dims (rev s) (rev t))"

text \<open>\<open>np.unravel_index\<close> and \<open>np.ravel_multi_index\<close> in C order: the index
  tuple of a flat position and back.\<close>

fun unravel :: "nat \<Rightarrow> nat list \<Rightarrow> nat list" where
  "unravel k [] = []"
| "unravel k (d # ds) = k div prod_list ds # unravel (k mod prod_list ds) ds"

fun ravel :: "nat list \<Rightarrow> nat list \<Rightarrow> nat" where
  "ravel (i # ix) (d # ds) = i * prod_list ds + ravel ix ds"
| "ravel _ _ = 0"

text \<open>The index an operand of shape \<open>s\<close> is read at for an index of the broadcast
  result: the last \<open>length s\<close> components, 0 along the axes of length 1.\<close>

definition bcast_index :: "nat list \<Rightarrow> nat list \<Rightarrow> nat list" where
  "bcast_index idx s = map2 (\<lambda>i d. if d = 1 then 0 else i) (drop (length idx - length s) idx) s"

text \<open>\<open>a - b\<close> with broadcasting (line 93).\<close>

definition np_sub :: "real ndarray \<Rightarrow> real ndarray \<Rightarrow> real ndarray result" where
  "np_sub a b =
     (case np_broadcast_shape (shape a) (shape b) of
        None \<Rightarrow> Inl (ValueError BroadcastShapes)
      | Some s \<Rightarrow>
          Inr \<lparr>shape = s,
               data = map (\<lambda>k. data a ! ravel (bcast_index (unravel k s) (shape a)) (shape a)
                               - data b ! ravel (bcast_index (unravel k s) (shape b)) (shape b))
                        [0..<prod_list s]\<rparr>)"

text \<open>\<open>np.mean\<close>: the mean of all elements; \<open>None\<close> is numpy's \<open>nan\<close> for an empty
  array.\<close>

definition np_mean :: "real ndarray \<Rightarrow> real option" where
  "np_mean a = (if data a = [] then None else Some (sum_list (data a) / real (length (data a))))"

text \<open>\<open>len(a)\<close>: the length of the first axis; a 0-d array has none.\<close>

definition np_len :: "'a ndarray \<Rightarrow> nat result" where
  "np_len a = (case shape a of [] \<Rightarrow> Inl TypeError | n # _ \<Rightarrow> Inr n)"

section \<open>Invariant\<close>

lemma chunks_length [model_simps]: "length (chunks k n xs) = n"
  by (induction n arbitrary: xs) auto

lemma chunks_elem_length:
  "length xs = n * k \<Longrightarrow> c \<in> set (chunks k n xs) \<Longrightarrow> length c = k"
proof (induction n arbitrary: xs)
  case (Suc n)
  then show ?case using Suc.IH [of "drop k xs"] by auto
qed simp

lemma chunks_subset: "c \<in> set (chunks k n xs) \<Longrightarrow> set c \<subseteq> set xs"
proof (induction n arbitrary: xs)
  case (Suc n)
  then show ?case using set_take_subset [of k xs] set_drop_subset [of k xs] by auto
qed simp

lemma concat_chunks [model_simps]: "length xs = n * k \<Longrightarrow> concat (chunks k n xs) = xs"
  by (induction n arbitrary: xs) auto

lemma chunks_concat [model_simps]:
  "\<forall>c\<in>set cs. length c = k \<Longrightarrow> chunks k (length cs) (concat cs) = cs"
  by (induction cs) auto

lemma wf_np_reshape [model_simps]: "wf_nd a \<Longrightarrow> np_reshape s a = Inr b \<Longrightarrow> wf_nd b"
  by (auto simp: np_reshape_def wf_nd_def np_size_def split: if_splits)

lemma wf_np_expand_dims_last [model_simps]: "wf_nd a \<Longrightarrow> wf_nd (np_expand_dims_last a)"
  by (simp add: np_expand_dims_last_def wf_nd_def)

lemma wf_np_repeat_last [model_simps]: "wf_nd a \<Longrightarrow> np_repeat_last r a = Inr b \<Longrightarrow> wf_nd b"
  by (auto simp: np_repeat_last_def wf_nd_def concat_replicate_length
      prod_list_butlast [symmetric] split: if_splits)

lemma wf_np_array_stack [model_simps]:
  "\<forall>a\<in>set as. wf_nd a \<Longrightarrow> np_array_stack as = Inr b \<Longrightarrow> wf_nd b"
  by (auto simp: np_array_stack_def wf_nd_def list_all_iff length_concat_map_const
      split: list.splits if_splits)

lemma wf_np_iter [model_simps]:
  "wf_nd a \<Longrightarrow> np_iter a = Inr bs \<Longrightarrow> b \<in> set bs \<Longrightarrow> wf_nd b"
  by (auto simp: np_iter_def wf_nd_def split: list.splits) (metis chunks_elem_length)

lemma wf_np_map [model_simps]: "wf_nd a \<Longrightarrow> wf_nd (np_map f a)"
  by (simp add: np_map_def wf_nd_def)

lemma wf_np_sub [model_simps]:
  "wf_nd a \<Longrightarrow> wf_nd b \<Longrightarrow> np_sub a b = Inr c \<Longrightarrow> wf_nd c"
  by (auto simp: np_sub_def wf_nd_def split: option.splits)

lemma np_iter_length [model_simps]:
  "np_iter a = Inr bs \<Longrightarrow> length bs = hd (shape a)"
  by (auto simp: np_iter_def chunks_length split: list.splits)

section \<open>Flat positions and broadcasting\<close>

lemma broadcast_dims_same: "broadcast_dims xs xs = Some xs"
  by (induction xs) simp_all

lemma length_unravel [simp]: "length (unravel k s) = length s"
  by (induction k s rule: unravel.induct) simp_all

lemma unravel_bounds: "k < prod_list s \<Longrightarrow> list_all2 (<) (unravel k s) s"
proof (induction k s rule: unravel.induct)
  case (2 k d ds)
  have p: "0 < prod_list ds" using "2.prems" by (cases "prod_list ds") simp_all
  have "k div prod_list ds < d" using "2.prems" by (simp add: less_mult_imp_div_less mult.commute)
  then show ?case using "2.IH" p by simp
qed simp

lemma ravel_unravel: "k < prod_list s \<Longrightarrow> ravel (unravel k s) s = k"
proof (induction k s rule: unravel.induct)
  case (2 k d ds)
  have p: "0 < prod_list ds" using "2.prems" by (cases "prod_list ds") simp_all
  then show ?case using "2.IH" by simp
qed simp

lemma ravel_less: "list_all2 (<) idx s \<Longrightarrow> ravel idx s < prod_list s"
proof (induction idx s rule: ravel.induct)
  case (1 i ix d ds)
  then have "ravel ix ds < prod_list ds" "i < d" by simp_all
  then have "i * prod_list ds + ravel ix ds < (i + 1) * prod_list ds" by simp
  also have "\<dots> \<le> d * prod_list ds" using \<open>i < d\<close> by (intro mult_right_mono) simp_all
  finally show ?case by simp
qed (auto simp: list_all2_Cons1 list_all2_Cons2)

lemma bcast_index_same: "list_all2 (<) idx s \<Longrightarrow> bcast_index idx s = idx"
proof -
  assume a: "list_all2 (<) idx s"
  then have "length idx = length s" by (rule list_all2_lengthD)
  with a show ?thesis
    by (simp add: bcast_index_def list_eq_iff_nth_eq list_all2_conv_all_nth) (metis less_Suc0)
qed

lemma np_sub_same_shape:
  assumes "wf_nd a" and "wf_nd b" and "shape a = shape b"
  shows "np_sub a b = Inr \<lparr>shape = shape a, data = map2 (-) (data a) (data b)\<rparr>"
proof -
  have l: "length (data a) = prod_list (shape a)" "length (data b) = prod_list (shape a)"
    using assms by (simp_all add: wf_nd_def)
  have "map (\<lambda>k. data a ! ravel (bcast_index (unravel k (shape a)) (shape a)) (shape a)
                 - data b ! ravel (bcast_index (unravel k (shape a)) (shape a)) (shape a)) [0..<prod_list (shape a)]
        = map2 (-) (data a) (data b)"
    using l by (intro nth_equalityI) (simp_all add: unravel_bounds bcast_index_same ravel_unravel)
  then show ?thesis using assms(3) by (simp add: np_sub_def np_broadcast_shape_def broadcast_dims_same)
qed

section \<open>Stacking and iterating are inverse\<close>

lemma np_iter_array_stack:
  assumes "\<forall>a\<in>set as. wf_nd a" and "np_array_stack as = Inr b" and "as \<noteq> []"
  shows "np_iter b = Inr as"
proof -
  obtain a rest where as: "as = a # rest" using assms(3) by (cases as) auto
  with assms(2) have same: "\<forall>c\<in>set as. shape c = shape a"
    and b: "b = \<lparr>shape = length as # shape a, data = concat (map data as)\<rparr>"
    by (auto simp: np_array_stack_def list_all_iff split: if_splits)
  from assms(1) same have len: "\<forall>c\<in>set (map data as). length c = prod_list (shape a)"
    by (auto simp: wf_nd_def)
  have "chunks (prod_list (shape a)) (length as) (concat (map data as)) = map data as"
    using chunks_concat [OF len] by simp
  then have "map (\<lambda>c. \<lparr>shape = shape a, data = c\<rparr>) (chunks (prod_list (shape a)) (length as)
      (concat (map data as))) = as"
    using same by (simp add: map_idI)
  then show ?thesis by (simp add: np_iter_def b)
qed

end
