(* ===== verification/Loader.thy ===== *)
theory Loader
  imports Numpy
begin

text \<open>
  \<open>load_images\<close> of lines 27--39.  A directory is the list \<open>os.listdir\<close> returns
  (its order is the file system's, taken as given), each entry a file name and the
  image Pillow decodes from it (\<open>None\<close>: not an image, \<open>Image.open\<close> raises).
  A decoded image is a Pillow mode, a size and a flat row-major buffer of samples;
  \<open>np.array(img)\<close> is a 2-D array for the one-band modes and a 3-D array otherwise.
  \<open>img.resize(image_size)\<close> is parameterised by the resampling filter (Pillow's
  default is bicubic for most modes and nearest for \<open>1\<close> and \<open>P\<close>); the theorems
  assume only what every filter does (\<open>resampler_ok\<close>: the requested size, the same
  bands, samples kept in the mode's range), and \<open>nearest_resample\<close> is one filter
  that satisfies it.  The loop keeps the files whose name ends in \<open>.jpg\<close> or
  \<open>.png\<close>, expands single-band arrays to three channels, and stacks the results.
\<close>

datatype pil_mode =
    Mode_1 | Mode_L | Mode_P | Mode_I16 | Mode_LA | Mode_RGB | Mode_YCbCr | Mode_RGBA | Mode_CMYK

fun bands :: "pil_mode \<Rightarrow> nat" where
  "bands Mode_1 = 1"
| "bands Mode_L = 1"
| "bands Mode_P = 1"
| "bands Mode_I16 = 1"
| "bands Mode_LA = 2"
| "bands Mode_RGB = 3"
| "bands Mode_YCbCr = 3"
| "bands Mode_RGBA = 4"
| "bands Mode_CMYK = 4"

fun sample_max :: "pil_mode \<Rightarrow> int" where
  "sample_max Mode_1 = 1"
| "sample_max Mode_I16 = 65535"
| "sample_max _ = 255"

record pil_image =
  im_mode :: pil_mode
  im_width :: nat
  im_height :: nat
  im_pixels :: "int list"

definition wf_image :: "pil_image \<Rightarrow> bool" where
  "wf_image im \<longleftrightarrow>
     0 < im_width im \<and> 0 < im_height im
     \<and> length (im_pixels im) = im_height im * im_width im * bands (im_mode im)
     \<and> (\<forall>x\<in>set (im_pixels im). 0 \<le> x \<and> x \<le> sample_max (im_mode im))"

type_synonym resampler = "pil_image \<Rightarrow> nat \<Rightarrow> nat \<Rightarrow> int list"
type_synonym dir_entry = "string \<times> pil_image option"
type_synonym filesystem = "string \<rightharpoonup> dir_entry list"

definition resampler_ok :: "resampler \<Rightarrow> bool" where
  "resampler_ok rs \<longleftrightarrow>
     (\<forall>im w h. wf_image im \<longrightarrow>
        length (rs im w h) = h * w * bands (im_mode im)
        \<and> (\<forall>x\<in>set (rs im w h). 0 \<le> x \<and> x \<le> sample_max (im_mode im)))"

definition nearest_resample :: resampler where
  "nearest_resample im w h =
     concat (map (\<lambda>(y, x).
        let sy = (2 * y + 1) * im_height im div (2 * h);
            sx = (2 * x + 1) * im_width im div (2 * w);
            b = bands (im_mode im)
        in map (\<lambda>k. im_pixels im ! ((sy * im_width im + sx) * b + k)) [0..<b])
       (List.product [0..<h] [0..<w]))"

section \<open>The loop body, lines 31--38\<close>

definition endswith :: "string \<Rightarrow> string \<Rightarrow> bool" where
  "endswith s suf \<longleftrightarrow> length suf \<le> length s \<and> drop (length s - length suf) s = suf"

definition is_image_name :: "string \<Rightarrow> bool" where
  "is_image_name f \<longleftrightarrow> endswith f ''.jpg'' \<or> endswith f ''.png''"

definition pil_resize :: "resampler \<Rightarrow> nat \<times> nat \<Rightarrow> pil_image \<Rightarrow> pil_image" where
  "pil_resize rs sz im =
     im\<lparr>im_width := fst sz, im_height := snd sz, im_pixels := rs im (fst sz) (snd sz)\<rparr>"

definition np_array_of_image :: "pil_image \<Rightarrow> int ndarray" where
  "np_array_of_image im =
     \<lparr>shape = (if bands (im_mode im) = 1 then [im_height im, im_width im]
               else [im_height im, im_width im, bands (im_mode im)]),
      data = im_pixels im\<rparr>"

definition load_image :: "resampler \<Rightarrow> nat \<times> nat \<Rightarrow> pil_image \<Rightarrow> int ndarray result" where
  "load_image rs sz im =
     (let img = np_array_of_image (pil_resize rs sz im)
      in if length (shape img) = 2 then np_repeat_last 3 (np_expand_dims_last img) else Inr img)"

fun load_entries :: "resampler \<Rightarrow> nat \<times> nat \<Rightarrow> dir_entry list \<Rightarrow> int ndarray list result" where
  "load_entries rs sz [] = Inr []"
| "load_entries rs sz ((f, im) # es) =
     (if is_image_name f then
        (case im of
           None \<Rightarrow> Inl (UnidentifiedImageError f)
         | Some i \<Rightarrow>
             (case load_image rs sz i of
                Inl e \<Rightarrow> Inl e
              | Inr a \<Rightarrow> (case load_entries rs sz es of Inl e \<Rightarrow> Inl e | Inr as \<Rightarrow> Inr (a # as))))
      else load_entries rs sz es)"

definition load_images :: "resampler \<Rightarrow> filesystem \<Rightarrow> string \<Rightarrow> nat \<times> nat \<Rightarrow> int ndarray result" where
  "load_images rs fs directory sz =
     (case fs directory of
        None \<Rightarrow> Inl (FileNotFoundError directory)
      | Some es \<Rightarrow> (case load_entries rs sz es of Inl e \<Rightarrow> Inl e | Inr imgs \<Rightarrow> np_array_stack imgs))"

text \<open>The files the loop keeps, and the images among them.\<close>

definition selected :: "dir_entry list \<Rightarrow> dir_entry list" where
  "selected es = filter (is_image_name \<circ> fst) es"

definition channels_loaded :: "pil_mode \<Rightarrow> nat" where
  "channels_loaded m = (if bands m = 1 then 3 else bands m)"

definition decodable :: "dir_entry \<Rightarrow> bool" where
  "decodable e \<longleftrightarrow> snd e \<noteq> None"

text \<open>One image: resizing, conversion to an array and the grayscale expansion give an
  array of shape \<open>(h, w, c)\<close> whose buffer is the resampled one, with every sample of
  a single-band image repeated into three channels.\<close>

definition loaded_array :: "resampler \<Rightarrow> nat \<times> nat \<Rightarrow> pil_image \<Rightarrow> int ndarray" where
  "loaded_array rs sz im =
     \<lparr>shape = [snd sz, fst sz, channels_loaded (im_mode im)],
      data = (if bands (im_mode im) = 1 then concat (map (replicate 3) (rs im (fst sz) (snd sz)))
              else rs im (fst sz) (snd sz))\<rparr>"

text \<open>Example inputs: a directory as \<open>os.listdir\<close> might list it, with a grayscale
  JPEG, a text file, an RGB PNG, an upper-case \<open>.JPG\<close> that the filter skips, and an
  RGBA PNG in a second directory.\<close>

definition ex_gray :: pil_image where
  "ex_gray = \<lparr>im_mode = Mode_L, im_width = 2, im_height = 1, im_pixels = [0, 200]\<rparr>"

definition ex_rgb :: pil_image where
  "ex_rgb = \<lparr>im_mode = Mode_RGB, im_width = 1, im_height = 1, im_pixels = [10, 20, 30]\<rparr>"

definition ex_rgba :: pil_image where
  "ex_rgba = \<lparr>im_mode = Mode_RGBA, im_width = 1, im_height = 1, im_pixels = [1, 2, 3, 255]\<rparr>"

definition ex_dir :: "dir_entry list" where
  "ex_dir = [(''cat.jpg'', Some ex_gray), (''notes.txt'', None), (''dog.png'', Some ex_rgb),
             (''OLD.JPG'', None)]"

definition ex_fs :: filesystem where
  "ex_fs = Map.empty(''/content/pics'' \<mapsto> ex_dir,
                     ''/content/mixed'' \<mapsto> [(''a.jpg'', Some ex_gray), (''b.png'', Some ex_rgba)])"

section \<open>Lemmas\<close>

lemma endswith_suffix [model_simps]: "endswith s suf \<longleftrightarrow> suffix suf s"
proof
  assume "endswith s suf"
  then have "s = take (length s - length suf) s @ suf"
    by (metis append_take_drop_id endswith_def)
  then show "suffix suf s" unfolding suffix_def by blast
next
  assume "suffix suf s"
  then obtain zs where "s = zs @ suf" by (auto simp: suffix_def)
  then show "endswith s suf" by (simp add: endswith_def)
qed

lemma selected_Cons [model_simps]:
  "selected (e # es) = (if is_image_name (fst e) then e # selected es else selected es)"
  by (simp add: selected_def)

lemma selected_Nil [model_simps]: "selected [] = []"
  by (simp add: selected_def)

lemma load_image_eq [model_simps]: "load_image rs sz im = Inr (loaded_array rs sz im)"
  by (auto simp: load_image_def np_array_of_image_def pil_resize_def np_expand_dims_last_def
      np_repeat_last_def channels_loaded_def loaded_array_def Let_def)

lemma load_entries_decodable:
  "list_all decodable (selected es) \<Longrightarrow>
   load_entries rs sz es = Inr (map (loaded_array rs sz \<circ> the \<circ> snd) (selected es))"
proof (induction es)
  case Nil
  then show ?case by (simp add: selected_def)
next
  case (Cons e es)
  obtain f im where e: "e = (f, im)" by (cases e)
  show ?case
  proof (cases "is_image_name f")
    case True
    with Cons.prems e obtain i where "im = Some i" by (auto simp: selected_def decodable_def)
    with Cons True e show ?thesis by (simp add: selected_Cons load_image_eq)
  next
    case False
    with Cons e show ?thesis by (simp add: selected_Cons)
  qed
qed

lemma wf_loaded_array:
  "resampler_ok rs \<Longrightarrow> wf_image im \<Longrightarrow> wf_nd (loaded_array rs sz im)"
  by (auto simp: resampler_ok_def loaded_array_def wf_nd_def channels_loaded_def
      concat_replicate_length)

lemma loaded_array_range:
  "resampler_ok rs \<Longrightarrow> wf_image im \<Longrightarrow> x \<in> set (data (loaded_array rs sz im)) \<Longrightarrow>
   0 \<le> x \<and> x \<le> sample_max (im_mode im)"
  by (auto simp: resampler_ok_def loaded_array_def split: if_splits)

lemma nearest_src_less:
  fixes y h n :: nat
  assumes "y < h" and "0 < n" shows "(2 * y + 1) * n div (2 * h) < n"
proof -
  have "2 * y + 1 < 2 * h" using assms by simp
  then have "(2 * y + 1) * n < (2 * h) * n" using assms by (intro mult_strict_right_mono)
  then have "(2 * y + 1) * n < n * (2 * h)" by (simp only: mult.commute)
  then show ?thesis using assms by (simp add: div_less_iff_less_mult)
qed

lemma flat_index_less:
  fixes sy sx k H W b :: nat
  assumes "sy < H" and "sx < W" and "k < b"
  shows "(sy * W + sx) * b + k < H * W * b"
proof -
  have "sy * W + sx < (sy + 1) * W" using assms by simp
  also have "\<dots> \<le> H * W" using assms by (intro mult_right_mono) auto
  finally have p: "sy * W + sx + 1 \<le> H * W" by simp
  have "(sy * W + sx) * b + k < (sy * W + sx + 1) * b" using assms by simp
  also have "\<dots> \<le> H * W * b" using p by (rule mult_right_mono) simp
  finally show ?thesis .
qed

lemma resampler_ok_nearest: "resampler_ok nearest_resample"
  unfolding resampler_ok_def
proof (intro allI impI conjI)
  fix im :: pil_image and w h :: nat
  assume wf: "wf_image im"
  show "length (nearest_resample im w h) = h * w * bands (im_mode im)"
    unfolding nearest_resample_def
    by (subst length_concat_map_const [where k = "bands (im_mode im)"])
       (auto simp: case_prod_beta Let_def length_product)
  show "\<forall>x\<in>set (nearest_resample im w h). 0 \<le> x \<and> x \<le> sample_max (im_mode im)"
  proof
    fix x assume "x \<in> set (nearest_resample im w h)"
    then obtain y xx k where y: "y < h" and xx: "xx < w" and k: "k < bands (im_mode im)"
      and x: "x = im_pixels im ! (((2 * y + 1) * im_height im div (2 * h) * im_width im
                 + (2 * xx + 1) * im_width im div (2 * w)) * bands (im_mode im) + k)"
      by (auto simp: nearest_resample_def Let_def)
    let ?i = "((2 * y + 1) * im_height im div (2 * h) * im_width im
                 + (2 * xx + 1) * im_width im div (2 * w)) * bands (im_mode im) + k"
    have "?i < im_height im * im_width im * bands (im_mode im)"
      using wf y xx k by (intro flat_index_less nearest_src_less) (auto simp: wf_image_def)
    then have "x \<in> set (im_pixels im)" using wf x by (simp add: wf_image_def)
    then show "0 \<le> x \<and> x \<le> sample_max (im_mode im)" using wf by (simp add: wf_image_def)
  qed
qed

lemma stack_loaded_same:
  assumes "\<forall>e\<in>set es. channels_loaded (im_mode (the (snd e))) = c" and "es \<noteq> []"
  shows "np_array_stack (map (loaded_array rs (w, h) \<circ> the \<circ> snd) es) =
           Inr \<lparr>shape = [length es, h, w, c],
                data = concat (map (data \<circ> loaded_array rs (w, h) \<circ> the \<circ> snd) es)\<rparr>"
  using assms by (cases es) (auto simp: np_array_stack_def list_all_iff loaded_array_def o_def)

lemma load_images_stack:
  assumes "fs d = Some es" and "list_all decodable (selected es)" and "selected es \<noteq> []"
    and "\<forall>e\<in>set (selected es). channels_loaded (im_mode (the (snd e))) = c"
  shows "load_images rs fs d (w, h) =
           Inr \<lparr>shape = [length (selected es), h, w, c],
                data = concat (map (data \<circ> loaded_array rs (w, h) \<circ> the \<circ> snd) (selected es))\<rparr>"
  using assms by (simp add: load_images_def load_entries_decodable stack_loaded_same)

lemma load_images_wf:
  assumes "resampler_ok rs" and "fs d = Some es"
    and "\<forall>e\<in>set (selected es). \<exists>i. snd e = Some i \<and> wf_image i"
    and "load_images rs fs d sz = Inr a"
  shows "wf_nd a"
proof -
  have dec: "list_all decodable (selected es)"
    using assms(3) by (auto simp: list_all_iff decodable_def)
  have wf: "\<forall>x\<in>set (map (loaded_array rs sz \<circ> the \<circ> snd) (selected es)). wf_nd x"
  proof
    fix x assume "x \<in> set (map (loaded_array rs sz \<circ> the \<circ> snd) (selected es))"
    then obtain e where e: "e \<in> set (selected es)" "x = loaded_array rs sz (the (snd e))"
      by auto
    with assms(3) obtain i where "snd e = Some i" "wf_image i" by blast
    with e assms(1) show "wf_nd x" by (simp add: wf_loaded_array)
  qed
  have "np_array_stack (map (loaded_array rs sz \<circ> the \<circ> snd) (selected es)) = Inr a"
    using assms(2,4) dec by (simp add: load_images_def load_entries_decodable)
  with wf show ?thesis by (rule wf_np_array_stack)
qed

lemma sample_max_le_255: "m \<noteq> Mode_I16 \<Longrightarrow> sample_max m \<le> 255"
  by (cases m) auto

text \<open>Every sample of a loaded array comes from one of the selected images and lies in
  that image's sample range.\<close>

lemma load_images_sample_source:
  assumes "resampler_ok rs" and "fs d = Some es"
    and "\<forall>e\<in>set (selected es). \<exists>i. snd e = Some i \<and> wf_image i"
    and "load_images rs fs d sz = Inr a" and "x \<in> set (data a)"
  shows "\<exists>e\<in>set (selected es). 0 \<le> x \<and> x \<le> sample_max (im_mode (the (snd e)))"
proof -
  have dec: "list_all decodable (selected es)"
    using assms(3) by (auto simp: list_all_iff decodable_def)
  with assms(2,4) have st: "np_array_stack (map (loaded_array rs sz \<circ> the \<circ> snd) (selected es)) = Inr a"
    by (simp add: load_images_def load_entries_decodable)
  have "data a = [] \<or> data a = concat (map (data \<circ> loaded_array rs sz \<circ> the \<circ> snd) (selected es))"
    using st by (auto simp: np_array_stack_def o_def split: list.splits if_splits)
  with assms(5) obtain e where e: "e \<in> set (selected es)"
    and xe: "x \<in> set (data (loaded_array rs sz (the (snd e))))" by auto
  from assms(3) e obtain i where i: "snd e = Some i" "wf_image i" by blast
  have "0 \<le> x \<and> x \<le> sample_max (im_mode i)"
    using loaded_array_range [OF assms(1) i(2)] xe i(1) by simp
  with e i(1) show ?thesis by (intro bexI [of _ e]) auto
qed

section \<open>Properties of the loader\<close>

text \<open>C5: On a directory whose \<open>.jpg\<close>/\<open>.png\<close> files (at least one) all decode to
  single-band or three-band images, \<open>load_images\<close> returns one well-formed array of
  shape \<open>(n, h, w, 3)\<close>, \<open>n\<close> the number of such files, holding the loaded images in
  directory order.\<close>

theorem load_images_shape:
  assumes "resampler_ok rs" and "fs d = Some es" and "selected es \<noteq> []"
    and "\<forall>e\<in>set (selected es). \<exists>i. snd e = Some i \<and> wf_image i \<and> bands (im_mode i) \<in> {1, 3}"
  shows "\<exists>a. load_images rs fs d (w, h) = Inr a \<and> shape a = [length (selected es), h, w, 3]
              \<and> data a = concat (map (data \<circ> loaded_array rs (w, h) \<circ> the \<circ> snd) (selected es))
              \<and> wf_nd a"
proof -
  have dec: "list_all decodable (selected es)"
    using assms(4) by (auto simp: list_all_iff decodable_def)
  have ch: "\<forall>e\<in>set (selected es). channels_loaded (im_mode (the (snd e))) = 3"
    using assms(4) by (auto simp: channels_loaded_def)
  note eq = load_images_stack [where fs = fs and d = d and es = es and c = 3 and rs = rs
      and w = w and h = h, OF assms(2) dec assms(3) ch]
  have "wf_nd (\<lparr>shape = [length (selected es), h, w, 3],
                data = concat (map (data \<circ> loaded_array rs (w, h) \<circ> the \<circ> snd) (selected es))\<rparr>)"
    using load_images_wf [OF assms(1,2) _ eq] assms(4) by blast
  with eq show ?thesis by auto
qed

text \<open>C6: If two of the selected files load with different channel counts (say a
  grayscale or RGB image beside an RGBA PNG), stacking them at line 39 raises a
  ValueError.\<close>

theorem load_images_mixed_channels:
  assumes "fs d = Some es" and "list_all decodable (selected es)"
    and "e1 \<in> set (selected es)" and "e2 \<in> set (selected es)"
    and "channels_loaded (im_mode (the (snd e1))) \<noteq> channels_loaded (im_mode (the (snd e2)))"
  shows "load_images rs fs d (w, h) = Inl (ValueError InhomogeneousShape)"
proof -
  obtain e rest where sel: "selected es = e # rest" using assms(3) by (cases "selected es") auto
  let ?c = "\<lambda>x. channels_loaded (im_mode (the (snd x)))"
  have "\<not> (\<forall>x\<in>set rest. ?c x = ?c e)"
  proof
    assume "\<forall>x\<in>set rest. ?c x = ?c e"
    then have "\<forall>x\<in>set (selected es). ?c x = ?c e" using sel by simp
    then show False using assms(3-5) by metis
  qed
  then have "\<not> list_all (\<lambda>b. shape b = shape (loaded_array rs (w, h) (the (snd e))))
           (map (loaded_array rs (w, h) \<circ> the \<circ> snd) rest)"
    by (auto simp: list_all_iff loaded_array_def)
  then show ?thesis
    using assms(1,2) by (simp add: load_images_def load_entries_decodable sel np_array_stack_def)
qed

section \<open>Witnesses\<close>

lemma ex_images_wf: "wf_image ex_gray" "wf_image ex_rgb" "wf_image ex_rgba"
  by (simp_all add: wf_image_def ex_gray_def ex_rgb_def ex_rgba_def)

lemma selected_ex_dir: "selected ex_dir = [(''cat.jpg'', Some ex_gray), (''dog.png'', Some ex_rgb)]"
  by (simp add: ex_dir_def selected_def is_image_name_def endswith_def)

lemma ex_dir_images:
  "\<forall>e\<in>set (selected ex_dir). \<exists>i. snd e = Some i \<and> wf_image i \<and> bands (im_mode i) \<in> {1, 3}"
  "\<forall>e\<in>set (selected ex_dir). \<exists>i. snd e = Some i \<and> wf_image i \<and> im_mode i \<noteq> Mode_I16"
  using ex_images_wf by (simp_all add: selected_ex_dir ex_gray_def ex_rgb_def)

theorem load_images_shape_witness:
  "\<exists>a. load_images nearest_resample ex_fs ''/content/pics'' (128, 128) = Inr a
        \<and> shape a = [2, 128, 128, 3] \<and> wf_nd a"
proof -
  have sel: "selected ex_dir = [(''cat.jpg'', Some ex_gray), (''dog.png'', Some ex_rgb)]"
    by (simp add: ex_dir_def selected_def is_image_name_def endswith_def)
  have "\<forall>e\<in>set (selected ex_dir). \<exists>i. snd e = Some i \<and> wf_image i \<and> bands (im_mode i) \<in> {1, 3}"
    using ex_images_wf by (simp add: sel ex_gray_def ex_rgb_def)
  from load_images_shape [OF resampler_ok_nearest, of ex_fs "''/content/pics''" ex_dir,
      OF _ _ this, where w = 128 and h = 128]
  show ?thesis by (auto simp: sel ex_fs_def numeral_2_eq_2)
qed

theorem load_images_mixed_channels_witness:
  "load_images nearest_resample ex_fs ''/content/mixed'' (128, 128) = Inl (ValueError InhomogeneousShape)"
proof -
  let ?es = "[(''a.jpg'', Some ex_gray), (''b.png'', Some ex_rgba)]"
  have sel: "selected ?es = ?es" by (simp add: selected_def is_image_name_def endswith_def)
  show ?thesis
    by (rule load_images_mixed_channels [of ex_fs _ ?es "?es ! 0" "?es ! 1"])
       (simp_all add: ex_fs_def decodable_def channels_loaded_def selected_def is_image_name_def
        endswith_def, simp_all add: ex_gray_def ex_rgba_def)
qed

end
