(* ===== verification/Layers.thy ===== *)
theory Layers
  imports Prelude
begin

text \<open>
  The network of \<open>src/neural_with_tensorflow.py\<close>, lines 41--57, at the level of
  tensor shapes.  Each Keras layer the script builds is a constructor of \<open>layer\<close>
  with the arguments the script passes (Keras' defaults written out: strides
  \<open>(1, 1)\<close>); \<open>layer_out\<close> is Keras' output-shape computation for one layer
  (\<open>conv_output_length\<close> and \<open>deconv_output_length\<close> of Keras' conv utilities for
  \<open>Conv2D\<close> and \<open>Conv2DTranspose\<close>, the size check of \<open>Reshape\<close>) and raises
  where Keras raises when the functional model is built; \<open>infer\<close> runs it through
  the layer list the way \<open>Model(input_img, decoded)\<close> chains the calls.  Shapes
  exclude the batch axis, as in \<open>Input(shape=...)\<close>.
\<close>

datatype activation = Relu | Sigmoid | Linear

datatype padding = Same | Valid

datatype layer =
    Conv2D nat "nat \<times> nat" activation padding "nat \<times> nat"
  | Conv2DTranspose nat "nat \<times> nat" activation padding "nat \<times> nat"
  | Flatten
  | Reshape "nat list"

type_synonym tshape = "nat list"

section \<open>Output length of one spatial axis\<close>

definition conv_output_length :: "padding \<Rightarrow> nat \<Rightarrow> nat \<Rightarrow> nat \<Rightarrow> nat option" where
  "conv_output_length p n k s =
     (case p of
        Same \<Rightarrow> Some (cdiv n s)
      | Valid \<Rightarrow> (if k \<le> n then Some (cdiv (n - k + 1) s) else None))"

definition deconv_output_length :: "padding \<Rightarrow> nat \<Rightarrow> nat \<Rightarrow> nat \<Rightarrow> nat" where
  "deconv_output_length p n k s =
     (case p of
        Same \<Rightarrow> n * s
      | Valid \<Rightarrow> n * s + (k - s))"

section \<open>One layer\<close>

fun layer_out :: "layer \<Rightarrow> tshape \<Rightarrow> tshape result" where
  "layer_out (Conv2D f (kh, kw) act p (sh, sw)) sh_in =
     (case sh_in of
        [h, w, c] \<Rightarrow>
          (case (conv_output_length p h kh sh, conv_output_length p w kw sw) of
             (Some h', Some w') \<Rightarrow> Inr [h', w', f]
           | _ \<Rightarrow> Inl (ValueError NegativeDimension))
      | _ \<Rightarrow> Inl (ValueError LayerRank))"
| "layer_out (Conv2DTranspose f (kh, kw) act p (sh, sw)) sh_in =
     (case sh_in of
        [h, w, c] \<Rightarrow> Inr [deconv_output_length p h kh sh, deconv_output_length p w kw sw, f]
      | _ \<Rightarrow> Inl (ValueError LayerRank))"
| "layer_out Flatten sh_in = Inr [prod_list sh_in]"
| "layer_out (Reshape t) sh_in =
     (if prod_list t = prod_list sh_in then Inr t else Inl (ValueError ReshapeLayerSize))"

fun infer :: "layer list \<Rightarrow> tshape \<Rightarrow> tshape result" where
  "infer [] s = Inr s"
| "infer (l # ls) s = (case layer_out l s of Inl e \<Rightarrow> Inl e | Inr s' \<Rightarrow> infer ls s')"

section \<open>The autoencoder of lines 42--56\<close>

definition input_shape :: tshape where
  "input_shape = [128, 128, 3]"

definition encoder_layers :: "layer list" where
  "encoder_layers =
     [Conv2D 64 (3, 3) Relu Same (1, 1),
      Conv2D 128 (3, 3) Relu Same (2, 2),
      Conv2D 256 (3, 3) Relu Same (2, 2),
      Flatten,
      Reshape [32, 32, 256]]"

definition decoder_layers :: "layer list" where
  "decoder_layers =
     [Conv2DTranspose 256 (3, 3) Relu Same (2, 2),
      Conv2DTranspose 128 (3, 3) Relu Same (2, 2),
      Conv2DTranspose 64 (3, 3) Relu Same (1, 1),
      Conv2D 3 (3, 3) Sigmoid Same (1, 1)]"

definition autoencoder_layers :: "layer list" where
  "autoencoder_layers = encoder_layers @ decoder_layers"

text \<open>The activation functions named by the \<open>activation=\<close> arguments, on exact reals
  (float32 rounding is not modelled).\<close>

definition sigmoid :: "real \<Rightarrow> real" where
  "sigmoid x = 1 / (1 + exp (- x))"

fun act_fn :: "activation \<Rightarrow> real \<Rightarrow> real" where
  "act_fn Relu x = max 0 x"
| "act_fn Sigmoid x = sigmoid x"
| "act_fn Linear x = x"

section \<open>Running the shape inference\<close>

lemma infer_append [model_simps]:
  "infer (xs @ ys) s = (case infer xs s of Inl e \<Rightarrow> Inl e | Inr t \<Rightarrow> infer ys t)"
  by (induction xs arbitrary: s) (auto split: sum.splits)

lemma conv_same_length [model_simps]: "conv_output_length Same n k s = Some (cdiv n s)"
  by (simp add: conv_output_length_def)

lemma deconv_same_length [model_simps]: "deconv_output_length Same n k s = n * s"
  by (simp add: deconv_output_length_def)

text \<open>A strided \<open>'same'\<close> convolution followed by the transposed convolution with the
  same stride restores a length that the stride divides: the spatial round trip the
  encoder and decoder are built on.\<close>

lemma same_deconv_conv_roundtrip:
  "0 < s \<Longrightarrow> conv_output_length Same (deconv_output_length Same n k s) k s = Some n"
  by (simp add: model_simps)

lemma encoder_shape [model_simps]:
  "infer encoder_layers [h, w, c] =
     (if cdiv (cdiv h 2) 2 * cdiv (cdiv w 2) 2 = 1024 then Inr [32, 32, 256]
      else Inl (ValueError ReshapeLayerSize))"
  by (simp add: encoder_layers_def model_simps)

lemma decoder_shape [model_simps]: "infer decoder_layers [32, 32, 256] = Inr [128, 128, 3]"
  by (simp add: decoder_layers_def model_simps)

lemma autoencoder_output_input_shape [model_simps]:
  "infer autoencoder_layers input_shape = Inr input_shape"
  by (simp add: autoencoder_layers_def input_shape_def model_simps cdiv_def)

lemma encoder_rank:
  "length s \<noteq> 3 \<Longrightarrow> infer encoder_layers s = Inl (ValueError LayerRank)"
  by (cases s rule: remdups_adj.cases)
     (auto simp: encoder_layers_def split: list.splits)

text \<open>The sigmoid lies in \<open>[0, 1]\<close>.  Only the closed bounds are used: on exact
  reals it is strictly inside, but TensorFlow's float32 sigmoid rounds to exactly
  \<open>1.0\<close> from an input of about 17 on (and to \<open>0\<close> far below zero), never beyond.\<close>

lemma sigmoid_unit [model_simps]: "0 \<le> sigmoid x" "sigmoid x \<le> 1"
proof -
  have e: "0 < exp (- x)" by simp
  then have p: "0 < 1 + exp (- x)" by linarith
  then show "0 \<le> sigmoid x" by (simp add: sigmoid_def)
  from e have "1 \<le> 1 + exp (- x)" by linarith
  then show "sigmoid x \<le> 1" unfolding sigmoid_def by (simp only: divide_le_eq_1_pos [OF p])
qed

section \<open>Properties of the architecture\<close>

text \<open>C4: For an input of shape \<open>(h, w, c)\<close> the autoencoder's shape inference succeeds
  exactly when the encoder's two stride-2 convolutions leave \<open>32 * 32\<close> positions
  (the hard-coded \<open>Reshape((32, 32, 256))\<close> of line 49 needs that many values), and then
  the decoder always produces a \<open>(128, 128, 3)\<close> image; otherwise building the model
  raises a ValueError at the Reshape layer.\<close>

theorem autoencoder_shape:
  "infer autoencoder_layers [h, w, c] =
     (if cdiv (cdiv h 2) 2 * cdiv (cdiv w 2) 2 = 1024 then Inr [128, 128, 3]
      else Inl (ValueError ReshapeLayerSize))"
  by (simp add: autoencoder_layers_def model_simps)

text \<open>C3: The autoencoder maps an input shape to the same output shape (the condition for
  \<open>fit(train_data, train_data)\<close> to type-check) exactly for the declared input shape
  \<open>(128, 128, 3)\<close>.\<close>

theorem autoencoder_reconstructs_shape:
  "infer autoencoder_layers s = Inr s \<longleftrightarrow> s = input_shape"
proof (cases "length s = 3")
  case True
  then obtain h w c where s: "s = [h, w, c]"
    by (auto simp: numeral_eq_Suc length_Suc_conv)
  show ?thesis
    by (auto simp: s input_shape_def autoencoder_layers_def model_simps cdiv_def)
next
  case False
  then show ?thesis
    by (auto simp: input_shape_def autoencoder_layers_def infer_append encoder_rank)
qed

end
