(* ===== verification/Pixels.thy ===== *)
theory Pixels
  imports Numpy
begin

text \<open>
  The two pixel conversions of the script: the normalisation of line 105,
  \<open>train_data.astype(np.float32) / 255.0\<close>, and the conversion back of line 68,
  \<open>(colorized_output[0] * 255).astype(np.uint8)\<close>.  Floats are exact reals (float32
  rounding is not modelled); the cast to \<open>uint8\<close> truncates towards zero, as C's
  float-to-integer conversion does, and keeps the low eight bits of the result
  (\<open>word_of_int\<close>), the wrap-around numpy shows for out-of-range values on common
  platforms.
\<close>

type_synonym u8 = "8 word"

definition normalize :: "int \<Rightarrow> real" where
  "normalize v = real_of_int v / 255"

definition normalize_array :: "int ndarray \<Rightarrow> real ndarray" where
  "normalize_array a = np_map normalize a"

definition trunc_toward_zero :: "real \<Rightarrow> int" where
  "trunc_toward_zero x = (if 0 \<le> x then \<lfloor>x\<rfloor> else \<lceil>x\<rceil>)"

definition to_uint8 :: "real \<Rightarrow> u8" where
  "to_uint8 x = word_of_int (trunc_toward_zero (x * 255))"

definition to_uint8_array :: "real ndarray \<Rightarrow> u8 ndarray" where
  "to_uint8_array a = np_map to_uint8 a"

section \<open>Lemmas\<close>

lemma normalize_range [model_simps]:
  "0 \<le> v \<Longrightarrow> v \<le> 255 \<Longrightarrow> 0 \<le> normalize v \<and> normalize v \<le> 1"
  by (simp add: normalize_def)

lemma unat_word_of_int_small:
  "0 \<le> k \<Longrightarrow> k < 256 \<Longrightarrow> unat (word_of_int k :: u8) = nat k"
  by (simp add: unat_eq_nat_uint uint_word_of_int)

lemma trunc_nonneg [model_simps]: "0 \<le> x \<Longrightarrow> trunc_toward_zero x = \<lfloor>x\<rfloor>"
  by (simp add: trunc_toward_zero_def)

section \<open>Properties of the conversions\<close>

text \<open>C15: Every byte value normalises into \<open>[0, 1]\<close>, and converting the normalised
  value back with line 68's formula gives the byte again: normalisation and the
  \<open>uint8\<close> conversion are inverse on \<open>0..255\<close>.\<close>

theorem normalize_to_uint8_roundtrip:
  assumes "0 \<le> v" and "v \<le> 255"
  shows "0 \<le> normalize v \<and> normalize v \<le> 1 \<and> unat (to_uint8 (normalize v)) = nat v"
proof -
  have "normalize v * 255 = real_of_int v" by (simp add: normalize_def)
  then have "trunc_toward_zero (normalize v * 255) = v"
    using assms by (simp add: trunc_toward_zero_def)
  then show ?thesis
    using assms by (simp add: normalize_range to_uint8_def unat_word_of_int_small)
qed

section \<open>Witnesses\<close>

theorem normalize_to_uint8_roundtrip_witness:
  "0 \<le> (200::int) \<and> (200::int) \<le> 255 \<and> unat (to_uint8 (normalize 200)) = 200"
  using normalize_to_uint8_roundtrip [of 200] by simp

end
