(* ===== verification/Evaluate.thy ===== *)
theory Evaluate
  imports Numpy
begin

text \<open>
  \<open>evaluate_network\<close> of lines 87--96.  The trained network enters as its
  \<open>predict\<close> function on one batch (\<open>predictor\<close>); the theorems assume of it only
  what Keras guarantees for this model (\<open>predict_ok\<close>: a well-formed
  \<open>(1, 128, 128, 3)\<close> input gives a well-formed output of the same shape, the output
  shape computed in theory \<open>Layers\<close>).  The loop reshapes each image, predicts,
  and adds the mean squared error to \<open>total_loss\<close>; a nan from \<open>np.mean\<close> is
  \<open>None\<close> and absorbs the sum, as nan does; the final division by \<open>len(test_data)\<close>
  raises ZeroDivisionError on an empty test set.  The value returned is the one the
  script prints.
\<close>

type_synonym predictor = "real ndarray \<Rightarrow> real ndarray"

definition sample_shape :: "nat list" where
  "sample_shape = [1, 128, 128, 3]"

definition add_loss :: "real option \<Rightarrow> real option \<Rightarrow> real option" where
  "add_loss a b = (case (a, b) of (Some x, Some y) \<Rightarrow> Some (x + y) | _ \<Rightarrow> None)"

definition sample_loss :: "predictor \<Rightarrow> real ndarray \<Rightarrow> real option result" where
  "sample_loss pred img =
     (case np_reshape sample_shape img of
        Inl e \<Rightarrow> Inl e
      | Inr x \<Rightarrow>
          (case np_sub (pred x) x of
             Inl e \<Rightarrow> Inl e
           | Inr d \<Rightarrow> Inr (np_mean (np_map (\<lambda>v. v ^ 2) d))))"

fun eval_loop :: "predictor \<Rightarrow> real option \<Rightarrow> real ndarray list \<Rightarrow> real option result" where
  "eval_loop pred tot [] = Inr tot"
| "eval_loop pred tot (img # imgs) =
     (case sample_loss pred img of
        Inl e \<Rightarrow> Inl e
      | Inr l \<Rightarrow> eval_loop pred (add_loss tot l) imgs)"

definition evaluate_network :: "predictor \<Rightarrow> real ndarray \<Rightarrow> real option result" where
  "evaluate_network pred test_data =
     (case np_iter test_data of
        Inl e \<Rightarrow> Inl e
      | Inr imgs \<Rightarrow>
          (case eval_loop pred (Some 0) imgs of
             Inl e \<Rightarrow> Inl e
           | Inr tot \<Rightarrow>
               (case np_len test_data of
                  Inl e \<Rightarrow> Inl e
                | Inr n \<Rightarrow>
                    if n = 0 then Inl ZeroDivisionError
                    else Inr (map_option (\<lambda>t. t / real n) tot))))"

definition predict_ok :: "predictor \<Rightarrow> bool" where
  "predict_ok pred \<longleftrightarrow>
     (\<forall>x. wf_nd x \<and> shape x = sample_shape \<longrightarrow> wf_nd (pred x) \<and> shape (pred x) = sample_shape)"

definition predict_unit :: "predictor \<Rightarrow> bool" where
  "predict_unit pred \<longleftrightarrow>
     (\<forall>x. wf_nd x \<and> shape x = sample_shape \<longrightarrow> (\<forall>v\<in>set (data (pred x)). 0 \<le> v \<and> v \<le> 1))"

text \<open>The closed form the loop computes: the mean over the test images of each image's
  mean squared reconstruction error.\<close>

definition mean_sq_err :: "real list \<Rightarrow> real list \<Rightarrow> real" where
  "mean_sq_err ys xs = sum_list (map (\<lambda>(y, x). (y - x) ^ 2) (zip ys xs)) / real (length xs)"

definition test_images :: "real ndarray \<Rightarrow> real ndarray list" where
  "test_images t =
     map (\<lambda>c. \<lparr>shape = sample_shape, data = c\<rparr>) (chunks (prod_list (tl (shape t))) (hd (shape t)) (data t))"

definition avg_loss :: "predictor \<Rightarrow> real ndarray list \<Rightarrow> real" where
  "avg_loss pred xs = sum_list (map (\<lambda>x. mean_sq_err (data (pred x)) (data x)) xs) / real (length xs)"

text \<open>Examples: a predictor that clips its input to \<open>[0, 1]\<close> (it has the output
  shape and range of the sigmoid-terminated autoencoder), a one-image test set of
  black pixels, and a set of RGBA-shaped images.\<close>

definition ex_predictor :: predictor where
  "ex_predictor x = np_map (\<lambda>v. min 1 (max 0 v)) x"

definition ex_test :: "real ndarray" where
  "ex_test = \<lparr>shape = [1, 128, 128, 3], data = replicate 49152 0\<rparr>"

definition ex_test_rgba :: "real ndarray" where
  "ex_test_rgba = \<lparr>shape = [1, 128, 128, 4], data = replicate 65536 0\<rparr>"

section \<open>Lemmas\<close>

lemma sample_shape_size [model_simps]: "prod_list sample_shape = 49152"
  by (simp add: sample_shape_def)

lemma sample_loss_ok:
  assumes "predict_ok pred" and "wf_nd img" and "prod_list (shape img) = 49152"
  shows "sample_loss pred img =
           Inr (Some (mean_sq_err (data (pred (img\<lparr>shape := sample_shape\<rparr>))) (data img)))"
proof -
  let ?x = "img\<lparr>shape := sample_shape\<rparr>"
  have wx: "wf_nd ?x" using assms(2,3) by (simp add: wf_nd_def sample_shape_size)
  then have p: "wf_nd (pred ?x)" "shape (pred ?x) = sample_shape"
    using assms(1) by (auto simp: predict_ok_def)
  have len: "length (data (pred ?x)) = length (data img)"
    using p wx by (simp add: wf_nd_def)
  have ne: "data img \<noteq> []" using assms(2,3) by (auto simp: wf_nd_def)
  have ne2: "data (pred ?x) \<noteq> []" using len ne by auto
  have "np_sub (pred ?x) ?x = Inr \<lparr>shape = sample_shape, data = map2 (-) (data (pred ?x)) (data img)\<rparr>"
    using np_sub_same_shape [OF p(1) wx] p(2) by simp
  then show ?thesis
    using assms(3) p len ne ne2
    by (simp add: sample_loss_def np_reshape_def np_size_def sample_shape_size
        np_map_def np_mean_def mean_sq_err_def case_prod_unfold o_def)
qed

lemma eval_loop_sum:
  "\<forall>img\<in>set imgs. sample_loss pred img = Inr (Some (f img)) \<Longrightarrow>
   eval_loop pred (Some a) imgs = Inr (Some (a + sum_list (map f imgs)))"
  by (induction imgs arbitrary: a) (auto simp: add_loss_def algebra_simps)

lemma evaluate_network_images:
  assumes "predict_ok pred" and "wf_nd t" and "shape t = [n, 128, 128, 3]" and "0 < n"
  shows "evaluate_network pred t =
           Inr (Some (sum_list (map (\<lambda>x. mean_sq_err (data (pred x)) (data x)) (test_images t))
                      / real n))"
proof -
  let ?cs = "chunks 49152 n (data t)"
  have len: "length (data t) = n * 49152" using assms(2,3) by (simp add: wf_nd_def)
  have cl: "\<forall>c\<in>set ?cs. length c = 49152" using len by (auto intro: chunks_elem_length)
  let ?imgs = "map (\<lambda>c. \<lparr>shape = [128, 128, 3], data = c\<rparr>) ?cs"
  have it: "np_iter t = Inr ?imgs" using assms(3) by (simp add: np_iter_def)
  have "\<forall>img\<in>set ?imgs. sample_loss pred img =
          Inr (Some (mean_sq_err (data (pred (img\<lparr>shape := sample_shape\<rparr>))) (data img)))"
  proof
    fix img assume "img \<in> set ?imgs"
    then have "wf_nd img" "prod_list (shape img) = 49152" using cl by (auto simp: wf_nd_def)
    then show "sample_loss pred img =
          Inr (Some (mean_sq_err (data (pred (img\<lparr>shape := sample_shape\<rparr>))) (data img)))"
      by (rule sample_loss_ok [OF assms(1)])
  qed
  from eval_loop_sum [OF this] have
    "eval_loop pred (Some 0) ?imgs = Inr (Some (sum_list (map (\<lambda>x. mean_sq_err (data (pred x)) (data x))
        (test_images t))))"
    using assms(3) by (simp add: test_images_def o_def)
  then show ?thesis using it assms(3,4) by (simp add: evaluate_network_def np_len_def)
qed

lemma mean_sq_err_nonneg: "0 \<le> mean_sq_err ys xs"
  unfolding mean_sq_err_def
  by (intro divide_nonneg_nonneg sum_list_nonneg_real) auto

lemma mean_sq_err_le_1:
  assumes "\<forall>v\<in>set ys. 0 \<le> v \<and> v \<le> (1::real)" and "\<forall>v\<in>set xs. 0 \<le> v \<and> v \<le> 1"
    and "length ys = length xs"
  shows "mean_sq_err ys xs \<le> 1"
proof (cases "xs = []")
  case False
  have "\<forall>p\<in>set (zip ys xs). (fst p - snd p) ^ 2 \<le> (1::real)"
  proof
    fix p assume pz: "p \<in> set (zip ys xs)"
    obtain y x where p: "p = (y, x)" by (cases p)
    have "y \<in> set ys" "x \<in> set xs"
      using pz p by (auto dest: set_zip_leftD set_zip_rightD)
    then have "0 \<le> fst p" "fst p \<le> 1" "0 \<le> snd p" "snd p \<le> 1"
      using assms(1,2) p by auto
    then have "\<bar>fst p - snd p\<bar> \<le> 1" by linarith
    then show "(fst p - snd p) ^ 2 \<le> 1" by (simp add: abs_square_le_1)
  qed
  then have "sum_list (map (\<lambda>(y, x). (y - x) ^ 2) (zip ys xs)) \<le> real (length xs) * 1"
    using sum_list_le_length_real [of "map (\<lambda>(y, x). (y - x) ^ 2) (zip ys xs)" 1] assms(3)
    by (auto simp: case_prod_beta)
  then show ?thesis using False by (simp add: mean_sq_err_def divide_le_eq_1)
qed (simp add: mean_sq_err_def)

lemma mean_sq_err_eq_0_iff:
  assumes "length ys = length xs" and "xs \<noteq> []"
  shows "mean_sq_err ys xs = 0 \<longleftrightarrow> ys = xs"
proof -
  have "mean_sq_err ys xs = 0 \<longleftrightarrow> sum_list (map (\<lambda>(y, x). (y - x) ^ 2) (zip ys xs)) = 0"
    using assms(2) by (simp add: mean_sq_err_def)
  also have "\<dots> \<longleftrightarrow> (\<forall>p\<in>set (zip ys xs). fst p = snd p)"
    by (subst sum_list_eq_0_iff_real) (auto simp: case_prod_beta)
  also have "\<dots> \<longleftrightarrow> ys = xs"
    using assms(1) by (auto simp: list_eq_iff_zip_eq)
  finally show ?thesis .
qed

lemma test_images_length [model_simps]: "shape t = n # s \<Longrightarrow> length (test_images t) = n"
  by (simp add: test_images_def chunks_length)

lemma test_images_data:
  "shape t = n # s \<Longrightarrow> x \<in> set (test_images t) \<Longrightarrow>
   shape x = sample_shape \<and> set (data x) \<subseteq> set (data t)"
  by (auto simp: test_images_def dest!: chunks_subset)

lemma test_images_wf:
  "wf_nd t \<Longrightarrow> shape t = [n, 128, 128, 3] \<Longrightarrow> x \<in> set (test_images t) \<Longrightarrow> wf_nd x"
  by (auto simp: test_images_def wf_nd_def sample_shape_def) (metis chunks_elem_length)

lemma test_images_loss_unit:
  assumes "predict_ok pred" and "predict_unit pred" and "wf_nd t" and "shape t = [n, 128, 128, 3]"
    and "\<forall>v\<in>set (data t). 0 \<le> v \<and> v \<le> 1"
  shows "\<forall>x\<in>set (test_images t). 0 \<le> mean_sq_err (data (pred x)) (data x)
                                  \<and> mean_sq_err (data (pred x)) (data x) \<le> 1"
proof
  fix x assume x: "x \<in> set (test_images t)"
  have sx: "shape x = sample_shape" "set (data x) \<subseteq> set (data t)"
    using test_images_data [OF assms(4) x] by auto
  have wx: "wf_nd x" using test_images_wf [OF assms(3,4) x] .
  have p: "wf_nd (pred x)" "shape (pred x) = sample_shape"
    using assms(1) wx sx by (auto simp: predict_ok_def)
  have "length (data (pred x)) = length (data x)" using p wx sx by (simp add: wf_nd_def)
  moreover have "\<forall>v\<in>set (data (pred x)). 0 \<le> v \<and> v \<le> 1"
    using assms(2) wx sx by (auto simp: predict_unit_def)
  moreover have "\<forall>v\<in>set (data x). 0 \<le> v \<and> v \<le> 1" using assms(5) sx by auto
  ultimately show "0 \<le> mean_sq_err (data (pred x)) (data x) \<and> mean_sq_err (data (pred x)) (data x) \<le> 1"
    by (simp add: mean_sq_err_nonneg mean_sq_err_le_1)
qed

section \<open>Properties of the evaluation\<close>

text \<open>C7: On a well-formed non-empty test set of \<open>(128, 128, 3)\<close> images,
  \<open>evaluate_network\<close> returns (and prints) a number, never nan, and that number is the
  mean over the test images of each image's mean squared reconstruction error: the
  accumulating loop computes the closed-form average.\<close>

theorem evaluate_network_mean:
  assumes "predict_ok pred" and "wf_nd t" and "shape t = [n, 128, 128, 3]" and "0 < n"
  shows "evaluate_network pred t = Inr (Some (avg_loss pred (test_images t)))"
  using evaluate_network_images [OF assms] assms(3) by (simp add: avg_loss_def test_images_length)

text \<open>C13: If the test images do not hold \<open>128 * 128 * 3\<close> values each (for instance
  RGBA images of shape \<open>(128, 128, 4)\<close>), the reshape of line 91 raises a ValueError
  on the first image.\<close>

theorem evaluate_network_bad_size:
  assumes "wf_nd t" and "shape t = n # s" and "0 < n" and "prod_list s \<noteq> 49152"
  shows "evaluate_network pred t = Inl (ValueError CannotReshape)"
proof -
  obtain m where n: "n = Suc m" using assms(3) by (cases n) auto
  have "sample_loss pred \<lparr>shape = s, data = take (prod_list s) (data t)\<rparr> = Inl (ValueError CannotReshape)"
    using assms(4) by (simp add: sample_loss_def np_reshape_def np_size_def sample_shape_size)
  then show ?thesis using assms(2) by (simp add: evaluate_network_def np_iter_def n)
qed

text \<open>C11: When the test samples and the network's outputs lie in \<open>[0, 1]\<close> (normalised
  bytes and sigmoid outputs), the printed test loss lies in \<open>[0, 1]\<close>.\<close>

theorem evaluate_network_bounds:
  assumes "predict_ok pred" and "predict_unit pred" and "wf_nd t" and "shape t = [n, 128, 128, 3]"
    and "0 < n" and "\<forall>v\<in>set (data t). 0 \<le> v \<and> v \<le> 1"
  shows "\<exists>l. evaluate_network pred t = Inr (Some l) \<and> 0 \<le> l \<and> l \<le> 1"
  using evaluate_network_images [OF assms(1,3,4,5)] assms(4,5)
    sum_list_unit_bounds [OF test_images_loss_unit [OF assms(1,2,3,4,6)]]
  by (simp add: test_images_length)

text \<open>C12: The printed loss is zero exactly when the network reconstructs every test
  image exactly.\<close>

theorem evaluate_network_zero_iff:
  assumes "predict_ok pred" and "wf_nd t" and "shape t = [n, 128, 128, 3]" and "0 < n"
  shows "evaluate_network pred t = Inr (Some 0) \<longleftrightarrow> (\<forall>x\<in>set (test_images t). data (pred x) = data x)"
proof -
  let ?f = "\<lambda>x. mean_sq_err (data (pred x)) (data x)"
  have zero: "\<forall>x\<in>set (test_images t). ?f x = 0 \<longleftrightarrow> data (pred x) = data x"
  proof
    fix x assume x: "x \<in> set (test_images t)"
    have sx: "shape x = sample_shape" using test_images_data [OF assms(3) x] by auto
    have wx: "wf_nd x" using test_images_wf [OF assms(2,3) x] .
    have p: "wf_nd (pred x)" "shape (pred x) = sample_shape"
      using assms(1) wx sx by (auto simp: predict_ok_def)
    have "length (data (pred x)) = length (data x)" "data x \<noteq> []"
      using p wx sx by (auto simp: wf_nd_def sample_shape_def)
    then show "?f x = 0 \<longleftrightarrow> data (pred x) = data x" by (rule mean_sq_err_eq_0_iff)
  qed
  have "evaluate_network pred t = Inr (Some 0) \<longleftrightarrow> sum_list (map ?f (test_images t)) = 0"
    using evaluate_network_images [OF assms] assms(4) by simp
  also have "\<dots> \<longleftrightarrow> (\<forall>x\<in>set (test_images t). ?f x = 0)"
    by (subst sum_list_eq_0_iff_real) (auto simp: mean_sq_err_nonneg)
  also have "\<dots> \<longleftrightarrow> (\<forall>x\<in>set (test_images t). data (pred x) = data x)"
    using zero by auto
  finally show ?thesis .
qed

section \<open>Witnesses\<close>

lemma ex_predictor_ok: "predict_ok ex_predictor" "predict_unit ex_predictor"
  by (auto simp: predict_ok_def predict_unit_def ex_predictor_def np_map_def wf_nd_def)

lemma ex_test_wf: "wf_nd ex_test" "shape ex_test = [1, 128, 128, 3]"
  by (simp_all add: ex_test_def wf_nd_def)

theorem evaluate_network_mean_witness:
  "evaluate_network ex_predictor ex_test = Inr (Some (avg_loss ex_predictor (test_images ex_test)))"
  using evaluate_network_mean [OF ex_predictor_ok(1) ex_test_wf] by simp

theorem evaluate_network_bad_size_witness:
  "evaluate_network ex_predictor ex_test_rgba = Inl (ValueError CannotReshape)"
  by (rule evaluate_network_bad_size [of ex_test_rgba 1 "[128, 128, 4]"])
     (simp_all add: ex_test_rgba_def wf_nd_def)

theorem evaluate_network_bounds_witness:
  "\<exists>l. evaluate_network ex_predictor ex_test = Inr (Some l) \<and> 0 \<le> l \<and> l \<le> 1"
  by (rule evaluate_network_bounds [OF ex_predictor_ok ex_test_wf])
     (simp_all add: ex_test_def)

theorem evaluate_network_zero_iff_witness:
  "evaluate_network ex_predictor ex_test = Inr (Some 0)"
proof -
  have "\<forall>x\<in>set (test_images ex_test). data (ex_predictor x) = data x"
    by (simp add: test_images_def ex_test_def ex_predictor_def np_map_def)
  then show ?thesis using evaluate_network_zero_iff [OF ex_predictor_ok(1) ex_test_wf] by simp
qed

end
