(* ===== verification/Training.thy ===== *)
theory Training
  imports Numpy Layers
begin

text \<open>
  \<open>train_network\<close> of lines 59--61, \<open>autoencoder.fit(train_data, train_data,
  epochs=epochs, batch_size=batch_size, shuffle=True)\<close>, as Keras 2 runs it.  The
  data adapter checks that \<open>x\<close> and \<open>y\<close> have equal cardinalities and replaces a
  falsy \<open>batch_size\<close> by 32; with no sample an epoch runs no step and \<open>fit\<close> raises
  its "Empty logs" ValueError; the first step calls the model, which raises on an
  input shape other than the model's \<open>Input\<close> (and the loss on a target of another
  shape than the output from theory \<open>Layers\<close>); with zero epochs nothing runs and
  nothing is checked.  Each epoch draws a permutation of the
  sample indices (the shuffle; the random source is an argument, one permutation per
  epoch), cuts it into consecutive batches of \<open>batch_size\<close> indices (the last one
  shorter), and applies one optimizer step per batch, counting the steps in the
  optimizer's \<open>iterations\<close> variable.  The optimizer step itself (Adam's update from
  the framework's gradients) is a parameter here, supplied by theory \<open>Adam\<close>;
  an invariant of the step holds of the weights after a whole \<open>fit\<close>.
\<close>

record 'w train_state =
  weights :: 'w
  iterations :: nat

text \<open>One optimizer step: the step number (\<open>iterations + 1\<close>, which Adam's bias
  correction uses), the weights, the input batch and the target batch.\<close>

type_synonym 'w step_fn = "nat \<Rightarrow> 'w \<Rightarrow> real ndarray \<Rightarrow> real ndarray \<Rightarrow> 'w"

text \<open>The shuffle: the permutation of the sample indices drawn for each epoch.\<close>

type_synonym shuffler = "nat \<Rightarrow> nat list"

function batches :: "nat \<Rightarrow> 'a list \<Rightarrow> 'a list list" where
  "batches bs xs = (if xs = [] \<or> bs = 0 then [] else take bs xs # batches bs (drop bs xs))"
  by pat_completeness auto
termination
  by (relation "measure (\<lambda>(bs, xs). length xs)") auto

declare batches.simps [simp del]

text \<open>\<open>x[idx]\<close>: the samples at the given indices, stacked.\<close>

definition gather :: "real ndarray \<Rightarrow> nat list \<Rightarrow> real ndarray" where
  "gather a idx =
     (let k = prod_list (tl (shape a))
      in \<lparr>shape = length idx # tl (shape a), data = concat (map (\<lambda>i. take k (drop (i * k) (data a))) idx)\<rparr>)"

definition train_step :: "'w step_fn \<Rightarrow> real ndarray \<Rightarrow> real ndarray \<Rightarrow> 'w train_state \<Rightarrow> nat list
    \<Rightarrow> 'w train_state" where
  "train_step step x y st b =
     st\<lparr>weights := step (Suc (iterations st)) (weights st) (gather x b) (gather y b),
        iterations := Suc (iterations st)\<rparr>"

definition train_epoch :: "'w step_fn \<Rightarrow> nat \<Rightarrow> real ndarray \<Rightarrow> real ndarray \<Rightarrow> nat list
    \<Rightarrow> 'w train_state \<Rightarrow> 'w train_state" where
  "train_epoch step bs x y perm st = fold (\<lambda>b s. train_step step x y s b) (batches bs perm) st"

fun train_epochs :: "'w step_fn \<Rightarrow> nat \<Rightarrow> real ndarray \<Rightarrow> real ndarray \<Rightarrow> shuffler \<Rightarrow> nat
    \<Rightarrow> nat \<Rightarrow> 'w train_state \<Rightarrow> 'w train_state" where
  "train_epochs step bs x y sh e 0 st = st"
| "train_epochs step bs x y sh e (Suc k) st =
     train_epochs step bs x y sh (Suc e) k (train_epoch step bs x y (sh e) st)"

definition fit :: "'w step_fn \<Rightarrow> shuffler \<Rightarrow> real ndarray \<Rightarrow> real ndarray \<Rightarrow> nat \<Rightarrow> nat
    \<Rightarrow> 'w train_state \<Rightarrow> 'w train_state result" where
  "fit step sh x y epochs batch_size st =
     (case (shape x, shape y) of
        (n # sx, m # sy) \<Rightarrow>
          if n \<noteq> m then Inl (ValueError CardinalityMismatch)
          else if epochs = 0 then Inr st
          else if n = 0 then Inl (ValueError EmptyTrainingData)
          else if sx \<noteq> input_shape then Inl (ValueError IncompatibleInput)
          else if Inr sy \<noteq> infer autoencoder_layers input_shape then Inl (ValueError IncompatibleInput)
          else Inr (train_epochs step (if batch_size = 0 then 32 else batch_size) x y sh 0 epochs st)
      | _ \<Rightarrow> Inl (ValueError IncompatibleInput))"

definition train_network :: "'w step_fn \<Rightarrow> shuffler \<Rightarrow> real ndarray \<Rightarrow> nat \<Rightarrow> nat
    \<Rightarrow> 'w train_state \<Rightarrow> 'w train_state result" where
  "train_network step sh train_data epochs batch_size st =
     fit step sh train_data train_data epochs batch_size st"

text \<open>The index batches an epoch feeds, and the whole run's sequence of them.\<close>

definition epoch_batches :: "nat \<Rightarrow> shuffler \<Rightarrow> nat \<Rightarrow> nat list list" where
  "epoch_batches bs sh e = batches bs (sh e)"

fun run_batches :: "nat \<Rightarrow> shuffler \<Rightarrow> nat \<Rightarrow> nat \<Rightarrow> nat list list" where
  "run_batches bs sh e 0 = []"
| "run_batches bs sh e (Suc k) = epoch_batches bs sh e @ run_batches bs sh (Suc e) k"

definition shuffle_ok :: "shuffler \<Rightarrow> nat \<Rightarrow> nat \<Rightarrow> bool" where
  "shuffle_ok sh n epochs \<longleftrightarrow> (\<forall>e < epochs. mset (sh e) = mset [0..<n])"

text \<open>Example: two black training images, an identity shuffle source that reverses
  the order, and an optimizer step that counts the samples it sees.\<close>

definition ex_train :: "real ndarray" where
  "ex_train = \<lparr>shape = [2, 128, 128, 3], data = replicate 98304 0\<rparr>"

section \<open>Lemmas\<close>

lemma batches_Nil [model_simps]: "batches bs [] = []"
  by (subst batches.simps) simp

lemma batches_zero [model_simps]: "batches 0 xs = []"
  by (subst batches.simps) simp

lemma batches_nonempty:
  "0 < bs \<Longrightarrow> xs \<noteq> [] \<Longrightarrow> batches bs xs = take bs xs # batches bs (drop bs xs)"
  by (subst batches.simps) simp

lemma concat_batches [model_simps]: "0 < bs \<Longrightarrow> concat (batches bs xs) = xs"
proof (induction bs xs rule: batches.induct)
  case (1 bs xs)
  show ?case
  proof (cases "xs = []")
    case True
    then show ?thesis by (simp add: batches_Nil)
  next
    case False
    have "concat (batches bs (drop bs xs)) = drop bs xs" using "1.IH" "1.prems" False by blast
    then show ?thesis using "1.prems" False by (simp add: batches_nonempty)
  qed
qed

lemma batches_bounds: "b \<in> set (batches bs xs) \<Longrightarrow> 0 < length b \<and> length b \<le> bs"
proof (induction bs xs rule: batches.induct)
  case (1 bs xs)
  show ?case
  proof (cases "xs = [] \<or> bs = 0")
    case True
    then have "batches bs xs = []" by (auto simp: batches_Nil batches_zero)
    with "1.prems" show ?thesis by simp
  next
    case False
    then have "batches bs xs = take bs xs # batches bs (drop bs xs)" by (simp add: batches_nonempty)
    with "1.prems" have "b = take bs xs \<or> b \<in> set (batches bs (drop bs xs))" by simp
    then show ?thesis
    proof
      assume "b = take bs xs"
      with False show ?thesis by simp
    next
      assume "b \<in> set (batches bs (drop bs xs))"
      with False show ?thesis by (rule "1.IH")
    qed
  qed
qed

lemma length_batches [model_simps]: "0 < bs \<Longrightarrow> length (batches bs xs) = cdiv (length xs) bs"
proof (induction bs xs rule: batches.induct)
  case (1 bs xs)
  show ?case
  proof (cases "xs = []")
    case True
    then show ?thesis by (simp add: batches_Nil cdiv_zero)
  next
    case False
    have "length (batches bs (drop bs xs)) = cdiv (length xs - bs) bs"
      using "1.IH" "1.prems" False by simp
    moreover have "cdiv (length xs) bs = Suc (cdiv (length xs - bs) bs)"
      using "1.prems" False by (simp add: cdiv_step)
    ultimately show ?thesis using "1.prems" False by (simp add: batches_nonempty)
  qed
qed

lemma iterations_fold_step:
  "iterations (fold (\<lambda>b s. train_step step x y s b) bs st) = iterations st + length bs"
  by (induction bs arbitrary: st) (simp_all add: train_step_def)

lemma train_epochs_fold:
  "train_epochs step bs x y sh e k st = fold (\<lambda>b s. train_step step x y s b) (run_batches bs sh e k) st"
  by (induction k arbitrary: e st) (simp_all add: train_epoch_def epoch_batches_def)

lemma length_run_batches:
  "0 < bs \<Longrightarrow> \<forall>j<k. length (sh (e + j)) = n \<Longrightarrow> length (run_batches bs sh e k) = k * cdiv n bs"
proof (induction k arbitrary: e)
  case (Suc k)
  have "\<forall>j<k. length (sh (Suc e + j)) = n" using Suc.prems(2) by auto
  with Suc.IH [OF Suc.prems(1)] have "length (run_batches bs sh (Suc e) k) = k * cdiv n bs" .
  moreover have "length (sh e) = n" using Suc.prems(2) by (metis add_0_right zero_less_Suc)
  ultimately show ?case using Suc.prems(1) by (simp add: epoch_batches_def length_batches)
qed simp

lemma mset_run_batches:
  "0 < bs \<Longrightarrow> \<forall>j<k. mset (sh (e + j)) = M \<Longrightarrow>
   mset (concat (run_batches bs sh e k)) = repeat_mset k M"
proof (induction k arbitrary: e)
  case (Suc k)
  have "\<forall>j<k. mset (sh (Suc e + j)) = M" using Suc.prems(2) by auto
  with Suc.IH [OF Suc.prems(1)] have "mset (concat (run_batches bs sh (Suc e) k)) = repeat_mset k M" .
  moreover have "mset (sh e) = M" using Suc.prems(2) by (metis add_0_right zero_less_Suc)
  ultimately show ?case using Suc.prems(1) by (simp add: epoch_batches_def concat_batches)
qed simp

lemma run_batches_concat:
  "run_batches bs sh e k = concat (map (epoch_batches bs sh) [e..<e + k])"
  by (induction k arbitrary: e) (simp_all add: upt_rec)

lemma train_network_eq:
  "train_network step sh x epochs bs st =
     (case shape x of
        [] \<Rightarrow> Inl (ValueError IncompatibleInput)
      | n # s \<Rightarrow>
          if epochs = 0 then Inr st
          else if n = 0 then Inl (ValueError EmptyTrainingData)
          else if s \<noteq> input_shape then Inl (ValueError IncompatibleInput)
          else Inr (train_epochs step (if bs = 0 then 32 else bs) x x sh 0 epochs st))"
  by (simp add: train_network_def fit_def autoencoder_output_input_shape split: list.splits)

lemma shuffle_ok_length:
  "shuffle_ok sh n epochs \<Longrightarrow> \<forall>j<epochs. length (sh (0 + j)) = n"
proof (intro allI impI)
  fix j assume "shuffle_ok sh n epochs" and "j < epochs"
  then have "mset (sh j) = mset [0..<n]" unfolding shuffle_ok_def by blast
  then have "length (sh j) = length [0..<n]" by (rule mset_eq_length)
  then show "length (sh (0 + j)) = n" by simp
qed

lemma train_network_run:
  assumes "shape x = n # input_shape" and "0 < n" and "0 < bs"
  shows "train_network step sh x epochs bs st =
           Inr (fold (\<lambda>b s. train_step step x x s b) (run_batches bs sh 0 epochs) st)"
  using assms by (simp add: train_network_eq train_epochs_fold)

lemma iterations_run:
  assumes "shuffle_ok sh n epochs" and "0 < bs"
  shows "iterations (fold (\<lambda>b s. train_step step x y s b) (run_batches bs sh 0 epochs) st)
           = iterations st + epochs * cdiv n bs"
  using length_run_batches [OF assms(2) shuffle_ok_length [OF assms(1)]]
  by (simp add: iterations_fold_step)

lemma weights_fold_invariant:
  "I (weights st) \<Longrightarrow> \<forall>t w xb yb. I w \<longrightarrow> I (step t w xb yb) \<Longrightarrow>
   I (weights (fold (\<lambda>b s. train_step step x y s b) bs st))"
  by (induction bs arbitrary: st) (simp_all add: train_step_def)

lemma train_network_invariant:
  assumes "train_network step sh x epochs bs st = Inr st'" and "I (weights st)"
    and "\<forall>t w xb yb. I w \<longrightarrow> I (step t w xb yb)"
  shows "I (weights st')"
  using assms weights_fold_invariant [of I st step]
  by (auto simp: train_network_eq train_epochs_fold split: list.splits if_splits)

section \<open>Properties of training\<close>

text \<open>C10: With a positive batch size, an epoch's batches cut the shuffled index list
  into \<open>\<lceil>n / batch_size\<rceil>\<close> consecutive non-empty batches of at most
  \<open>batch_size\<close> indices that concatenate back to the list: the batching loop ends
  and loses and duplicates nothing.\<close>

theorem batches_partition:
  assumes "0 < bs"
  shows "concat (batches bs xs) = xs \<and> length (batches bs xs) = cdiv (length xs) bs
         \<and> (\<forall>b\<in>set (batches bs xs). 0 < length b \<and> length b \<le> bs)"
  using assms by (auto simp: concat_batches length_batches dest: batches_bounds)

text \<open>C8: On a well-formed call (training data of shape \<open>(n, 128, 128, 3)\<close> with
  \<open>n > 0\<close>, a positive batch size, a permutation per epoch), \<open>train_network\<close>
  returns the state reached by one optimizer step per batch of the run, in order, and
  the optimizer's step counter has advanced by \<open>epochs * \<lceil>n / batch_size\<rceil>\<close>.\<close>

theorem train_network_steps:
  assumes "shape x = n # input_shape" and "0 < n" and "0 < bs" and "shuffle_ok sh n epochs"
  shows "\<exists>st'. train_network step sh x epochs bs st = Inr st'
           \<and> st' = fold (\<lambda>b s. train_step step x x s b) (run_batches bs sh 0 epochs) st
           \<and> iterations st' = iterations st + epochs * cdiv n bs"
  using train_network_run [OF assms(1-3), of step sh epochs st]
    iterations_run [OF assms(4,3), of step x x st] by simp

text \<open>C9: Over the whole run every training sample is fed to the optimizer exactly
  once per epoch, and nothing else is fed.\<close>

theorem run_batches_each_sample:
  assumes "shuffle_ok sh n epochs" and "0 < bs"
  shows "mset (concat (run_batches bs sh 0 epochs)) = repeat_mset epochs (mset [0..<n])"
proof -
  have "\<forall>j<epochs. mset (sh (0 + j)) = mset [0..<n]" using assms(1) by (simp add: shuffle_ok_def)
  with assms(2) show ?thesis by (rule mset_run_batches)
qed

text \<open>C24: Within each epoch of a \<open>fit\<close> call, every training sample is eventually
  fed to the optimizer: for epoch \<open>e\<close> and sample \<open>i\<close> there is a step among that
  epoch's \<open>\<lceil>n / batch_size\<rceil>\<close> steps whose batch holds \<open>i\<close>.\<close>

theorem fit_feeds_every_sample:
  assumes "shuffle_ok sh n epochs" and "0 < bs" and "e < epochs" and "i < n"
  shows "\<exists>k. e * cdiv n bs \<le> k \<and> k < Suc e * cdiv n bs \<and> k < length (run_batches bs sh 0 epochs)
             \<and> i \<in> set (run_batches bs sh 0 epochs ! k)"
proof -
  let ?B = "cdiv n bs"
  have len: "length (sh e') = n" if "e' < epochs" for e'
    using shuffle_ok_length [OF assms(1)] that by simp
  have blocks: "\<forall>xs\<in>set (map (epoch_batches bs sh) [0..<epochs]). length xs = ?B"
    using len assms(2) by (auto simp: epoch_batches_def length_batches)
  have "i \<in> set (sh e)"
    using assms(1,3,4) unfolding shuffle_ok_def by (metis atLeastLessThan_iff set_mset_mset set_upt zero_le)
  then have "i \<in> set (concat (batches bs (sh e)))" using assms(2) by (simp add: concat_batches)
  then obtain r where r: "r < length (batches bs (sh e))" and ir: "i \<in> set (batches bs (sh e) ! r)"
    by (metis in_set_conv_nth set_concat UN_E)
  have rB: "r < ?B" using r len [OF assms(3)] assms(2) by (simp add: length_batches)
  have "run_batches bs sh 0 epochs ! (e * ?B + r) = batches bs (sh e) ! r"
    using nth_concat_const [OF blocks, of e r] assms(3) rB
    by (simp add: run_batches_concat epoch_batches_def)
  moreover have "length (run_batches bs sh 0 epochs) = epochs * ?B"
    using length_run_batches [OF assms(2) shuffle_ok_length [OF assms(1)]] by simp
  moreover have "e * ?B + r < epochs * ?B"
  proof -
    have "e * ?B + r < Suc e * ?B" using rB by simp
    also have "\<dots> \<le> epochs * ?B" using assms(3) by (intro mult_right_mono) simp_all
    finally show ?thesis .
  qed
  ultimately show ?thesis using ir rB by (intro exI [of _ "e * ?B + r"]) simp
qed

section \<open>Witnesses\<close>

theorem batches_partition_witness:
  "concat (batches 16 [0..<40]) = [0..<40] \<and> length (batches 16 [0..<(40::nat)]) = 3"
proof -
  have "cdiv 40 16 = 3" by (simp add: cdiv_def)
  then show ?thesis using batches_partition [of 16 "[0..<40]"] by simp
qed

theorem train_network_steps_witness:
  "\<exists>st'. train_network (\<lambda>t w xb yb. w + length (data xb)) (\<lambda>e. [1, 0]) ex_train 50 16
           \<lparr>weights = 0, iterations = 0\<rparr> = Inr st' \<and> iterations st' = 50"
proof -
  have sh: "shape ex_train = 2 # input_shape" by (simp add: ex_train_def input_shape_def)
  have ok: "shuffle_ok (\<lambda>e. [1, 0]) 2 50"
    unfolding shuffle_ok_def by (simp add: numeral_2_eq_2 del: mset_upt)
  have c: "cdiv 2 16 = 1" by (simp add: cdiv_def)
  show ?thesis
    using train_network_steps [OF sh _ _ ok, of 16, where step = "\<lambda>t w xb yb. w + length (data xb)"
        and st = "\<lparr>weights = 0, iterations = 0\<rparr>"] c by auto
qed

theorem run_batches_each_sample_witness:
  "mset (concat (run_batches 16 (\<lambda>e. [1, 0]) 0 50)) = repeat_mset 50 (mset [0..<2])"
proof -
  have ok: "shuffle_ok (\<lambda>e. [1, 0]) 2 50"
    unfolding shuffle_ok_def by (simp add: numeral_2_eq_2 del: mset_upt)
  show ?thesis using run_batches_each_sample [OF ok, of 16] by simp
qed

theorem fit_feeds_every_sample_witness:
  "\<exists>k. 0 * cdiv 2 16 \<le> k \<and> k < Suc 0 * cdiv 2 16 \<and> k < length (run_batches 16 (\<lambda>e. [1, 0]) 0 50)
       \<and> 1 \<in> set (run_batches 16 (\<lambda>e. [1, 0]) 0 50 ! k)"
proof -
  have ok: "shuffle_ok (\<lambda>e. [1, 0]) 2 50"
    unfolding shuffle_ok_def by (simp add: numeral_2_eq_2 del: mset_upt)
  show ?thesis using fit_feeds_every_sample [OF ok, of 16 0 1] by simp
qed

end
