(* ===== verification/Weights.thy ===== *)
theory Weights
  imports Loader Training
begin

text \<open>
  \<open>save_model\<close> and \<open>load_model\<close> of lines 79--85.  The files the weights are
  written to are a map from paths to the weight values saved there.  Keras' behaviour
  depends on its major version: Keras 2 (TensorFlow up to 2.15) writes HDF5 to any
  path; Keras 3 (TensorFlow 2.16 and later) refuses, in \<open>save_weights\<close>, a path that
  does not end in \<open>.weights.h5\<close>, and still reads legacy \<open>.h5\<close> files in
  \<open>load_weights\<close>.  Loading a path that was never written fails; loading replaces
  the weights and leaves the optimizer's state alone.
\<close>

datatype keras_version = Keras2 | Keras3

type_synonym 'w weight_files = "string \<rightharpoonup> 'w"

definition weights_path :: string where
  "weights_path = ''autoencoder_weights.h5''"

definition save_weights :: "keras_version \<Rightarrow> string \<Rightarrow> 'w \<Rightarrow> 'w weight_files \<Rightarrow> 'w weight_files result" where
  "save_weights kv path w files =
     (if kv = Keras3 \<and> \<not> endswith path ''.weights.h5'' then Inl (ValueError WeightsFilename)
      else Inr (files(path \<mapsto> w)))"

definition load_weights :: "string \<Rightarrow> 'w weight_files \<Rightarrow> 'w result" where
  "load_weights path files =
     (case files path of None \<Rightarrow> Inl (FileNotFoundError path) | Some w \<Rightarrow> Inr w)"

definition save_model :: "keras_version \<Rightarrow> 'w train_state \<Rightarrow> 'w weight_files \<Rightarrow> 'w weight_files result" where
  "save_model kv st files = save_weights kv weights_path (weights st) files"

definition load_model :: "'w train_state \<Rightarrow> 'w weight_files \<Rightarrow> 'w train_state result" where
  "load_model st files =
     (case load_weights weights_path files of Inl e \<Rightarrow> Inl e | Inr w \<Rightarrow> Inr (st\<lparr>weights := w\<rparr>))"

end
