(* ===== verification/Visualize.thy ===== *)
theory Visualize
  imports Evaluate Pixels
begin

text \<open>
  \<open>display_image\<close> (lines 20--25) and \<open>visualize_results\<close> (lines 63--77).  The
  script's matplotlib calls are a list of \<open>plt_call\<close> values, and \<open>plt_step\<close>
  gives pyplot's state machine: the open figures (the last one current, each
  with its axes and current axes), and the figures shown so far.  \<open>plt.subplot\<close>,
  \<open>plt.imshow\<close>, \<open>plt.title\<close> and \<open>plt.axis\<close> act on the current figure,
  creating a default-size one when none is open (\<open>plt.gcf()\<close>), and on its
  current axes, creating a full-figure \<open>(1, 1, 1)\<close> axes when it has none
  (\<open>plt.gca()\<close>); \<open>plt.show()\<close> shows every open figure and closes them, as
  the notebook (inline) backend of the script's \<open>/content\<close> setting does.
  The loop takes the first five images, reshapes each (raising if it does not
  hold \<open>128 * 128 * 3\<close> values), predicts on a batch of one, converts the
  prediction to bytes as line 68 does and issues the calls of lines 70--77.
\<close>

datatype shown = Float_Image "real ndarray" | Byte_Image "u8 ndarray"

datatype plt_call = Figure "nat \<times> nat" | Subplot "nat \<times> nat \<times> nat" | Imshow shown
  | Title string | Axis_off | Show

record axes =
  ax_pos :: "nat \<times> nat \<times> nat"
  ax_image :: "shown option"
  ax_title :: string
  ax_on :: bool

record figure =
  fig_size :: "(nat \<times> nat) option"
  fig_axes :: "axes list"
  fig_cur :: "nat option"

record plt_state =
  open_figs :: "figure list"
  shown_figs :: "figure list"

definition new_axes :: "nat \<times> nat \<times> nat \<Rightarrow> axes" where
  "new_axes pos = \<lparr>ax_pos = pos, ax_image = None, ax_title = [], ax_on = True\<rparr>"

definition new_figure :: "(nat \<times> nat) option \<Rightarrow> figure" where
  "new_figure sz = \<lparr>fig_size = sz, fig_axes = [], fig_cur = None\<rparr>"

fun find_pos :: "nat \<times> nat \<times> nat \<Rightarrow> axes list \<Rightarrow> nat option" where
  "find_pos pos [] = None"
| "find_pos pos (a # axs) = (if ax_pos a = pos then Some 0 else map_option Suc (find_pos pos axs))"

definition add_axes :: "nat \<times> nat \<times> nat \<Rightarrow> figure \<Rightarrow> figure" where
  "add_axes pos f = f\<lparr>fig_axes := fig_axes f @ [new_axes pos], fig_cur := Some (length (fig_axes f))\<rparr>"

text \<open>\<open>plt.subplot(r, c, i)\<close>: the axes at that position of the current figure,
  made current, or a new one.\<close>

definition fig_subplot :: "nat \<times> nat \<times> nat \<Rightarrow> figure \<Rightarrow> figure" where
  "fig_subplot pos f = (case find_pos pos (fig_axes f) of Some i \<Rightarrow> f\<lparr>fig_cur := Some i\<rparr> | None \<Rightarrow> add_axes pos f)"

text \<open>An update of the current axes (\<open>plt.gca()\<close>).\<close>

definition update_gca :: "(axes \<Rightarrow> axes) \<Rightarrow> figure \<Rightarrow> figure" where
  "update_gca g f =
     (let f' = (case fig_cur f of None \<Rightarrow> add_axes (1, 1, 1) f | Some i \<Rightarrow> f) in
      case fig_cur f' of None \<Rightarrow> f' | Some i \<Rightarrow> f'\<lparr>fig_axes := (fig_axes f')[i := g (fig_axes f' ! i)]\<rparr>)"

text \<open>An update of the current figure (\<open>plt.gcf()\<close>).\<close>

definition on_gcf :: "(figure \<Rightarrow> figure) \<Rightarrow> plt_state \<Rightarrow> plt_state" where
  "on_gcf g st =
     (let figs = (if open_figs st = [] then [new_figure None] else open_figs st) in
      st\<lparr>open_figs := butlast figs @ [g (last figs)]\<rparr>)"

primrec plt_step :: "plt_call \<Rightarrow> plt_state \<Rightarrow> plt_state" where
  "plt_step (Figure sz) st = st\<lparr>open_figs := open_figs st @ [new_figure (Some sz)]\<rparr>"
| "plt_step (Subplot pos) st = on_gcf (fig_subplot pos) st"
| "plt_step (Imshow img) st = on_gcf (update_gca (\<lambda>a. a\<lparr>ax_image := Some img\<rparr>)) st"
| "plt_step (Title t) st = on_gcf (update_gca (\<lambda>a. a\<lparr>ax_title := t\<rparr>)) st"
| "plt_step Axis_off st = on_gcf (update_gca (\<lambda>a. a\<lparr>ax_on := False\<rparr>)) st"
| "plt_step Show st = \<lparr>open_figs = [], shown_figs = shown_figs st @ open_figs st\<rparr>"

definition plt_run :: "plt_call list \<Rightarrow> plt_state \<Rightarrow> plt_state" where
  "plt_run calls st = fold plt_step calls st"

definition display_image :: "shown \<Rightarrow> string \<Rightarrow> plt_call list" where
  "display_image image_data title = [Imshow image_data, Title title, Axis_off, Show]"

text \<open>\<open>a[0]\<close>: the first sub-array along the first axis.\<close>

definition np_first :: "'a ndarray \<Rightarrow> 'a ndarray result" where
  "np_first a =
     (case shape a of
        [] \<Rightarrow> Inl IndexError
      | n # s \<Rightarrow> if n = 0 then Inl IndexError
                else Inr \<lparr>shape = s, data = take (prod_list s) (data a)\<rparr>)"

text \<open>Lines 70--77 for one image \<open>img\<close> and its prediction \<open>out\<close>.\<close>

definition compare_calls :: "shown \<Rightarrow> shown \<Rightarrow> plt_call list" where
  "compare_calls img out =
     [Figure (12, 4), Subplot (1, 3, 1)] @ display_image img ''Original''
     @ [Subplot (1, 3, 2)] @ display_image out ''Colorized Output''
     @ [Subplot (1, 3, 3)] @ display_image img ''Original'' @ [Show]"

definition visualize_one :: "predictor \<Rightarrow> real ndarray \<Rightarrow> plt_call list result" where
  "visualize_one pred img0 =
     bindr (np_reshape [128, 128, 3] img0) (\<lambda>img.
     bindr (np_reshape [1, 128, 128, 3] img) (\<lambda>x.
     bindr (np_first (pred x)) (\<lambda>out.
       Inr (compare_calls (Float_Image img) (Byte_Image (to_uint8_array out))))))"

fun visualize_loop :: "predictor \<Rightarrow> real ndarray list \<Rightarrow> plt_call list result" where
  "visualize_loop pred [] = Inr []"
| "visualize_loop pred (img # imgs) =
     bindr (visualize_one pred img) (\<lambda>calls.
     bindr (visualize_loop pred imgs) (\<lambda>rest. Inr (calls @ rest)))"

definition visualize_results :: "predictor \<Rightarrow> real ndarray \<Rightarrow> plt_call list result" where
  "visualize_results pred train_data =
     bindr (np_slice_first 5 train_data) (\<lambda>first. bindr (np_iter first) (visualize_loop pred))"

text \<open>What a shown figure looks like: its size (\<open>None\<close> for the default) and, for
  each axes, its grid position, title and whether its axis lines are drawn.\<close>

definition fig_layout :: "figure \<Rightarrow> (nat \<times> nat) option \<times> ((nat \<times> nat \<times> nat) \<times> string \<times> bool) list" where
  "fig_layout f = (fig_size f, map (\<lambda>a. (ax_pos a, ax_title a, ax_on a)) (fig_axes f))"

text \<open>The three figures the user sees for each image when lines 70--77 run with no
  figure open.\<close>

definition compare_layout :: "((nat \<times> nat) option \<times> ((nat \<times> nat \<times> nat) \<times> string \<times> bool) list) list" where
  "compare_layout =
     [(Some (12, 4), [((1, 3, 1), ''Original'', False)]),
      (None, [((1, 3, 2), ''Colorized Output'', False)]),
      (None, [((1, 3, 3), ''Original'', False)])]"

section \<open>Lemmas\<close>

lemma plt_run_append [simp]:
  "plt_run (xs @ ys) st = plt_run ys (plt_run xs st)"
  by (simp add: plt_run_def)

text \<open>Lines 70--77 from a state with no open figure: the \<open>plt.show()\<close> inside
  \<open>display_image\<close> shows and closes the \<open>12 x 4\<close> figure after its first subplot,
  so each later \<open>plt.subplot\<close> opens a new default-size figure holding one axes,
  and the final \<open>plt.show()\<close> has nothing left to show.\<close>

lemma plt_run_compare:
  assumes "open_figs st = []"
  shows "plt_run (compare_calls a b) st =
     \<lparr>open_figs = [], shown_figs = shown_figs st @
       [\<lparr>fig_size = Some (12, 4), fig_axes = [\<lparr>ax_pos = (1, 3, 1), ax_image = Some a,
            ax_title = ''Original'', ax_on = False\<rparr>], fig_cur = Some 0\<rparr>,
        \<lparr>fig_size = None, fig_axes = [\<lparr>ax_pos = (1, 3, 2), ax_image = Some b,
            ax_title = ''Colorized Output'', ax_on = False\<rparr>], fig_cur = Some 0\<rparr>,
        \<lparr>fig_size = None, fig_axes = [\<lparr>ax_pos = (1, 3, 3), ax_image = Some a,
            ax_title = ''Original'', ax_on = False\<rparr>], fig_cur = Some 0\<rparr>]\<rparr>"
  using assms
  by (cases st) (simp add: plt_run_def compare_calls_def display_image_def on_gcf_def fig_subplot_def
      update_gca_def add_axes_def new_axes_def new_figure_def)

lemma visualize_one_ok:
  assumes "predict_ok pred" and "wf_nd img" and "shape img = [128, 128, 3]"
  shows "\<exists>out. visualize_one pred img = Inr (compare_calls (Float_Image img) (Byte_Image (to_uint8_array out)))
         \<and> shape out = [128, 128, 3] \<and> set (data out) \<subseteq> set (data (pred (img\<lparr>shape := [1, 128, 128, 3]\<rparr>)))"
proof -
  let ?x = "img\<lparr>shape := [1, 128, 128, 3]\<rparr>"
  have wx: "wf_nd ?x" using assms(2,3) by (simp add: wf_nd_def)
  then have p: "shape (pred ?x) = [1, 128, 128, 3]"
    using assms(1) by (auto simp: predict_ok_def sample_shape_def)
  let ?out = "\<lparr>shape = [128, 128, 3], data = take 49152 (data (pred ?x))\<rparr>"
  have "visualize_one pred img = Inr (compare_calls (Float_Image img) (Byte_Image (to_uint8_array ?out)))"
  proof -
    have e: "img\<lparr>shape := [128, 128, 3]\<rparr> = img" using assms(3) by (cases img) simp
    show ?thesis using assms(3) p by (simp add: visualize_one_def np_reshape_def np_size_def np_first_def e)
  qed
  then show ?thesis by (intro exI [of _ ?out]) (simp add: set_take_subset)
qed

lemma visualize_loop_figures:
  assumes "predict_ok pred" and "\<forall>img\<in>set imgs. wf_nd img \<and> shape img = [128, 128, 3]"
  shows "\<exists>calls. visualize_loop pred imgs = Inr calls
           \<and> (\<forall>st. open_figs st = [] \<longrightarrow> (\<exists>figs. plt_run calls st = \<lparr>open_figs = [], shown_figs = shown_figs st @ figs\<rparr>
                \<and> map fig_layout figs = concat (replicate (length imgs) compare_layout)))"
  using assms(2)
proof (induction imgs)
  case Nil
  show ?case by (simp add: plt_run_def)
next
  case (Cons img imgs)
  then obtain out where v: "visualize_one pred img =
           Inr (compare_calls (Float_Image img) (Byte_Image (to_uint8_array out)))"
    using visualize_one_ok [OF assms(1)] by fastforce
  obtain rest where r: "visualize_loop pred imgs = Inr rest"
    and rf: "\<forall>st. open_figs st = [] \<longrightarrow> (\<exists>figs. plt_run rest st = \<lparr>open_figs = [], shown_figs = shown_figs st @ figs\<rparr>
                \<and> map fig_layout figs = concat (replicate (length imgs) compare_layout))"
    using Cons by auto
  show ?case
  proof (rule exI, rule conjI)
    show "visualize_loop pred (img # imgs) = Inr (compare_calls (Float_Image img) (Byte_Image (to_uint8_array out)) @ rest)"
      using v r by simp
  next
    let ?c = "compare_calls (Float_Image img) (Byte_Image (to_uint8_array out))"
    show "\<forall>st. open_figs st = [] \<longrightarrow> (\<exists>figs. plt_run (?c @ rest) st =
        \<lparr>open_figs = [], shown_figs = shown_figs st @ figs\<rparr>
        \<and> map fig_layout figs = concat (replicate (length (img # imgs)) compare_layout))"
    proof (intro allI impI)
      fix st :: plt_state assume "open_figs st = []"
      obtain fs where c: "plt_run ?c st = \<lparr>open_figs = [], shown_figs = shown_figs st @ fs\<rparr>"
        and fl: "map fig_layout fs = compare_layout"
        using plt_run_compare [OF \<open>open_figs st = []\<close>] by (simp add: fig_layout_def compare_layout_def)
      have "open_figs (plt_run ?c st) = []" using c by simp
      then obtain figs where "plt_run rest (plt_run ?c st) =
          \<lparr>open_figs = [], shown_figs = shown_figs (plt_run ?c st) @ figs\<rparr>"
        and "map fig_layout figs = concat (replicate (length imgs) compare_layout)"
        using rf by blast
      then show "\<exists>figs. plt_run (?c @ rest) st = \<lparr>open_figs = [], shown_figs = shown_figs st @ figs\<rparr>
          \<and> map fig_layout figs = concat (replicate (length (img # imgs)) compare_layout)"
        using fl c by (intro exI [of _ "fs @ figs"]) simp
    qed
  qed
qed

lemma visualize_results_loop:
  assumes "wf_nd t" and "shape t = [n, 128, 128, 3]"
  shows "\<exists>imgs. visualize_results pred t = visualize_loop pred imgs \<and> length imgs = min 5 n
           \<and> (\<forall>img\<in>set imgs. wf_nd img \<and> shape img = [128, 128, 3])"
proof -
  let ?f = "\<lparr>shape = [min 5 n, 128, 128, 3], data = take (min 5 n * 49152) (data t)\<rparr>"
  have sl: "np_slice_first 5 t = Inr ?f" using assms(2) by (simp add: np_slice_first_def)
  have wf: "wf_nd ?f" using assms by (simp add: wf_nd_def min_def)
  obtain imgs where it: "np_iter ?f = Inr imgs" by (simp add: np_iter_def)
  have "length imgs = min 5 n" using np_iter_length [OF it] by simp
  moreover have "\<forall>img\<in>set imgs. wf_nd img \<and> shape img = [128, 128, 3]"
    using it wf_np_iter [OF wf it] by (auto simp: np_iter_def)
  ultimately show ?thesis using sl it by (auto simp: visualize_results_def)
qed

section \<open>Properties of the visualisation\<close>

text \<open>C14: On well-formed \<open>(n, 128, 128, 3)\<close> data and with no figure open,
  \<open>visualize_results\<close> does not raise and leaves no figure open, and the user sees,
  for each of the first \<open>min(5, n)\<close> images, three separate figures of one axes
  each: the \<open>12 x 4\<close> figure with "Original" in the first third, then two
  default-size figures with "Colorized Output" in the middle third and "Original"
  in the last third.  The \<open>plt.show()\<close> inside \<open>display_image\<close> closes the
  comparison figure after its first panel, so the three panels are never shown
  side by side.\<close>

theorem visualize_results_figures:
  assumes "predict_ok pred" and "wf_nd t" and "shape t = [n, 128, 128, 3]" and "open_figs st = []"
  shows "\<exists>calls figs. visualize_results pred t = Inr calls
           \<and> plt_run calls st = \<lparr>open_figs = [], shown_figs = shown_figs st @ figs\<rparr>
           \<and> map fig_layout figs = concat (replicate (min 5 n) compare_layout)"
  using visualize_results_loop [OF assms(2,3), of pred] visualize_loop_figures [OF assms(1)] assms(4)
  by fastforce

section \<open>Witnesses\<close>

theorem visualize_results_figures_witness:
  "\<exists>calls figs. visualize_results ex_predictor ex_test = Inr calls
     \<and> plt_run calls \<lparr>open_figs = [], shown_figs = []\<rparr> = \<lparr>open_figs = [], shown_figs = figs\<rparr>
     \<and> map fig_layout figs =
         [(Some (12, 4), [((1, 3, 1), ''Original'', False)]),
          (None, [((1, 3, 2), ''Colorized Output'', False)]),
          (None, [((1, 3, 3), ''Original'', False)])]"
  using visualize_results_figures [OF ex_predictor_ok(1) ex_test_wf, of "\<lparr>open_figs = [], shown_figs = []\<rparr>"]
  by (simp add: compare_layout_def)

end
