(* ===== verification/Forward.thy ===== *)
theory Forward
  imports Layers Evaluate
begin

text \<open>
  What the network of lines 44--56 computes, value by value, for one sample: the
  forward pass that \<open>autoencoder.predict\<close> (lines 67 and 92) runs.  A sample is a
  row-major \<open>(h, w, c)\<close> array; the model's trainable variables are the list
  \<open>autoencoder.weights\<close>, a kernel and a bias per convolution layer in layer order,
  each flattened row-major.  \<open>Conv2D\<close> reads its kernel as \<open>(kh, kw, c_in, filters)\<close>
  and pads \<open>'same'\<close> inputs with zeros, \<open>pad_along // 2\<close> before; \<open>Conv2DTranspose\<close>
  reads its kernel as \<open>(kh, kw, filters, c_in)\<close> and is the transpose of that
  convolution: input position \<open>i\<close> and kernel offset \<open>d\<close> feed output position
  \<open>i * s + d - pad\<close>.  \<open>Flatten\<close> and \<open>Reshape\<close> keep the values and change the
  shape.  Arithmetic is on exact reals (float32 rounding is not modelled).
\<close>

type_synonym variables = "real list list"

section \<open>Reading and writing samples\<close>

text \<open>The value at row \<open>i\<close>, column \<open>j\<close>, channel \<open>ch\<close> of an \<open>(h, w, c)\<close> sample; the zero
  padding outside the image.\<close>

definition pixel :: "real ndarray \<Rightarrow> int \<Rightarrow> int \<Rightarrow> nat \<Rightarrow> real" where
  "pixel x i j ch =
     (case shape x of
        [h, w, c] \<Rightarrow> if 0 \<le> i \<and> i < int h \<and> 0 \<le> j \<and> j < int w
                     then data x ! ((nat i * w + nat j) * c + ch) else 0
      | _ \<Rightarrow> 0)"

text \<open>A row-major \<open>(oh, ow, f)\<close> tensor given by its entries.\<close>

definition grid3 :: "nat \<Rightarrow> nat \<Rightarrow> nat \<Rightarrow> (nat \<Rightarrow> nat \<Rightarrow> nat \<Rightarrow> real) \<Rightarrow> real list" where
  "grid3 oh ow f g = [g i j q. i \<leftarrow> [0..<oh], j \<leftarrow> [0..<ow], q \<leftarrow> [0..<f]]"

text \<open>Padding before the data on one axis, as TensorFlow computes it for \<open>'same'\<close>:
  \<open>pad_along = max((n_out - 1) * s + k - n_in, 0)\<close>, of which \<open>pad_along // 2\<close> goes
  before.\<close>

definition same_pad :: "nat \<Rightarrow> nat \<Rightarrow> nat \<Rightarrow> nat \<Rightarrow> nat" where
  "same_pad n_in k s n_out = ((n_out - 1) * s + k - n_in) div 2"

section \<open>The layers\<close>

definition conv2d :: "nat \<Rightarrow> nat \<times> nat \<Rightarrow> activation \<Rightarrow> padding \<Rightarrow> nat \<times> nat
    \<Rightarrow> real list \<Rightarrow> real list \<Rightarrow> real ndarray \<Rightarrow> real ndarray result" where
  "conv2d f ks act p st kern bias x =
     (case (ks, st, shape x) of
        ((kh, kw), (sh, sw), [h, w, c]) \<Rightarrow>
          (case (conv_output_length p h kh sh, conv_output_length p w kw sw) of
             (Some oh, Some ow) \<Rightarrow>
               (let pt = (if p = Same then same_pad h kh sh oh else 0);
                    pl = (if p = Same then same_pad w kw sw ow else 0)
                in Inr \<lparr>shape = [oh, ow, f],
                        data = grid3 oh ow f (\<lambda>i j q. act_fn act (bias ! q + sum_list
                          [pixel x (int (i * sh + di) - int pt) (int (j * sw + dj) - int pl) ch
                             * kern ! (((di * kw + dj) * c + ch) * f + q).
                             di \<leftarrow> [0..<kh], dj \<leftarrow> [0..<kw], ch \<leftarrow> [0..<c]]))\<rparr>)
           | _ \<Rightarrow> Inl (ValueError NegativeDimension))
      | _ \<Rightarrow> Inl (ValueError LayerRank))"

text \<open>The contribution of input position \<open>a div s\<close> through kernel offset \<open>d\<close> to the
  output position at padded coordinate \<open>a + d\<close>: present when the stride divides
  \<open>a\<close>.\<close>

definition strided_pixel :: "real ndarray \<Rightarrow> int \<Rightarrow> int \<Rightarrow> nat \<Rightarrow> nat \<Rightarrow> nat \<Rightarrow> real" where
  "strided_pixel x a b sh sw ch =
     (if a mod int sh = 0 \<and> b mod int sw = 0 then pixel x (a div int sh) (b div int sw) ch else 0)"

definition conv2d_transpose :: "nat \<Rightarrow> nat \<times> nat \<Rightarrow> activation \<Rightarrow> padding \<Rightarrow> nat \<times> nat
    \<Rightarrow> real list \<Rightarrow> real list \<Rightarrow> real ndarray \<Rightarrow> real ndarray result" where
  "conv2d_transpose f ks act p st kern bias x =
     (case (ks, st, shape x) of
        ((kh, kw), (sh, sw), [h, w, c]) \<Rightarrow>
          (let oh = deconv_output_length p h kh sh; ow = deconv_output_length p w kw sw;
               pt = (if p = Same then same_pad oh kh sh h else 0);
               pl = (if p = Same then same_pad ow kw sw w else 0)
           in Inr \<lparr>shape = [oh, ow, f],
                   data = grid3 oh ow f (\<lambda>y z q. act_fn act (bias ! q + sum_list
                     [strided_pixel x (int (y + pt) - int di) (int (z + pl) - int dj) sh sw ch
                        * kern ! (((di * kw + dj) * f + q) * c + ch).
                        di \<leftarrow> [0..<kh], dj \<leftarrow> [0..<kw], ch \<leftarrow> [0..<c]]))\<rparr>)
      | _ \<Rightarrow> Inl (ValueError LayerRank))"

text \<open>The number of trainable variables of a layer, and the lengths they have on an
  input of shape \<open>s\<close> (Keras creates them so when the layer is built).\<close>

fun layer_nvars :: "layer \<Rightarrow> nat" where
  "layer_nvars (Conv2D f ks act p st) = 2"
| "layer_nvars (Conv2DTranspose f ks act p st) = 2"
| "layer_nvars Flatten = 0"
| "layer_nvars (Reshape t) = 0"

fun var_lengths :: "layer \<Rightarrow> tshape \<Rightarrow> nat list" where
  "var_lengths (Conv2D f (kh, kw) act p st) s = [kh * kw * last s * f, f]"
| "var_lengths (Conv2DTranspose f (kh, kw) act p st) s = [kh * kw * f * last s, f]"
| "var_lengths Flatten s = []"
| "var_lengths (Reshape t) s = []"

fun layer_apply :: "layer \<Rightarrow> variables \<Rightarrow> real ndarray \<Rightarrow> real ndarray result" where
  "layer_apply (Conv2D f ks act p st) vs x =
     (case vs of [kern, bias] \<Rightarrow> conv2d f ks act p st kern bias x
               | _ \<Rightarrow> Inl (ValueError IncompatibleInput))"
| "layer_apply (Conv2DTranspose f ks act p st) vs x =
     (case vs of [kern, bias] \<Rightarrow> conv2d_transpose f ks act p st kern bias x
               | _ \<Rightarrow> Inl (ValueError IncompatibleInput))"
| "layer_apply Flatten vs x = Inr \<lparr>shape = [prod_list (shape x)], data = data x\<rparr>"
| "layer_apply (Reshape t) vs x =
     (if prod_list t = prod_list (shape x) then Inr \<lparr>shape = t, data = data x\<rparr>
      else Inl (ValueError ReshapeLayerSize))"

text \<open>The functional model: each layer takes its variables off the front of the list.\<close>

fun forward :: "layer list \<Rightarrow> variables \<Rightarrow> real ndarray \<Rightarrow> real ndarray result" where
  "forward [] ws x = Inr x"
| "forward (l # ls) ws x =
     bindr (layer_apply l (take (layer_nvars l) ws) x) (\<lambda>y. forward ls (drop (layer_nvars l) ws) y)"

text \<open>The variables fit the layers: each layer's variables have the lengths Keras gives
  them on the shape that reaches it, and no variable is left over.\<close>

fun vars_ok :: "layer list \<Rightarrow> tshape \<Rightarrow> variables \<Rightarrow> bool" where
  "vars_ok [] s ws = (ws = [])"
| "vars_ok (l # ls) s ws =
     (map length (take (layer_nvars l) ws) = var_lengths l s \<and> layer_nvars l \<le> length ws
      \<and> (case layer_out l s of Inl e \<Rightarrow> True | Inr s' \<Rightarrow> vars_ok ls s' (drop (layer_nvars l) ws)))"

text \<open>\<open>model.predict\<close> on a batch: the forward pass on every sample, the results
  stacked.\<close>

fun map_result :: "('a \<Rightarrow> 'b result) \<Rightarrow> 'a list \<Rightarrow> 'b list result" where
  "map_result g [] = Inr []"
| "map_result g (a # as) = bindr (g a) (\<lambda>b. bindr (map_result g as) (\<lambda>bs. Inr (b # bs)))"

definition model_predict :: "layer list \<Rightarrow> variables \<Rightarrow> real ndarray \<Rightarrow> real ndarray result" where
  "model_predict ls ws x =
     bindr (np_iter x) (\<lambda>samples. bindr (map_result (forward ls ws) samples) np_array_stack)"

text \<open>The autoencoder as the \<open>predictor\<close> that evaluation and visualisation call; they
  only call it on \<open>(1, 128, 128, 3)\<close> batches, where it never raises
  (\<open>autoencoder_predict_contract\<close>), so the value it has on other inputs, where
  Keras raises, is never used.\<close>

definition autoencoder_predict :: "variables \<Rightarrow> predictor" where
  "autoencoder_predict ws x =
     (case model_predict autoencoder_layers ws x of Inr y \<Rightarrow> y | Inl e \<Rightarrow> \<lparr>shape = [], data = []\<rparr>)"

text \<open>Example variables: every kernel and bias zero, with the lengths Keras gives them
  (Keras itself draws the kernels at random).\<close>

fun zero_variables :: "layer list \<Rightarrow> tshape \<Rightarrow> variables" where
  "zero_variables [] s = []"
| "zero_variables (l # ls) s =
     map (\<lambda>n. replicate n 0) (var_lengths l s)
     @ (case layer_out l s of Inl e \<Rightarrow> [] | Inr t \<Rightarrow> zero_variables ls t)"

definition ex_image :: "real ndarray" where
  "ex_image = \<lparr>shape = [128, 128, 3], data = replicate 49152 0\<rparr>"

section \<open>The forward pass refines shape inference\<close>

lemma length_grid3 [model_simps]: "length (grid3 oh ow f g) = oh * ow * f"
  by (simp add: grid3_def length_concat o_def sum_list_triv)

lemma set_grid3: "v \<in> set (grid3 oh ow f g) \<Longrightarrow> \<exists>i j q. v = g i j q"
  by (auto simp: grid3_def)

lemma layer_apply_shape:
  assumes "map length vs = var_lengths l (shape x)"
  shows "map_sum id shape (layer_apply l vs x) = layer_out l (shape x)"
proof (cases l)
  case (Conv2D f ks act p st)
  then show ?thesis using assms
    by (cases ks; cases st)
       (auto simp: conv2d_def Let_def length_Suc_conv split: list.splits option.splits)
next
  case (Conv2DTranspose f ks act p st)
  then show ?thesis using assms
    by (cases ks; cases st)
       (auto simp: conv2d_transpose_def Let_def length_Suc_conv split: list.splits)
qed simp_all

lemma layer_apply_wf:
  assumes "wf_nd x" and "layer_apply l vs x = Inr y"
  shows "wf_nd y"
proof (cases l)
  case (Conv2D f ks act p st)
  then show ?thesis using assms
    by (cases ks; cases st)
       (auto simp: conv2d_def Let_def wf_nd_def length_grid3 split: list.splits option.splits)
next
  case (Conv2DTranspose f ks act p st)
  then show ?thesis using assms
    by (cases ks; cases st)
       (auto simp: conv2d_transpose_def Let_def wf_nd_def length_grid3 split: list.splits)
qed (use assms in \<open>auto simp: wf_nd_def split: if_splits\<close>)

lemma forward_refines:
  "vars_ok ls (shape x) ws \<Longrightarrow> map_sum id shape (forward ls ws x) = infer ls (shape x)"
proof (induction ls arbitrary: ws x)
  case (Cons l ls)
  have la: "map_sum id shape (layer_apply l (take (layer_nvars l) ws) x) = layer_out l (shape x)"
    using layer_apply_shape Cons.prems by simp
  show ?case
  proof (cases "layer_apply l (take (layer_nvars l) ws) x")
    case (Inl e)
    then have "layer_out l (shape x) = Inl e" using la by simp
    then show ?thesis using Inl by simp
  next
    case (Inr y)
    then have "layer_out l (shape x) = Inr (shape y)" using la by simp
    moreover have "vars_ok ls (shape y) (drop (layer_nvars l) ws)"
      using Cons.prems calculation by simp
    ultimately show ?thesis using Inr Cons.IH by simp
  qed
qed simp

lemma vars_ok_lengths:
  "map length ws = map length ws' \<Longrightarrow> vars_ok ls s ws = vars_ok ls s ws'"
proof (induction ls arbitrary: s ws ws')
  case (Cons l ls)
  let ?n = "layer_nvars l"
  have t: "map length (take ?n ws) = map length (take ?n ws')"
    using Cons.prems by (metis take_map)
  have d: "map length (drop ?n ws) = map length (drop ?n ws')"
    using Cons.prems by (metis drop_map)
  have l: "length ws = length ws'" using Cons.prems by (metis length_map)
  have "vars_ok ls s' (drop ?n ws) = vars_ok ls s' (drop ?n ws')" for s'
    using Cons.IH [OF d] .
  then show ?case using t l by (cases "layer_out l s") simp_all
qed (metis Nil_is_map_conv vars_ok.simps(1))

lemma forward_wf: "wf_nd x \<Longrightarrow> forward ls ws x = Inr y \<Longrightarrow> wf_nd y"
proof (induction ls arbitrary: ws x)
  case (Cons l ls)
  then show ?case
    by (cases "layer_apply l (take (layer_nvars l) ws) x") (auto dest: layer_apply_wf)
qed simp

lemma forward_append:
  "forward (ls @ ms) ws x = bindr (forward ls ws x) (forward ms (drop (sum_list (map layer_nvars ls)) ws))"
  by (induction ls arbitrary: ws x) (auto simp: bindr_def add.commute split: sum.splits)

lemma conv2d_sigmoid_range:
  assumes "conv2d f ks Sigmoid p st k b x = Inr y" and "v \<in> set (data y)"
  shows "0 \<le> v \<and> v \<le> 1"
  using assms
  by (cases ks; cases st)
     (auto simp: conv2d_def Let_def sigmoid_unit split: list.splits option.splits
       dest!: set_grid3)

lemma forward_sigmoid_last:
  assumes "forward (ls @ [Conv2D f ks Sigmoid p st]) ws x = Inr y"
  shows "\<forall>v\<in>set (data y). 0 \<le> v \<and> v \<le> 1"
  using assms conv2d_sigmoid_range
  by (auto simp: forward_append bindr_def split: sum.splits list.splits)

lemma map_result_all:
  "\<forall>a\<in>set as. \<exists>b. g a = Inr b \<and> P b \<Longrightarrow>
   \<exists>bs. map_result g as = Inr bs \<and> length bs = length as \<and> (\<forall>b\<in>set bs. P b)"
  by (induction as) auto

lemma model_predict_batch:
  assumes "vars_ok ls s ws" and "infer ls s = Inr s'" and "wf_nd x" and "shape x = n # s" and "0 < n"
  shows "\<exists>y. model_predict ls ws x = Inr y \<and> wf_nd y \<and> shape y = n # s'
           \<and> (\<forall>v\<in>set (data y). \<exists>a z. forward ls ws a = Inr z \<and> v \<in> set (data z))"
proof -
  obtain as where it: "np_iter x = Inr as" using assms(4) by (simp add: np_iter_def)
  have len: "length as = n" using np_iter_length [OF it] assms(4) by simp
  have sa: "\<forall>a\<in>set as. wf_nd a \<and> shape a = s"
    using it wf_np_iter [OF assms(3) it] assms(4) by (auto simp: np_iter_def)
  let ?P = "\<lambda>z. wf_nd z \<and> shape z = s' \<and> (\<exists>a. forward ls ws a = Inr z)"
  have "\<forall>a\<in>set as. \<exists>z. forward ls ws a = Inr z \<and> ?P z"
  proof
    fix a assume a: "a \<in> set as"
    then have "map_sum id shape (forward ls ws a) = Inr s'"
      using forward_refines [of ls a ws] assms(1,2) sa by simp
    then obtain z where "forward ls ws a = Inr z" and "shape z = s'"
      by (cases "forward ls ws a") auto
    then show "\<exists>z. forward ls ws a = Inr z \<and> ?P z" using forward_wf sa a by blast
  qed
  then obtain zs where mr: "map_result (forward ls ws) as = Inr zs" and lz: "length zs = n"
    and pz: "\<forall>z\<in>set zs. ?P z"
    using map_result_all [of as "forward ls ws" ?P] len by blast
  obtain z zs' where zs: "zs = z # zs'" using lz assms(5) by (cases zs) auto
  have st: "np_array_stack zs = Inr \<lparr>shape = n # s', data = concat (map data zs)\<rparr>"
    using pz lz by (simp add: zs np_array_stack_def list_all_iff)
  have "wf_nd \<lparr>shape = n # s', data = concat (map data zs)\<rparr>"
    using wf_np_array_stack [OF _ st] pz by blast
  moreover have "\<forall>v\<in>set (concat (map data zs)). \<exists>a z. forward ls ws a = Inr z \<and> v \<in> set (data z)"
    using pz by fastforce
  ultimately show ?thesis using it mr st by (simp add: model_predict_def)
qed

lemma autoencoder_layers_last:
  "autoencoder_layers = butlast autoencoder_layers @ [Conv2D 3 (3, 3) Sigmoid Same (1, 1)]"
  by (simp add: autoencoder_layers_def encoder_layers_def decoder_layers_def)

lemma autoencoder_predict_sample:
  assumes "vars_ok autoencoder_layers input_shape ws" and "wf_nd x" and "shape x = sample_shape"
  shows "wf_nd (autoencoder_predict ws x) \<and> shape (autoencoder_predict ws x) = sample_shape
         \<and> (\<forall>v\<in>set (data (autoencoder_predict ws x)). 0 \<le> v \<and> v \<le> 1)"
proof -
  have sx: "shape x = 1 # input_shape" using assms(3) by (simp add: sample_shape_def input_shape_def)
  obtain y where y: "model_predict autoencoder_layers ws x = Inr y" "wf_nd y" "shape y = 1 # input_shape"
    and vy: "\<forall>v\<in>set (data y). \<exists>a z. forward autoencoder_layers ws a = Inr z \<and> v \<in> set (data z)"
    using model_predict_batch [OF assms(1) autoencoder_output_input_shape assms(2) sx] by auto
  have "\<forall>v\<in>set (data y). 0 \<le> v \<and> v \<le> 1"
  proof
    fix v assume "v \<in> set (data y)"
    then obtain a z where "forward autoencoder_layers ws a = Inr z" "v \<in> set (data z)" using vy by blast
    then show "0 \<le> v \<and> v \<le> 1"
      using forward_sigmoid_last [of "butlast autoencoder_layers"] autoencoder_layers_last by metis
  qed
  then show ?thesis using y by (simp add: autoencoder_predict_def sample_shape_def input_shape_def)
qed

section \<open>Properties of the forward pass\<close>

text \<open>C18: For any variables of the right lengths, \<open>autoencoder.predict\<close> on a
  well-formed \<open>(1, 128, 128, 3)\<close> batch never raises and returns a well-formed
  \<open>(1, 128, 128, 3)\<close> array whose values lie in \<open>[0, 1]\<close> (the sigmoid of the
  last layer; the closed bounds hold for float32 as well, where the sigmoid saturates
  at exactly 0 and 1): the network meets the contracts \<open>predict_ok\<close> and
  \<open>predict_unit\<close> that evaluation and visualisation assume.\<close>

theorem autoencoder_predict_contract:
  assumes "vars_ok autoencoder_layers input_shape ws"
  shows "predict_ok (autoencoder_predict ws) \<and> predict_unit (autoencoder_predict ws)"
  unfolding predict_ok_def predict_unit_def using autoencoder_predict_sample [OF assms] by blast

section \<open>Witnesses\<close>

lemma ex_vars: "vars_ok autoencoder_layers input_shape (zero_variables autoencoder_layers input_shape)"
  by (simp add: autoencoder_layers_def encoder_layers_def decoder_layers_def input_shape_def
      model_simps cdiv_def)

theorem autoencoder_predict_contract_witness:
  "predict_ok (autoencoder_predict (zero_variables autoencoder_layers input_shape))
   \<and> predict_unit (autoencoder_predict (zero_variables autoencoder_layers input_shape))"
  using autoencoder_predict_contract [OF ex_vars] by simp

end
