(* ===== verification/Adam.thy ===== *)
theory Adam
  imports Training Forward
begin

text \<open>
  The optimizer of line 57, \<open>Adam()\<close> with Keras' defaults (learning rate \<open>0.001\<close>,
  \<open>beta_1 = 0.9\<close>, \<open>beta_2 = 0.999\<close>, \<open>epsilon = 1e-7\<close>), as Keras'
  \<open>Adam.update_step\<close> applies it to every trainable variable at step
  \<open>t = iterations + 1\<close>:
  \<open>alpha = lr * sqrt(1 - beta_2^t) / (1 - beta_1^t)\<close>,
  \<open>m += (g - m) * (1 - beta_1)\<close>, \<open>v += (g^2 - v) * (1 - beta_2)\<close>,
  \<open>variable -= m * alpha / (sqrt(v) + epsilon)\<close>.
  The weights the training driver threads are the model's variables together with
  the optimizer's two slot variables per model variable, created as zeros when the
  optimizer is built.  The gradients are the framework's (automatic differentiation
  is not modelled): a parameter that returns one gradient per variable, of the
  variable's size.  The reachable optimizer states are an inductive set: the
  initial state, and every state one update step away from a reachable one.
\<close>

record adam_slots =
  params :: variables
  momentums :: variables
  velocities :: variables

type_synonym gradient_fn = "variables \<Rightarrow> real ndarray \<Rightarrow> real ndarray \<Rightarrow> variables"

definition learning_rate :: real where "learning_rate = 1 / 1000"
definition beta_1 :: real where "beta_1 = 9 / 10"
definition beta_2 :: real where "beta_2 = 999 / 1000"
definition adam_epsilon :: real where "adam_epsilon = 1 / 10 ^ 7"

definition adam_alpha :: "nat \<Rightarrow> real" where
  "adam_alpha t = learning_rate * sqrt (1 - beta_2 ^ t) / (1 - beta_1 ^ t)"

text \<open>One variable's update from its gradient \<open>g\<close>: the variable, its momentum and
  its velocity after the step.\<close>

definition adam_update_var :: "nat \<Rightarrow> real list \<Rightarrow> real list \<times> real list \<times> real list
    \<Rightarrow> real list \<times> real list \<times> real list" where
  "adam_update_var t g wmv =
     (case wmv of (w, m, v) \<Rightarrow>
        (let m' = map2 (\<lambda>mi gi. mi + (gi - mi) * (1 - beta_1)) m g;
             v' = map2 (\<lambda>vi gi. vi + (gi\<^sup>2 - vi) * (1 - beta_2)) v g
         in (map2 (\<lambda>wi (mi, vi). wi - mi * adam_alpha t / (sqrt vi + adam_epsilon)) w (zip m' v'),
             m', v')))"

definition adam_step :: "gradient_fn \<Rightarrow> adam_slots step_fn" where
  "adam_step grad t s xb yb =
     (let g = grad (params s) xb yb;
          r = map2 (adam_update_var t) g (zip (params s) (zip (momentums s) (velocities s)))
      in \<lparr>params = map fst r, momentums = map (fst \<circ> snd) r, velocities = map (snd \<circ> snd) r\<rparr>)"

definition adam_init :: "variables \<Rightarrow> adam_slots" where
  "adam_init p =
     \<lparr>params = p, momentums = map (\<lambda>w. replicate (length w) 0) p,
      velocities = map (\<lambda>w. replicate (length w) 0) p\<rparr>"

text \<open>The framework's gradients: one per variable, of its size.\<close>

definition grad_ok :: "gradient_fn \<Rightarrow> bool" where
  "grad_ok grad \<longleftrightarrow> (\<forall>p xb yb. map length (grad p xb yb) = map length p)"

text \<open>The optimizer's slots fit the variables and the velocities are not negative
  (so that \<open>sqrt(v) + epsilon\<close> is at least \<open>epsilon\<close>).\<close>

definition slots_ok :: "adam_slots \<Rightarrow> bool" where
  "slots_ok s \<longleftrightarrow>
     map length (momentums s) = map length (params s) \<and> map length (velocities s) = map length (params s)
     \<and> list_all (list_all (\<lambda>x. 0 \<le> x)) (velocities s)"

inductive adam_reachable :: "gradient_fn \<Rightarrow> variables \<Rightarrow> adam_slots \<Rightarrow> bool"
  for grad :: gradient_fn and p0 :: variables where
  reach_init: "adam_reachable grad p0 (adam_init p0)"
| reach_step: "adam_reachable grad p0 s \<Longrightarrow> adam_reachable grad p0 (adam_step grad t s xb yb)"

text \<open>The reference: Algorithm 1 of Kingma and Ba's paper, with its bias-corrected
  moment estimates and its own \<open>epsilon\<close>.\<close>

definition paper_adam_update :: "real \<Rightarrow> nat \<Rightarrow> real list \<Rightarrow> real list \<times> real list \<times> real list
    \<Rightarrow> real list \<times> real list \<times> real list" where
  "paper_adam_update eps t g wmv =
     (case wmv of (w, m, v) \<Rightarrow>
        (let m' = map2 (\<lambda>mi gi. beta_1 * mi + (1 - beta_1) * gi) m g;
             v' = map2 (\<lambda>vi gi. beta_2 * vi + (1 - beta_2) * gi\<^sup>2) v g;
             mh = map (\<lambda>x. x / (1 - beta_1 ^ t)) m';
             vh = map (\<lambda>x. x / (1 - beta_2 ^ t)) v'
         in (map2 (\<lambda>wi (mi, vi). wi - learning_rate * mi / (sqrt vi + eps)) w (zip mh vh), m', v')))"

definition ex_grad :: gradient_fn where "ex_grad p xb yb = p"

definition ex_batch :: "real ndarray" where
  "ex_batch = \<lparr>shape = [1, 128, 128, 3], data = replicate 49152 0\<rparr>"

section \<open>The optimizer state invariant\<close>

lemma adam_update_var_lengths:
  assumes "length g = length w" "length m = length w" "length v = length w"
  shows "length (fst (adam_update_var t g (w, m, v))) = length w
         \<and> length (fst (snd (adam_update_var t g (w, m, v)))) = length w
         \<and> length (snd (snd (adam_update_var t g (w, m, v)))) = length w"
  using assms by (simp add: adam_update_var_def Let_def)

lemma adam_velocity_nonneg:
  assumes "list_all (\<lambda>x. 0 \<le> x) v"
  shows "list_all (\<lambda>x. 0 \<le> x) (snd (snd (adam_update_var t g (w, m, v))))"
proof -
  have b: "0 \<le> 1 - beta_2" "1 - beta_2 \<le> 1" by (simp_all add: beta_2_def)
  have "0 \<le> vi + (gi\<^sup>2 - vi) * (1 - beta_2)" if "0 \<le> vi" for vi gi :: real
  proof -
    have "vi + (gi\<^sup>2 - vi) * (1 - beta_2) = vi * (1 - (1 - beta_2)) + gi\<^sup>2 * (1 - beta_2)"
      by (simp add: algebra_simps)
    also have "0 \<le> \<dots>" using that b by simp
    finally show ?thesis .
  qed
  then show ?thesis
    using assms by (auto simp: adam_update_var_def Let_def list_all_iff dest!: set_zip_leftD)
qed

lemma adam_step_ok:
  assumes "slots_ok s" and "map length (grad (params s) xb yb) = map length (params s)"
  shows "slots_ok (adam_step grad t s xb yb)
         \<and> map length (params (adam_step grad t s xb yb)) = map length (params s)"
proof -
  let ?g = "grad (params s) xb yb" and ?p = "params s" and ?m = "momentums s" and ?v = "velocities s"
  have len: "length ?g = length ?p" "length ?m = length ?p" "length ?v = length ?p"
    using assms map_eq_imp_length_eq unfolding slots_ok_def by blast+
  have li: "length (?g ! i) = length (?p ! i)" "length (?m ! i) = length (?p ! i)"
    "length (?v ! i) = length (?p ! i)" if "i < length ?p" for i
    using assms that len nth_map [of i ?g length] nth_map [of i ?p length]
      nth_map [of i ?m length] nth_map [of i ?v length]
    unfolding slots_ok_def by metis+
  let ?u = "\<lambda>i. adam_update_var t (?g ! i) (?p ! i, ?m ! i, ?v ! i)"
  have pl: "map length (params (adam_step grad t s xb yb)) = map length ?p"
    by (rule nth_equalityI) (simp_all add: adam_step_def Let_def len adam_update_var_lengths li)
  moreover have "map length (momentums (adam_step grad t s xb yb)) = map length ?p"
    by (rule nth_equalityI) (simp_all add: adam_step_def Let_def len adam_update_var_lengths li)
  moreover have "map length (velocities (adam_step grad t s xb yb)) = map length ?p"
    by (rule nth_equalityI) (simp_all add: adam_step_def Let_def len adam_update_var_lengths li)
  moreover have "list_all (list_all (\<lambda>x. 0 \<le> x)) (velocities (adam_step grad t s xb yb))"
  proof -
    have "list_all (\<lambda>x. 0 \<le> x) (snd (snd (?u i)))" if "i < length ?p" for i
      using assms(1) that len unfolding slots_ok_def
      by (intro adam_velocity_nonneg) (simp add: list_all_length)
    then show ?thesis
      by (subst list_all_length) (simp add: adam_step_def Let_def len)
  qed
  ultimately show ?thesis by (simp add: slots_ok_def)
qed

lemma adam_reachable_ok:
  assumes "grad_ok grad" and "adam_reachable grad p0 s"
  shows "slots_ok s \<and> map length (params s) = map length p0"
  using assms(2)
proof (induction rule: adam_reachable.induct)
  case reach_init
  show ?case by (simp add: adam_init_def slots_ok_def o_def list_all_iff)
next
  case (reach_step s t xb yb)
  then show ?case using adam_step_ok [of s grad xb yb t] assms(1) by (simp add: grad_ok_def)
qed

text \<open>Every optimizer state reachable from variables that fit the network gives a
  predictor meeting both contracts.\<close>

lemma adam_reachable_predict:
  assumes "grad_ok grad" and "vars_ok autoencoder_layers input_shape p0" and "adam_reachable grad p0 w"
  shows "predict_ok (autoencoder_predict (params w)) \<and> predict_unit (autoencoder_predict (params w))"
proof -
  have "vars_ok autoencoder_layers input_shape (params w)"
    using adam_reachable_ok [OF assms(1,3)] vars_ok_lengths assms(2) by blast
  then show ?thesis
    using autoencoder_predict_sample by (fastforce simp: predict_ok_def predict_unit_def)
qed

section \<open>Keras' update and the paper's\<close>

lemma map2_zip_map:
  "map2 F w (zip (map f a) (map g b)) = map2 (\<lambda>wi (x, y). F wi (f x, g y)) w (zip a b)"
proof (induction w arbitrary: a b)
  case (Cons wi w)
  then show ?case by (cases a; cases b) auto
qed simp

lemma adam_moment_forms:
  "mi + (gi - mi) * (1 - beta_1) = beta_1 * mi + (1 - beta_1) * gi"
  "vi + (gi\<^sup>2 - vi) * (1 - beta_2) = beta_2 * vi + (1 - beta_2) * gi\<^sup>2"
  by (simp_all add: algebra_simps)

lemma beta_powers_less_1: "0 < t \<Longrightarrow> beta_1 ^ t < 1 \<and> beta_2 ^ t < 1"
  by (simp add: beta_1_def beta_2_def power_less_one_iff)

lemma adam_bias_correction:
  assumes "0 < t"
  shows "learning_rate * (x / (1 - beta_1 ^ t)) / (sqrt (y / (1 - beta_2 ^ t)) + adam_epsilon / sqrt (1 - beta_2 ^ t))
         = x * adam_alpha t / (sqrt y + adam_epsilon)"
proof -
  have c: "0 < sqrt (1 - beta_2 ^ t)" using beta_powers_less_1 [OF assms] by simp
  have "sqrt (y / (1 - beta_2 ^ t)) + adam_epsilon / sqrt (1 - beta_2 ^ t)
        = (sqrt y + adam_epsilon) / sqrt (1 - beta_2 ^ t)"
    by (simp add: real_sqrt_divide add_divide_distrib)
  then show ?thesis using c by (simp add: adam_alpha_def field_simps)
qed

lemma adam_first_step_scalar:
  "\<bar>(0 + (x - 0) * (1 - beta_1)) * adam_alpha 1 / (sqrt (0 + (x\<^sup>2 - 0) * (1 - beta_2)) + adam_epsilon)\<bar>
   < learning_rate"
proof -
  let ?c = "sqrt (1 - beta_2)"
  have c: "0 < ?c" and e: "0 < adam_epsilon" and lr: "0 < learning_rate" and b: "0 < 1 - beta_1"
    by (simp_all add: beta_2_def adam_epsilon_def learning_rate_def beta_1_def)
  have a: "(1 - beta_1) * adam_alpha 1 = learning_rate * ?c" using b by (simp add: adam_alpha_def)
  have sq: "sqrt (x\<^sup>2 * (1 - beta_2)) = \<bar>x\<bar> * ?c" by (simp add: real_sqrt_mult)
  have d: "0 < \<bar>x\<bar> * ?c + adam_epsilon" using c e by (simp add: add_nonneg_pos)
  have "x * (1 - beta_1) * adam_alpha 1 = x * (learning_rate * ?c)" by (simp only: mult.assoc a)
  then have "\<bar>x * (1 - beta_1) * adam_alpha 1 / (\<bar>x\<bar> * ?c + adam_epsilon)\<bar>
        = \<bar>x * (learning_rate * ?c) / (\<bar>x\<bar> * ?c + adam_epsilon)\<bar>" by (simp only:)
  also have "\<dots> = \<bar>x\<bar> * (learning_rate * ?c) / (\<bar>x\<bar> * ?c + adam_epsilon)"
    using c lr d by (simp add: abs_mult abs_divide)
  also have "\<dots> = learning_rate * (\<bar>x\<bar> * ?c / (\<bar>x\<bar> * ?c + adam_epsilon))"
    by (simp add: field_simps)
  also have "\<dots> < learning_rate * 1"
    using c e lr d by (intro mult_strict_left_mono) simp_all
  finally show ?thesis by (simp add: sq)
qed

section \<open>Properties of the optimizer\<close>

text \<open>C19: Training with Adam keeps the optimizer state reachable from the initial one,
  its slots consistent with the variables (velocities never negative, so the update
  never divides by less than \<open>epsilon\<close>), and the model's variables of the lengths
  the network needs, for any shuffle, data and number of epochs.\<close>

theorem fit_adam_invariant:
  assumes "grad_ok grad" and "vars_ok ls s0 p0" and "adam_reachable grad p0 (weights st)"
    and "train_network (adam_step grad) sh x epochs bs st = Inr st'"
  shows "adam_reachable grad p0 (weights st') \<and> slots_ok (weights st')
         \<and> vars_ok ls s0 (params (weights st'))"
proof -
  have r: "adam_reachable grad p0 (weights st')"
    using train_network_invariant [OF assms(4), of "adam_reachable grad p0"] assms(3)
    by (blast intro: reach_step)
  then show ?thesis
    using adam_reachable_ok [OF assms(1) r] vars_ok_lengths assms(2) by blast
qed

text \<open>C20: Keras' form of the update (the bias correction folded into the step size
  \<open>alpha\<close>) is Adam as the paper states it, with the paper's \<open>epsilon\<close> equal to
  Keras' \<open>epsilon / sqrt(1 - beta_2^t)\<close>.\<close>

theorem adam_paper_equivalence:
  assumes "0 < t"
  shows "adam_update_var t g (w, m, v)
         = paper_adam_update (adam_epsilon / sqrt (1 - beta_2 ^ t)) t g (w, m, v)"
proof -
  have "(\<lambda>wi (x, y). wi - learning_rate * (x / (1 - beta_1 ^ t))
            / (sqrt (y / (1 - beta_2 ^ t)) + adam_epsilon / sqrt (1 - beta_2 ^ t)))
        = (\<lambda>wi (mi, vi). wi - mi * adam_alpha t / (sqrt vi + adam_epsilon))"
    using adam_bias_correction [OF assms] by (simp add: fun_eq_iff)
  then show ?thesis
    by (simp add: adam_update_var_def paper_adam_update_def Let_def adam_moment_forms map2_zip_map
        del: map_map)
qed

text \<open>C21: Adam's first step from the freshly built optimizer moves every variable by
  less than the learning rate, whatever the gradient.\<close>

theorem adam_first_step_bound:
  assumes "length g = length w"
  shows "list_all2 (\<lambda>w' wi. \<bar>w' - wi\<bar> < learning_rate)
           (fst (adam_update_var 1 g (w, replicate (length w) 0, replicate (length w) 0))) w"
  using assms adam_first_step_scalar
  by (simp add: adam_update_var_def Let_def list_all2_conv_all_nth)

section \<open>Witnesses\<close>

theorem fit_adam_invariant_witness:
  "\<exists>st'. train_network (adam_step ex_grad) (\<lambda>e. [0]) ex_batch 2 16
            \<lparr>weights = adam_init (zero_variables autoencoder_layers input_shape), iterations = 0\<rparr> = Inr st'
         \<and> vars_ok autoencoder_layers input_shape (params (weights st'))"
proof -
  let ?p0 = "zero_variables autoencoder_layers input_shape"
  let ?st = "\<lparr>weights = adam_init ?p0, iterations = 0\<rparr>"
  obtain st' where tr: "train_network (adam_step ex_grad) (\<lambda>e. [0]) ex_batch 2 16 ?st = Inr st'"
    using train_network_run [of ex_batch 1 16 "adam_step ex_grad"] by (simp add: ex_batch_def input_shape_def)
  have "grad_ok ex_grad" by (simp add: grad_ok_def ex_grad_def)
  moreover have "adam_reachable ex_grad ?p0 (weights ?st)" by (simp add: reach_init)
  ultimately show ?thesis using fit_adam_invariant [OF _ ex_vars _ tr] tr by blast
qed

theorem adam_paper_equivalence_witness:
  "adam_update_var 1 [1] ([0], [0], [0]) = paper_adam_update (adam_epsilon / sqrt (1 - beta_2)) 1 [1] ([0], [0], [0])"
  using adam_paper_equivalence [of 1 "[1]" "[0]" "[0]" "[0]"] by simp

theorem adam_first_step_bound_witness:
  "list_all2 (\<lambda>w' wi. \<bar>w' - wi\<bar> < learning_rate) (fst (adam_update_var 1 [5, -3] ([2, 0], [0, 0], [0, 0]))) [2, 0]"
  using adam_first_step_bound [of "[5, -3]" "[2, 0]"] by (simp add: numeral_2_eq_2)

end
