(* ===== verification/Conv_Adjoint.thy ===== *)
theory Conv_Adjoint
  imports Forward
begin

text \<open>
  The transposed convolution of lines 51--53 is the adjoint of the convolution of
  lines 45--47 with the same kernel: the defining property of \<open>Conv2DTranspose\<close>
  (TensorFlow computes it as the gradient of \<open>Conv2D\<close> with respect to its input).
  With linear activation and zero bias, a \<open>'same'\<close> convolution of stride
  \<open>(sh, sw)\<close> from an \<open>(oh * sh, ow * sw, c)\<close> input to an \<open>(oh, ow, f)\<close> output and
  the transposed convolution with the same kernel list back satisfy
  \<open><conv2d x, y> = <x, conv2d_transpose y>\<close> for every \<open>x\<close> and \<open>y\<close>, where \<open><_, _>\<close> is
  the sum of the element-wise products of the flat buffers.  This pins down the
  index arithmetic of both layers against each other: the kernel layouts, the
  padding split and the stride.  The proof turns both sides into sums over the
  kernel window and the two image axes and reindexes the strided axis.
\<close>

definition dot :: "real list \<Rightarrow> real list \<Rightarrow> real" where
  "dot a b = sum_list (map2 (*) a b)"

section \<open>Flat buffers as sums over the three axes\<close>

lemma grid3_map:
  "grid3 n1 n2 n3 g = map (\<lambda>k. g (k div (n2 * n3)) (k mod (n2 * n3) div n3) (k mod (n2 * n3) mod n3))
                         [0..<n1 * n2 * n3]"
proof -
  have "concat (map (\<lambda>j. map (g i j) [0..<n3]) [0..<n2]) = map (\<lambda>k. g i (k div n3) (k mod n3)) [0..<n2 * n3]"
    for i by (rule concat_map_upt_div_mod)
  then have "grid3 n1 n2 n3 g = concat (map (\<lambda>i. map (\<lambda>k. g i (k div n3) (k mod n3)) [0..<n2 * n3]) [0..<n1])"
    by (simp add: grid3_def)
  then show ?thesis by (simp add: concat_map_upt_div_mod mult.assoc)
qed

lemma dot_commute: "dot a b = dot b a"
proof (induction a arbitrary: b)
  case (Cons x a)
  then show ?case by (cases b) (simp_all add: dot_def mult.commute)
qed (simp add: dot_def)

lemma dot_nth: "length a = length b \<Longrightarrow> dot a b = (\<Sum>n<length a. a ! n * b ! n)"
  by (simp add: dot_def sum_list_sum_nth lessThan_atLeast0)

lemma index3_less: "j < n2 \<Longrightarrow> q < n3 \<Longrightarrow> j * n3 + q < n2 * (n3 :: nat)"
proof -
  assume "j < n2" "q < n3"
  then have "j * n3 + q < Suc j * n3" by simp
  also have "\<dots> \<le> n2 * n3" using \<open>j < n2\<close> by (intro mult_right_mono) simp_all
  finally show ?thesis .
qed

lemma dot_grid3:
  assumes "wf_nd z" and "shape z = [n1, n2, n3]"
  shows "dot (grid3 n1 n2 n3 g) (data z)
         = (\<Sum>i<n1. \<Sum>j<n2. \<Sum>q<n3. g i j q * pixel z (int i) (int j) q)"
proof -
  have len: "length (data z) = n1 * (n2 * n3)" using assms by (simp add: wf_nd_def)
  have "dot (grid3 n1 n2 n3 g) (data z)
        = (\<Sum>k<n1 * (n2 * n3). g (k div (n2 * n3)) (k mod (n2 * n3) div n3) (k mod (n2 * n3) mod n3)
                                * data z ! k)"
    using len by (simp add: dot_nth grid3_map length_grid3 mult.assoc)
  also have "\<dots> = (\<Sum>i<n1. \<Sum>j<n2. \<Sum>q<n3. g i j q * data z ! (i * (n2 * n3) + (j * n3 + q)))"
    by (simp add: sum_lessThan_mult index3_less)
  also have "\<dots> = (\<Sum>i<n1. \<Sum>j<n2. \<Sum>q<n3. g i j q * pixel z (int i) (int j) q)"
    using assms(2) by (intro sum.cong refl) (simp add: pixel_def algebra_simps)
  finally show ?thesis .
qed

lemma strided_match:
  "0 < s \<Longrightarrow> (int a = int i * int s + d) = ((int a - d) mod int s = 0 \<and> int i = (int a - d) div int s)"
  by (auto simp: algebra_simps)

lemma strided_sum:
  fixes A B :: "int \<Rightarrow> real"
  assumes "0 < s" and "\<forall>a. a < 0 \<or> int H \<le> a \<longrightarrow> A a = 0"
    and "\<forall>i. i < 0 \<or> int oh \<le> i \<longrightarrow> B i = 0"
  shows "(\<Sum>i<oh. A (int i * int s + d) * B (int i))
         = (\<Sum>a<H. (if (int a - d) mod int s = 0 then B ((int a - d) div int s) else 0) * A (int a))"
proof -
  have inner: "(if (int a - d) mod int s = 0 then B ((int a - d) div int s) else 0)
               = (\<Sum>i<oh. if int a = int i * int s + d then B (int i) else 0)" for a
  proof (cases "(int a - d) mod int s = 0")
    case True
    have "(\<Sum>i<oh. if int a = int i * int s + d then B (int i) else 0)
          = (\<Sum>i<oh. if int i = (int a - d) div int s then B (int i) else 0)"
      using True assms(1) by (intro sum.cong refl) (simp add: strided_match)
    also have "\<dots> = B ((int a - d) div int s)"
      using assms(3) by (auto simp: sum_int_delta not_less)
    finally show ?thesis using True by simp
  next
    case False
    then show ?thesis using assms(1) by (simp add: strided_match sum.neutral)
  qed
  have "(\<Sum>a<H. (if (int a - d) mod int s = 0 then B ((int a - d) div int s) else 0) * A (int a))
        = (\<Sum>a<H. \<Sum>i<oh. (if int a = int i * int s + d then B (int i) * A (int a) else 0))"
    by (intro sum.cong refl) (simp add: inner sum_distrib_right if_distrib [of "\<lambda>x. x * _"] cong: if_cong)
  also have "\<dots> = (\<Sum>i<oh. \<Sum>a<H. (if int a = int i * int s + d then B (int i) * A (int a) else 0))"
    by (rule sum.swap)
  also have "\<dots> = (\<Sum>i<oh. B (int i) * A (int i * int s + d))"
    using assms(2) by (intro sum.cong refl) (auto simp: sum_int_delta not_less)
  finally show ?thesis by (simp add: mult.commute)
qed

lemma strided_sum2:
  fixes X Y :: "int \<Rightarrow> int \<Rightarrow> real"
  assumes "0 < s1" and "0 < s2"
    and "\<forall>a b. a < 0 \<or> int H \<le> a \<or> b < 0 \<or> int W \<le> b \<longrightarrow> X a b = 0"
    and "\<forall>i j. i < 0 \<or> int oh \<le> i \<or> j < 0 \<or> int ow \<le> j \<longrightarrow> Y i j = 0"
  shows "(\<Sum>i<oh. \<Sum>j<ow. X (int i * int s1 + d1) (int j * int s2 + d2) * Y (int i) (int j))
         = (\<Sum>a<H. \<Sum>b<W. (if (int a - d1) mod int s1 = 0 \<and> (int b - d2) mod int s2 = 0
                               then Y ((int a - d1) div int s1) ((int b - d2) div int s2) else 0) * X (int a) (int b))"
proof -
  let ?Yb = "\<lambda>b i. if (int b - d2) mod int s2 = 0 then Y i ((int b - d2) div int s2) else 0"
  have "(\<Sum>i<oh. \<Sum>j<ow. X (int i * int s1 + d1) (int j * int s2 + d2) * Y (int i) (int j))
        = (\<Sum>i<oh. \<Sum>b<W. ?Yb b (int i) * X (int i * int s1 + d1) (int b))"
    using assms by (intro sum.cong refl strided_sum) auto
  also have "\<dots> = (\<Sum>b<W. \<Sum>i<oh. X (int i * int s1 + d1) (int b) * ?Yb b (int i))"
    by (subst sum.swap) (simp add: mult.commute)
  also have "\<dots> = (\<Sum>b<W. \<Sum>a<H. (if (int a - d1) mod int s1 = 0 then ?Yb b ((int a - d1) div int s1) else 0)
                               * X (int a) (int b))"
    using assms by (intro sum.cong refl strided_sum) auto
  also have "\<dots> = (\<Sum>a<H. \<Sum>b<W. (if (int a - d1) mod int s1 = 0 \<and> (int b - d2) mod int s2 = 0
                               then Y ((int a - d1) div int s1) ((int b - d2) div int s2) else 0) * X (int a) (int b))"
    by (subst sum.swap) (intro sum.cong refl; simp)
  finally show ?thesis .
qed

lemma sum_list_window:
  "sum_list [F di dj ch. di \<leftarrow> [0..<kh], dj \<leftarrow> [0..<kw], ch \<leftarrow> [0..<c]]
   = (\<Sum>di<kh. \<Sum>dj<kw. \<Sum>ch<c. F di dj ch)"
  by (simp add: sum_list_concat_map sum_list_map_upt o_def)

lemma conv2d_same_eq:
  assumes "shape x = [oh * sh, ow * sw, c]" and "0 < sh" and "0 < sw"
  shows "conv2d f (kh, kw) act Same (sh, sw) K bias x =
           Inr \<lparr>shape = [oh, ow, f],
                data = grid3 oh ow f (\<lambda>i j q. act_fn act (bias ! q +
                  (\<Sum>di<kh. \<Sum>dj<kw. \<Sum>ch<c.
                     pixel x (int i * int sh + (int di - int (same_pad (oh * sh) kh sh oh)))
                             (int j * int sw + (int dj - int (same_pad (ow * sw) kw sw ow))) ch
                     * K ! (((di * kw + dj) * c + ch) * f + q))))\<rparr>"
  using assms by (simp add: conv2d_def conv_same_length cdiv_mult sum_list_window algebra_simps)

lemma conv2d_transpose_same_eq:
  assumes "shape y = [oh, ow, f]"
  shows "conv2d_transpose c (kh, kw) act Same (sh, sw) K bias y =
           Inr \<lparr>shape = [oh * sh, ow * sw, c],
                data = grid3 (oh * sh) (ow * sw) c (\<lambda>a b ch. act_fn act (bias ! ch +
                  (\<Sum>di<kh. \<Sum>dj<kw. \<Sum>q<f.
                     strided_pixel y (int a - (int di - int (same_pad (oh * sh) kh sh oh)))
                                     (int b - (int dj - int (same_pad (ow * sw) kw sw ow))) sh sw q
                     * K ! (((di * kw + dj) * c + ch) * f + q))))\<rparr>"
  using assms by (simp add: conv2d_transpose_def deconv_same_length Let_def sum_list_window algebra_simps)

lemma pixel_outside:
  "shape z = [h, w, c] \<Longrightarrow> a < 0 \<or> int h \<le> a \<or> b < 0 \<or> int w \<le> b \<Longrightarrow> pixel z a b ch = 0"
  by (auto simp: pixel_def)

section \<open>Adjointness\<close>

text \<open>C23: With linear activation and zero bias, \<open>conv2d_transpose\<close> with the kernel of a
  \<open>'same'\<close>-padded \<open>conv2d\<close> is its adjoint: for every input \<open>x\<close> of shape
  \<open>(oh * sh, ow * sw, c)\<close> and every \<open>y\<close> of shape \<open>(oh, ow, f)\<close>,
  \<open><conv2d x, y> = <x, conv2d_transpose y>\<close>, and the two layers map between these
  shapes.\<close>

theorem conv2d_transpose_adjoint:
  assumes "0 < sh" and "0 < sw"
    and "wf_nd x" and "shape x = [oh * sh, ow * sw, c]" and "wf_nd y" and "shape y = [oh, ow, f]"
  shows "\<exists>cx ty. conv2d f (kh, kw) Linear Same (sh, sw) K (replicate f 0) x = Inr cx
           \<and> conv2d_transpose c (kh, kw) Linear Same (sh, sw) K (replicate c 0) y = Inr ty
           \<and> shape cx = shape y \<and> shape ty = shape x
           \<and> dot (data cx) (data y) = dot (data x) (data ty)"
proof -
  let ?pt = "same_pad (oh * sh) kh sh oh" and ?pl = "same_pad (ow * sw) kw sw ow"
  let ?K = "\<lambda>di dj ch q. K ! (((di * kw + dj) * c + ch) * f + q)"
  let ?X = "\<lambda>ch a b. pixel x a b ch" and ?Y = "\<lambda>q i j. pixel y i j q"
  let ?S = "\<lambda>di dj q a b. (if (int a - (int di - int ?pt)) mod int sh = 0 \<and> (int b - (int dj - int ?pl)) mod int sw = 0
                  then ?Y q ((int a - (int di - int ?pt)) div int sh) ((int b - (int dj - int ?pl)) div int sw) else 0)"
  let ?cx = "\<lparr>shape = [oh, ow, f],
                data = grid3 oh ow f (\<lambda>i j q. act_fn Linear (replicate f 0 ! q +
                  (\<Sum>di<kh. \<Sum>dj<kw. \<Sum>ch<c.
                     pixel x (int i * int sh + (int di - int ?pt)) (int j * int sw + (int dj - int ?pl)) ch
                     * ?K di dj ch q)))\<rparr>"
  let ?ty = "\<lparr>shape = [oh * sh, ow * sw, c],
                data = grid3 (oh * sh) (ow * sw) c (\<lambda>a b ch. act_fn Linear (replicate c 0 ! ch +
                  (\<Sum>di<kh. \<Sum>dj<kw. \<Sum>q<f.
                     strided_pixel y (int a - (int di - int ?pt)) (int b - (int dj - int ?pl)) sh sw q
                     * ?K di dj ch q)))\<rparr>"
  have cx: "conv2d f (kh, kw) Linear Same (sh, sw) K (replicate f 0) x = Inr ?cx"
    using conv2d_same_eq [OF assms(4,1,2)] .
  have ty: "conv2d_transpose c (kh, kw) Linear Same (sh, sw) K (replicate c 0) y = Inr ?ty"
    using conv2d_transpose_same_eq [OF assms(6)] .
  have "dot (data ?cx) (data y)
        = (\<Sum>i<oh. \<Sum>j<ow. \<Sum>q<f. \<Sum>di<kh. \<Sum>dj<kw. \<Sum>ch<c.
             ?X ch (int i * int sh + (int di - int ?pt)) (int j * int sw + (int dj - int ?pl))
             * ?Y q (int i) (int j) * ?K di dj ch q)"
    using dot_grid3 [OF assms(5,6)] by (simp add: sum_distrib_left sum_distrib_right mult_ac)
  also have "\<dots> = (\<Sum>i<oh. \<Sum>j<ow. \<Sum>di<kh. \<Sum>dj<kw. \<Sum>ch<c. \<Sum>q<f.
             ?X ch (int i * int sh + (int di - int ?pt)) (int j * int sw + (int dj - int ?pl))
             * ?Y q (int i) (int j) * ?K di dj ch q)"
    by (rule sum.cong [OF refl], rule sum.cong [OF refl], rule sum_pull3)
  also have "\<dots> = (\<Sum>di<kh. \<Sum>dj<kw. \<Sum>ch<c. \<Sum>q<f. \<Sum>i<oh. \<Sum>j<ow.
             ?X ch (int i * int sh + (int di - int ?pt)) (int j * int sw + (int dj - int ?pl))
             * ?Y q (int i) (int j) * ?K di dj ch q)"
    by (subst sum.cong [OF refl sum_pull4], subst sum_pull4, rule refl)
  finally have L: "dot (data ?cx) (data y) = \<dots>" .
  have "dot (data x) (data ?ty)
        = (\<Sum>a<oh * sh. \<Sum>b<ow * sw. \<Sum>ch<c. \<Sum>di<kh. \<Sum>dj<kw. \<Sum>q<f.
             ?S di dj q a b * ?X ch (int a) (int b) * ?K di dj ch q)"
    using dot_grid3 [OF assms(3,4)]
    by (simp add: dot_commute [of "data x"] strided_pixel_def sum_distrib_left sum_distrib_right mult_ac)
  also have "\<dots> = (\<Sum>a<oh * sh. \<Sum>b<ow * sw. \<Sum>di<kh. \<Sum>dj<kw. \<Sum>ch<c. \<Sum>q<f.
             ?S di dj q a b * ?X ch (int a) (int b) * ?K di dj ch q)"
    by (rule sum.cong [OF refl], rule sum.cong [OF refl], rule sum_pull2)
  also have "\<dots> = (\<Sum>di<kh. \<Sum>dj<kw. \<Sum>ch<c. \<Sum>q<f. \<Sum>a<oh * sh. \<Sum>b<ow * sw.
             ?S di dj q a b * ?X ch (int a) (int b) * ?K di dj ch q)"
    by (subst sum.cong [OF refl sum_pull4], subst sum_pull4, rule refl)
  finally have R: "dot (data x) (data ?ty) = \<dots>" .
  have core: "(\<Sum>i<oh. \<Sum>j<ow. ?X ch (int i * int sh + (int di - int ?pt)) (int j * int sw + (int dj - int ?pl))
                 * ?Y q (int i) (int j) * ?K di dj ch q)
              = (\<Sum>a<oh * sh. \<Sum>b<ow * sw. ?S di dj q a b * ?X ch (int a) (int b) * ?K di dj ch q)"
    for di dj ch q
  proof -
    have "(\<Sum>i<oh. \<Sum>j<ow. ?X ch (int i * int sh + (int di - int ?pt)) (int j * int sw + (int dj - int ?pl))
             * ?Y q (int i) (int j))
          = (\<Sum>a<oh * sh. \<Sum>b<ow * sw. ?S di dj q a b * ?X ch (int a) (int b))"
      using assms(1,2) pixel_outside [OF assms(4)] pixel_outside [OF assms(6)]
      by (intro strided_sum2) auto
    then show ?thesis by (simp add: sum_distrib_right [symmetric])
  qed
  have "dot (data ?cx) (data y) = dot (data x) (data ?ty)"
    unfolding L R by (rule sum.cong [OF refl])+ (rule core)
  then show ?thesis using cx ty assms(4,6) by simp
qed

section \<open>Witnesses\<close>

theorem conv2d_transpose_adjoint_witness:
  "\<exists>cx ty. conv2d 1 (3, 3) Linear Same (2, 2) [1, 2, 3, 4, 5, 6, 7, 8, 9] (replicate 1 0)
             \<lparr>shape = [2, 2, 1], data = [1, 2, 3, 4]\<rparr> = Inr cx
     \<and> conv2d_transpose 1 (3, 3) Linear Same (2, 2) [1, 2, 3, 4, 5, 6, 7, 8, 9] (replicate 1 0)
             \<lparr>shape = [1, 1, 1], data = [5]\<rparr> = Inr ty
     \<and> shape cx = [1, 1, 1] \<and> shape ty = [2, 2, 1]
     \<and> dot (data cx) [5] = dot [1, 2, 3, 4] (data ty)"
  using conv2d_transpose_adjoint [of 2 2 "\<lparr>shape = [2, 2, 1], data = [1, 2, 3, 4]\<rparr>" 1 1 1
      "\<lparr>shape = [1, 1, 1], data = [5]\<rparr>" 1]
  by (simp add: wf_nd_def)

end
