(* ===== verification/Spec2Isabelle.thy ===== *)
theory Spec2Isabelle
  imports Loader Layers Pixels Evaluate Training Weights Visualize Forward Adam Conv_Adjoint
begin

text \<open>
  \<^bold>\<open>A verification model of \<open>src/neural_with_tensorflow.py\<close>.\<close>

  The repository is one script (a notebook export) that loads a folder of images,
  builds a convolutional autoencoder with Keras, trains it to reconstruct the images,
  shows a few reconstructions, saves and reloads the weights and prints a loss.  Its
  parts and the theories that model them, in the order the script uses them:

  \<^item> \<open>Prelude\<close>: the Python and library exceptions as the datatype \<open>py_error\<close>
    (results are \<open>py_error + 'a\<close>, sequenced by \<open>bindr\<close>), ceiling division
    \<open>cdiv\<close>, and shared list and sum lemmas collected in \<open>model_simps\<close>.
  \<^item> \<open>Numpy\<close>: the numpy calls of the script on arrays stored as numpy stores them
    (record \<open>ndarray\<close>: a shape and a flat row-major buffer): \<open>reshape\<close>,
    \<open>expand_dims\<close>, \<open>repeat\<close>, stacking with \<open>np.array\<close>, iteration and slicing
    along the first axis, \<open>len\<close>, element-wise maps, subtraction with numpy's
    broadcasting (through C-order \<open>unravel\<close>/\<open>ravel\<close> index tuples) and
    \<open>np.mean\<close>, each with the exception numpy raises.  Invariant \<open>wf_nd\<close>, kept
    by every operation; stacking and iterating are inverse
    (\<open>np_iter_array_stack\<close>); on equal shapes, the only case line 93 meets,
    subtraction is element-wise (\<open>np_sub_same_shape\<close>).
  \<^item> \<open>Layers\<close> (lines 41--57): the network as a list of \<open>layer\<close> values with the
    arguments the script passes, Keras' output-shape rules (\<open>layer_out\<close>,
    \<open>infer\<close>) and the activation functions.  Claims: the exact set of input shapes
    the model accepts, and that it reproduces its input shape only for
    \<open>(128, 128, 3)\<close>.
  \<^item> \<open>Loader\<close> (lines 27--39): \<open>load_images\<close> over a directory listing (file names
    with the image Pillow decodes from each), the suffix filter, \<open>Image.open\<close>
    failures, \<open>resize\<close> with the resampling filter as a parameter constrained by
    \<open>resampler_ok\<close> (\<open>nearest_resample\<close> satisfies it), the array conversion per
    Pillow mode, the grayscale expansion and the stacking.  Claims: the shape and
    content of the loaded array, the error on mixed channel counts.
  \<^item> \<open>Pixels\<close> (lines 68 and 105): normalisation to \<open>[0, 1]\<close> and the conversion
    back to \<open>uint8\<close> as an \<open>8 word\<close> with truncation and wrap-around.  Claim: the
    round trip on bytes.
  \<^item> \<open>Evaluate\<close> (lines 87--96): \<open>evaluate_network\<close> with the trained network's
    \<open>predict\<close> as a parameter that satisfies Keras' shape contract
    (\<open>predict_ok\<close>), nan as \<open>None\<close>, the ZeroDivisionError of the final division.
    Claims: the equivalence of the loop with the closed-form mean, the reshape error
    on images of another size, the range of the printed loss and when it is zero.
  \<^item> \<open>Training\<close> (lines 57--61): Keras 2's \<open>fit\<close> in the order it fails
    (cardinality, then no step on empty data and its "Empty logs" error, then the
    model's input check at the first step; a falsy batch size means 32), one shuffle
    permutation per epoch (an input of the model), batches of \<open>batch_size\<close>, one
    optimizer step per batch counted in \<open>iterations\<close>; the optimizer update is a
    parameter.  Claims: batching partitions each epoch, the result and step count of
    a run, every sample used once per epoch and fed at one of that epoch's steps.
  \<^item> \<open>Weights\<close> (lines 79--85): the weight files as a map from paths to saved
    weights, Keras 2 and Keras 3 behaviour (Keras 3 refuses a name not ending in
    \<open>.weights.h5\<close>); used by \<open>main\<close>, whose claims state its effect.
  \<^item> \<open>Visualize\<close> (lines 20--25, 63--77): the script's matplotlib calls as a
    list of \<open>plt_call\<close> values and pyplot's state machine \<open>plt_step\<close> (open
    figures with their axes, current figure and axes, figures shown; \<open>plt.show()\<close>
    shows and closes every open figure, as the notebook backend does).  Claim: for
    each of the first five images the user sees three one-panel figures, because
    the \<open>plt.show()\<close> inside \<open>display_image\<close> closes the \<open>12 x 4\<close> comparison
    figure after its first panel.
  \<^item> \<open>Forward\<close> (lines 44--56, 67, 92): what the layers compute, value by value on
    exact reals: the zero-padded strided convolution \<open>conv2d\<close>, its transpose
    \<open>conv2d_transpose\<close> (both with TensorFlow's \<open>'same'\<close> padding split),
    \<open>Flatten\<close> and \<open>Reshape\<close>, the model's variables in \<open>model.weights\<close> order
    (\<open>vars_ok\<close>: the sizes Keras creates), \<open>forward\<close> and \<open>predict\<close> on a batch;
    the forward pass produces the shapes of \<open>Layers\<close> (\<open>forward_refines\<close>).
    Claim: the autoencoder meets \<open>predict_ok\<close> and \<open>predict_unit\<close> for any
    variables.
  \<^item> \<open>Conv_Adjoint\<close> (lines 45--53): the transposed convolution is the adjoint
    of the convolution with the same kernel (\<open>conv2d_transpose_adjoint\<close>), which
    checks the two layers' index arithmetic against each other; the proof reindexes
    the strided axis (\<open>strided_sum2\<close>).
  \<^item> \<open>Adam\<close> (line 57): Keras' \<open>Adam.update_step\<close> with the defaults of
    \<open>Adam()\<close>, its momentum and velocity slots, the reachable optimizer states as an
    inductive set; the gradients are a parameter (\<open>grad_ok\<close>: one per variable, of
    its size).  Claims: the slot and variable-size invariant over a whole training
    run (rule induction), the equivalence with the paper's algorithm, the bound on
    the first step.
  \<^item> This theory (lines 98--120): \<open>main\<close>, the script's top level, threading the
    program state (model state, weight files, pyplot state, printed lines) through
    the calls, and the end-to-end claims: a complete run under Keras 2, the crash at
    \<open>save_model\<close> under Keras 3, an image-less folder, the bound \<open>[0, 1]\<close> on the
    loss a Keras 2 run prints for 8-bit images, and the same run with the network
    the script builds and Adam from a freshly built model, where the only parameter
    left is the framework's gradient.

  \<^bold>\<open>Interfaces.\<close>  The training driver checks its data against the shapes the
  \<open>Layers\<close> theory computes (\<open>input_shape\<close> and \<open>infer autoencoder_layers\<close>);
  evaluation and visualisation receive the network as a function \<open>'w \<Rightarrow> predictor\<close>
  from the weights, constrained by the contracts \<open>predict_ok\<close> and
  \<open>predict_unit\<close>, which \<open>Forward\<close> discharges for the script's network
  (\<open>autoencoder_predict_contract\<close>); the training driver takes the optimizer step
  as a parameter, which \<open>Adam\<close> supplies (\<open>adam_step\<close>), and an invariant of the
  step carries over a whole \<open>fit\<close> (\<open>train_network_invariant\<close>).  The end-to-end
  lemmas of this theory are stated for any invariant \<open>I\<close> of the weights; the
  claims instantiate it with \<open>True\<close> or with Adam's reachable states.  Components
  communicate only through the values \<open>main\<close> passes, as in the script.

  \<^bold>\<open>Bounds and termination.\<close>  Every loop of the script is a structural
  recursion over a finite list (directory entries, test images, epochs, the first
  five images), except \<open>batches\<close>, a \<open>function\<close> terminating by the measure
  \<open>length xs\<close>; the forward pass recurses on the layer list and its
  convolutions are finite sums over the kernel window; no fuel is needed.  Numbers:
  Python ints as \<open>int\<close>/\<open>nat\<close>, floats as exact reals, \<open>uint8\<close> as \<open>8 word\<close>.

  \<^bold>\<open>Exact reals and float32.\<close>  Values are exact reals, so a claim is made only
  where float32 rounding cannot change it: the predictions' bound is the closed
  \<open>[0, 1]\<close> (TensorFlow's float32 sigmoid rounds to exactly \<open>1.0\<close> from an input of
  about 17 on, so strict bounds and, through line 68, the absence of the byte 255
  would hold of the model only), and the byte round trip of \<open>Pixels\<close> holds for
  float32 too.  The equalities of \<open>Evaluate\<close>, \<open>Adam\<close> and \<open>Conv_Adjoint\<close> are about
  the computation's exact value.

  \<^bold>\<open>Not modelled.\<close>  Automatic differentiation (the gradients are a
  parameter of Adam's step) and float32 rounding (the spec puts the framework's
  numerics out of scope, and the forward pass and Adam are modelled only to
  discharge the contracts the script relies on); the HDF5 contents of the weights
  file (a saved value is read back as it was written); image decoding and the
  resampling filters' arithmetic (Pillow); matplotlib's rendering (only the figures,
  their axes, titles and images are kept; \<open>plt.imshow\<close> keeps the last image of an
  axes, which is all the script draws on each).  When the script crashes, the
  figures already shown are not part of the returned error.
\<close>

record 'w prog_state =
  model_state :: "'w train_state"
  weight_files :: "'w weight_files"
  screen :: plt_state
  printed :: "real option list"

definition pics_dir :: string where
  "pics_dir = ''/content/pics''"

definition main :: "keras_version \<Rightarrow> resampler \<Rightarrow> filesystem \<Rightarrow> 'w step_fn \<Rightarrow> shuffler
    \<Rightarrow> ('w \<Rightarrow> predictor) \<Rightarrow> 'w prog_state \<Rightarrow> 'w prog_state result" where
  "main kv rs fs step sh net ps =
     bindr (load_images rs fs pics_dir (128, 128)) (\<lambda>raw.
     (let train_data = normalize_array raw in
     bindr (train_network step sh train_data 50 16 (model_state ps)) (\<lambda>st1.
     bindr (visualize_results (net (weights st1)) train_data) (\<lambda>calls.
     bindr (save_model kv st1 (weight_files ps)) (\<lambda>files.
     bindr (load_model st1 files) (\<lambda>st2.
     bindr (evaluate_network (net (weights st2)) train_data) (\<lambda>loss.
       Inr \<lparr>model_state = st2, weight_files = files,
            screen = plt_run calls (screen ps), printed = printed ps @ [loss]\<rparr>)))))))"

definition ex_state :: "nat prog_state" where
  "ex_state = \<lparr>model_state = \<lparr>weights = 0, iterations = 0\<rparr>, weight_files = Map.empty,
     screen = \<lparr>open_figs = [], shown_figs = []\<rparr>, printed = []\<rparr>"

definition ex_step :: "nat step_fn" where
  "ex_step t w xb yb = w + length (data xb)"

text \<open>A fresh run of the script: the variables of a newly built model, the optimizer's
  zero slots, no weights file, nothing shown yet.\<close>

definition ex_adam_state :: "adam_slots prog_state" where
  "ex_adam_state =
     \<lparr>model_state = \<lparr>weights = adam_init (zero_variables autoencoder_layers input_shape), iterations = 0\<rparr>,
      weight_files = Map.empty,
     screen = \<lparr>open_figs = [], shown_figs = []\<rparr>, printed = []\<rparr>"

section \<open>Lemmas\<close>

lemma normalize_array_shape [model_simps]:
  "shape (normalize_array a) = shape a" "wf_nd a \<Longrightarrow> wf_nd (normalize_array a)"
  by (simp_all add: normalize_array_def np_map_def wf_nd_def)

text \<open>The part of the run before \<open>save_model\<close> on a folder of one- and three-band
  images: the images load, training runs its \<open>50 * \<lceil>n / 16\<rceil>\<close> steps and the
  visualisation shows its figures.\<close>

lemma main_until_save:
  assumes "resampler_ok rs" and "fs pics_dir = Some es" and "selected es \<noteq> []"
    and "\<forall>e\<in>set (selected es). \<exists>i. snd e = Some i \<and> wf_image i \<and> bands (im_mode i) \<in> {1, 3}"
    and "shuffle_ok sh (length (selected es)) 50" and "I (weights st)"
    and "\<forall>t w xb yb. I w \<longrightarrow> I (step t w xb yb)" and "\<forall>w. I w \<longrightarrow> predict_ok (net w)"
  shows "\<exists>raw st1 calls. load_images rs fs pics_dir (128, 128) = Inr raw
           \<and> shape raw = [length (selected es), 128, 128, 3] \<and> wf_nd raw
           \<and> train_network step sh (normalize_array raw) 50 16 st = Inr st1
           \<and> iterations st1 = iterations st + 50 * cdiv (length (selected es)) 16 \<and> I (weights st1)
           \<and> visualize_results (net (weights st1)) (normalize_array raw) = Inr calls
           \<and> (\<forall>sc. open_figs sc = [] \<longrightarrow> (\<exists>figs. plt_run calls sc = \<lparr>open_figs = [], shown_figs = shown_figs sc @ figs\<rparr>
                 \<and> map fig_layout figs = concat (replicate (min 5 (length (selected es))) compare_layout)))"
proof -
  let ?n = "length (selected es)"
  have dec: "list_all decodable (selected es)"
    using assms(4) by (auto simp: list_all_iff decodable_def)
  have ch: "\<forall>e\<in>set (selected es). channels_loaded (im_mode (the (snd e))) = 3"
    using assms(4) by (auto simp: channels_loaded_def)
  obtain raw where ld: "load_images rs fs pics_dir (128, 128) = Inr raw"
    and sr: "shape raw = [?n, 128, 128, 3]"
    using load_images_stack [where rs = rs and w = 128 and h = 128 and fs = fs and d = pics_dir
        and es = es and c = 3, OF assms(2) dec assms(3) ch]
    by fastforce
  have wr: "wf_nd raw"
    using load_images_wf [where fs = fs and d = pics_dir and es = es, OF assms(1,2) _ ld] assms(4)
    by blast
  let ?t = "normalize_array raw"
  have st: "shape ?t = ?n # input_shape" "wf_nd ?t"
    using sr wr by (simp_all add: normalize_array_shape input_shape_def)
  have pos: "0 < ?n" using assms(3) by simp
  let ?st1 = "fold (\<lambda>b s. train_step step ?t ?t s b) (run_batches 16 sh 0 50) st"
  have tr: "train_network step sh ?t 50 16 st = Inr ?st1"
    using train_network_run [where bs = 16 and step = step and sh = sh and epochs = 50 and st = st,
        OF st(1) pos] by simp
  have it: "iterations ?st1 = iterations st + 50 * cdiv ?n 16"
    using iterations_run [where bs = 16 and step = step and x = ?t and y = ?t and st = st,
        OF assms(5)] by simp
  have st3: "shape ?t = [?n, 128, 128, 3]" using st(1) by (simp add: input_shape_def)
  obtain imgs where vl: "visualize_results (net (weights ?st1)) ?t = visualize_loop (net (weights ?st1)) imgs"
    and li: "length imgs = min 5 ?n" and wi: "\<forall>img\<in>set imgs. wf_nd img \<and> shape img = [128, 128, 3]"
    using visualize_results_loop [OF st(2) st3] by blast
  have inv: "I (weights ?st1)" using train_network_invariant [OF tr, of I] assms(6,7) by blast
  obtain calls where "visualize_loop (net (weights ?st1)) imgs = Inr calls"
    and "\<forall>sc. open_figs sc = [] \<longrightarrow> (\<exists>figs. plt_run calls sc = \<lparr>open_figs = [], shown_figs = shown_figs sc @ figs\<rparr>
                 \<and> map fig_layout figs = concat (replicate (length imgs) compare_layout))"
    using visualize_loop_figures [OF _ wi] assms(8) inv by blast
  then show ?thesis using ld sr wr tr it vl li inv by auto
qed

text \<open>Under Keras 2, once training and the visualisation have returned, saving and
  reloading hand the trained weights back unchanged and the run ends with the
  evaluation's printed loss.\<close>

lemma main_keras2_eq:
  assumes "load_images rs fs pics_dir (128, 128) = Inr raw"
    and "train_network step sh (normalize_array raw) 50 16 (model_state ps) = Inr st1"
    and "visualize_results (net (weights st1)) (normalize_array raw) = Inr calls"
  shows "main Keras2 rs fs step sh net ps =
           bindr (evaluate_network (net (weights st1)) (normalize_array raw)) (\<lambda>loss.
             Inr \<lparr>model_state = st1, weight_files = (weight_files ps)(weights_path \<mapsto> weights st1),
                  screen = plt_run calls (screen ps), printed = printed ps @ [loss]\<rparr>)"
proof -
  have "save_model Keras2 st1 (weight_files ps) = Inr ((weight_files ps)(weights_path \<mapsto> weights st1))"
    by (simp add: save_model_def save_weights_def)
  moreover have "load_model st1 ((weight_files ps)(weights_path \<mapsto> weights st1)) = Inr st1"
    by (simp add: load_model_def load_weights_def)
  ultimately show ?thesis using assms by (simp add: main_def Let_def)
qed

text \<open>The loss a Keras 2 run prints on 8-bit one- and three-band images lies in
  \<open>[0, 1]\<close> whenever the network meets both predictor contracts for every weight value
  satisfying an invariant \<open>I\<close> of the optimizer steps.\<close>

lemma main_loss_bound:
  assumes "resampler_ok rs" and "fs pics_dir = Some es" and "selected es \<noteq> []"
    and "\<forall>e\<in>set (selected es). \<exists>i. snd e = Some i \<and> wf_image i \<and> bands (im_mode i) \<in> {1, 3}"
    and "\<forall>e\<in>set (selected es). \<exists>i. snd e = Some i \<and> wf_image i \<and> im_mode i \<noteq> Mode_I16"
    and "shuffle_ok sh (length (selected es)) 50" and "I (weights (model_state ps))"
    and "\<forall>t w xb yb. I w \<longrightarrow> I (step t w xb yb)"
    and "\<forall>w. I w \<longrightarrow> predict_ok (net w) \<and> predict_unit (net w)"
  shows "\<exists>ps' l. main Keras2 rs fs step sh net ps = Inr ps'
           \<and> printed ps' = printed ps @ [Some l] \<and> 0 \<le> l \<and> l \<le> 1
           \<and> I (weights (model_state ps'))
           \<and> iterations (model_state ps') = iterations (model_state ps) + 50 * cdiv (length (selected es)) 16"
proof -
  let ?n = "length (selected es)"
  have ok: "\<forall>w. I w \<longrightarrow> predict_ok (net w)" using assms(9) by blast
  obtain raw st1 calls where ld: "load_images rs fs pics_dir (128, 128) = Inr raw"
    and sr: "shape raw = [?n, 128, 128, 3]" and wr: "wf_nd raw"
    and tr: "train_network step sh (normalize_array raw) 50 16 (model_state ps) = Inr st1"
    and it: "iterations st1 = iterations (model_state ps) + 50 * cdiv ?n 16" and inv: "I (weights st1)"
    and vi: "visualize_results (net (weights st1)) (normalize_array raw) = Inr calls"
    using main_until_save [where rs = rs and fs = fs and es = es and sh = sh and net = net
      and step = step and st = "model_state ps" and I = I, OF assms(1-4,6,7,8) ok] by blast
  have unit: "\<forall>v\<in>set (data (normalize_array raw)). 0 \<le> v \<and> v \<le> 1"
  proof
    fix v assume "v \<in> set (data (normalize_array raw))"
    then obtain x where x: "x \<in> set (data raw)" "v = normalize x"
      by (auto simp: normalize_array_def np_map_def)
    obtain e where "e \<in> set (selected es)" and "0 \<le> x \<and> x \<le> sample_max (im_mode (the (snd e)))"
      using load_images_sample_source [OF assms(1,2) _ ld x(1)] assms(4) by blast
    then have "0 \<le> x \<and> x \<le> 255" using assms(5) sample_max_le_255 by fastforce
    then show "0 \<le> v \<and> v \<le> 1" using x(2) by (simp add: normalize_def)
  qed
  have st: "wf_nd (normalize_array raw)" "shape (normalize_array raw) = [?n, 128, 128, 3]"
    using wr sr by (simp_all add: normalize_array_shape)
  have pos: "0 < ?n" using assms(3) by simp
  have p: "predict_ok (net (weights st1))" "predict_unit (net (weights st1))" using assms(9) inv by auto
  let ?s = "sum_list (map (\<lambda>x. mean_sq_err (data (net (weights st1) x)) (data x))
             (test_images (normalize_array raw)))"
  have "0 \<le> ?s \<and> ?s \<le> real ?n"
    using sum_list_unit_bounds [OF test_images_loss_unit [OF p st unit]] test_images_length [OF st(2)]
    by simp
  then have "0 \<le> ?s / real ?n \<and> ?s / real ?n \<le> 1" using pos by simp
  then obtain l where "evaluate_network (net (weights st1)) (normalize_array raw) = Inr (Some l)"
    and "0 \<le> l" and "l \<le> 1"
    using evaluate_network_images [OF p(1) st pos] by blast
  then show ?thesis using main_keras2_eq [where net = net, OF ld tr vi] inv it by auto
qed

section \<open>Properties of the whole script\<close>

text \<open>C1: Under Keras 2, on a folder of one- and three-band \<open>.jpg\<close>/\<open>.png\<close> images
  (at least one) the script runs to the end: the optimizer has taken
  \<open>50 * \<lceil>n / 16\<rceil>\<close> steps, the weights file holds the final weights, the printed
  loss is a number and not nan, and, starting with no figure open, the user has seen
  three one-panel figures for each of \<open>min(5, n)\<close> images and no figure is left
  open.\<close>

theorem main_keras2_runs:
  assumes "resampler_ok rs" and "fs pics_dir = Some es" and "selected es \<noteq> []"
    and "\<forall>e\<in>set (selected es). \<exists>i. snd e = Some i \<and> wf_image i \<and> bands (im_mode i) \<in> {1, 3}"
    and "shuffle_ok sh (length (selected es)) 50" and "\<forall>w. predict_ok (net w)"
    and "open_figs (screen ps) = []"
  shows "\<exists>ps' l figs. main Keras2 rs fs step sh net ps = Inr ps'
           \<and> iterations (model_state ps') = iterations (model_state ps) + 50 * cdiv (length (selected es)) 16
           \<and> weight_files ps' weights_path = Some (weights (model_state ps'))
           \<and> printed ps' = printed ps @ [Some l]
           \<and> screen ps' = \<lparr>open_figs = [], shown_figs = shown_figs (screen ps) @ figs\<rparr>
           \<and> map fig_layout figs = concat (replicate (min 5 (length (selected es))) compare_layout)"
proof -
  let ?n = "length (selected es)"
  obtain raw st1 calls where ld: "load_images rs fs pics_dir (128, 128) = Inr raw"
    and sr: "shape raw = [?n, 128, 128, 3]" and wr: "wf_nd raw"
    and tr: "train_network step sh (normalize_array raw) 50 16 (model_state ps) = Inr st1"
    and it: "iterations st1 = iterations (model_state ps) + 50 * cdiv ?n 16"
    and vi: "visualize_results (net (weights st1)) (normalize_array raw) = Inr calls"
    and ti: "\<forall>sc. open_figs sc = [] \<longrightarrow> (\<exists>figs. plt_run calls sc = \<lparr>open_figs = [], shown_figs = shown_figs sc @ figs\<rparr>
                 \<and> map fig_layout figs = concat (replicate (min 5 ?n) compare_layout))"
    using main_until_save [where rs = rs and fs = fs and es = es and sh = sh and net = net
      and step = step and st = "model_state ps" and I = "\<lambda>w. True", OF assms(1-5)] assms(6) by blast
  have "evaluate_network (net (weights st1)) (normalize_array raw) =
          Inr (Some (sum_list (map (\<lambda>x. mean_sq_err (data (net (weights st1) x)) (data x))
             (test_images (normalize_array raw))) / real ?n))"
    using evaluate_network_images [OF _ normalize_array_shape(2) [OF wr]] assms(3,6) sr
    by (simp add: normalize_array_shape)
  moreover obtain figs where "plt_run calls (screen ps) = \<lparr>open_figs = [], shown_figs = shown_figs (screen ps) @ figs\<rparr>"
    and "map fig_layout figs = concat (replicate (min 5 ?n) compare_layout)"
    using ti assms(7) by blast
  ultimately show ?thesis using main_keras2_eq [where net = net, OF ld tr vi] it by auto
qed

text \<open>C2: Under Keras 3 the same run trains and shows its figures, then stops with a
  ValueError at \<open>save_model\<close>: the weights are never saved, reloaded or
  evaluated.\<close>

theorem main_keras3_fails:
  assumes "resampler_ok rs" and "fs pics_dir = Some es" and "selected es \<noteq> []"
    and "\<forall>e\<in>set (selected es). \<exists>i. snd e = Some i \<and> wf_image i \<and> bands (im_mode i) \<in> {1, 3}"
    and "shuffle_ok sh (length (selected es)) 50" and "\<forall>w. predict_ok (net w)"
  shows "main Keras3 rs fs step sh net ps = Inl (ValueError WeightsFilename)"
proof -
  obtain raw st1 calls where ld: "load_images rs fs pics_dir (128, 128) = Inr raw"
    and tr: "train_network step sh (normalize_array raw) 50 16 (model_state ps) = Inr st1"
    and vi: "visualize_results (net (weights st1)) (normalize_array raw) = Inr calls"
    using main_until_save [where rs = rs and fs = fs and es = es and sh = sh and net = net
      and step = step and st = "model_state ps" and I = "\<lambda>w. True", OF assms(1-5)] assms(6) by blast
  have "save_model Keras3 st1 (weight_files ps) = Inl (ValueError WeightsFilename)"
    by (simp add: save_model_def save_weights_def weights_path_def endswith_def)
  then show ?thesis using ld tr vi by (simp add: main_def Let_def)
qed

text \<open>C16: A folder without any \<open>.jpg\<close>/\<open>.png\<close> file loads as numpy's empty array of
  shape \<open>(0,)\<close>; \<open>fit\<close>'s 50 epochs then run no step and the script stops with
  Keras' "Empty logs" ValueError.\<close>

theorem main_no_images:
  assumes "fs pics_dir = Some es" and "selected es = []"
  shows "main kv rs fs step sh net ps = Inl (ValueError EmptyTrainingData)"
proof -
  have "load_entries rs (128, 128) es = Inr []"
    using load_entries_decodable [of es rs] assms(2) by simp
  then have "load_images rs fs pics_dir (128, 128) = Inr \<lparr>shape = [0], data = []\<rparr>"
    using assms(1) by (simp add: load_images_def np_array_stack_def)
  then show ?thesis
    by (simp add: main_def train_network_eq normalize_array_shape input_shape_def)
qed

text \<open>C17: Under Keras 2, on a folder of one- and three-band 8-bit images, with a model
  whose predictions lie in \<open>[0, 1]\<close> (the sigmoid output layer), the loss the
  script prints at the end is a number in \<open>[0, 1]\<close>.\<close>

theorem main_loss_unit:
  assumes "resampler_ok rs" and "fs pics_dir = Some es" and "selected es \<noteq> []"
    and "\<forall>e\<in>set (selected es). \<exists>i. snd e = Some i \<and> wf_image i \<and> bands (im_mode i) \<in> {1, 3}"
    and "\<forall>e\<in>set (selected es). \<exists>i. snd e = Some i \<and> wf_image i \<and> im_mode i \<noteq> Mode_I16"
    and "shuffle_ok sh (length (selected es)) 50" and "\<forall>w. predict_ok (net w) \<and> predict_unit (net w)"
  shows "\<exists>ps' l. main Keras2 rs fs step sh net ps = Inr ps'
           \<and> printed ps' = printed ps @ [Some l] \<and> 0 \<le> l \<and> l \<le> 1"
  using main_loss_bound [where rs = rs and fs = fs and es = es and sh = sh and net = net and step = step
      and ps = ps and I = "\<lambda>w. True", OF assms(1-6)] assms(7) by auto

text \<open>C22: The script with the network it builds and the optimizer it compiles: from a
  freshly built model (variables of the sizes Keras gives them, zero Adam slots), on a
  folder of one- and three-band 8-bit images, a Keras 2 run ends after
  \<open>50 * \<lceil>n / 16\<rceil>\<close> Adam steps with variables that still fit the network, and prints
  a loss in \<open>[0, 1]\<close>, whatever gradients the framework computes.\<close>

theorem main_trained_autoencoder:
  assumes "resampler_ok rs" and "fs pics_dir = Some es" and "selected es \<noteq> []"
    and "\<forall>e\<in>set (selected es). \<exists>i. snd e = Some i \<and> wf_image i \<and> bands (im_mode i) \<in> {1, 3}"
    and "\<forall>e\<in>set (selected es). \<exists>i. snd e = Some i \<and> wf_image i \<and> im_mode i \<noteq> Mode_I16"
    and "shuffle_ok sh (length (selected es)) 50" and "grad_ok grad"
    and "vars_ok autoencoder_layers input_shape vs_init"
    and "model_state ps = \<lparr>weights = adam_init vs_init, iterations = 0\<rparr>"
  shows "\<exists>ps' l. main Keras2 rs fs (adam_step grad) sh (\<lambda>w. autoencoder_predict (params w)) ps = Inr ps'
           \<and> printed ps' = printed ps @ [Some l] \<and> 0 \<le> l \<and> l \<le> 1
           \<and> iterations (model_state ps') = 50 * cdiv (length (selected es)) 16
           \<and> vars_ok autoencoder_layers input_shape (params (weights (model_state ps')))"
proof -
  let ?I = "adam_reachable grad vs_init"
  have "?I (weights (model_state ps))" using assms(9) by (simp add: reach_init)
  moreover have "\<forall>t w xb yb. ?I w \<longrightarrow> ?I (adam_step grad t w xb yb)" by (blast intro: reach_step)
  moreover have "\<forall>w. ?I w \<longrightarrow> predict_ok (autoencoder_predict (params w)) \<and> predict_unit (autoencoder_predict (params w))"
    using adam_reachable_predict [OF assms(7,8)] by blast
  ultimately obtain ps' l where
    r: "main Keras2 rs fs (adam_step grad) sh (\<lambda>w. autoencoder_predict (params w)) ps = Inr ps'"
      "printed ps' = printed ps @ [Some l]" "0 \<le> l" "l \<le> 1"
      "?I (weights (model_state ps'))"
      "iterations (model_state ps') = iterations (model_state ps) + 50 * cdiv (length (selected es)) 16"
    using main_loss_bound [where rs = rs and fs = fs and es = es and sh = sh and step = "adam_step grad"
        and net = "\<lambda>w. autoencoder_predict (params w)" and ps = ps and I = ?I, OF assms(1-6)] by blast
  have "vars_ok autoencoder_layers input_shape (params (weights (model_state ps')))"
    using adam_reachable_ok [OF assms(7) r(5)] vars_ok_lengths assms(8) by blast
  then show ?thesis using r assms(9) by auto
qed

section \<open>Witnesses\<close>

lemma ex_run_hyps:
  "ex_fs pics_dir = Some ex_dir" "selected ex_dir \<noteq> []" "shuffle_ok (\<lambda>e. [1, 0]) (length (selected ex_dir)) 50"
  "\<forall>w. predict_ok ((\<lambda>w. ex_predictor) w)"
  by (simp_all add: ex_fs_def pics_dir_def selected_ex_dir shuffle_ok_def numeral_2_eq_2 ex_predictor_ok
      del: mset_upt)

theorem main_keras2_runs_witness:
  "\<exists>ps' l figs. main Keras2 nearest_resample ex_fs ex_step (\<lambda>e. [1, 0]) (\<lambda>w. ex_predictor) ex_state = Inr ps'
     \<and> iterations (model_state ps') = 50
     \<and> weight_files ps' weights_path = Some (weights (model_state ps'))
     \<and> printed ps' = [Some l]
     \<and> screen ps' = \<lparr>open_figs = [], shown_figs = figs\<rparr>
     \<and> map fig_layout figs = compare_layout @ compare_layout"
proof -
  have c: "cdiv 2 16 = 1" by (simp add: cdiv_def)
  show ?thesis
    using main_keras2_runs [where step = ex_step and ps = ex_state and rs = nearest_resample
        and fs = ex_fs and es = ex_dir and sh = "\<lambda>e. [1, 0]" and net = "\<lambda>w. ex_predictor",
        OF resampler_ok_nearest ex_run_hyps(1,2) ex_dir_images(1) ex_run_hyps(3,4)] c
    by (simp add: selected_ex_dir ex_state_def numeral_2_eq_2)
qed

theorem main_loss_unit_witness:
  "\<exists>ps' l. main Keras2 nearest_resample ex_fs ex_step (\<lambda>e. [1, 0]) (\<lambda>w. ex_predictor) ex_state = Inr ps'
     \<and> printed ps' = [Some l] \<and> 0 \<le> l \<and> l \<le> 1"
proof -
  have "\<forall>w. predict_ok ((\<lambda>w. ex_predictor) w) \<and> predict_unit ((\<lambda>w. ex_predictor) w)"
    using ex_predictor_ok by simp
  then show ?thesis
    using main_loss_unit [where step = ex_step and ps = ex_state and rs = nearest_resample
        and fs = ex_fs and es = ex_dir and sh = "\<lambda>e. [1, 0]" and net = "\<lambda>w. ex_predictor",
        OF resampler_ok_nearest ex_run_hyps(1,2) ex_dir_images ex_run_hyps(3)]
    by (simp add: ex_state_def)
qed

theorem main_trained_autoencoder_witness:
  "\<exists>ps' l. main Keras2 nearest_resample ex_fs (adam_step ex_grad) (\<lambda>e. [1, 0])
        (\<lambda>w. autoencoder_predict (params w)) ex_adam_state = Inr ps'
     \<and> printed ps' = [Some l] \<and> 0 \<le> l \<and> l \<le> 1
     \<and> iterations (model_state ps') = 50
     \<and> vars_ok autoencoder_layers input_shape (params (weights (model_state ps')))"
proof -
  have c: "cdiv 2 16 = 1" by (simp add: cdiv_def)
  have g: "grad_ok ex_grad" by (simp add: grad_ok_def ex_grad_def)
  show ?thesis
    using main_trained_autoencoder [where ps = ex_adam_state and rs = nearest_resample and fs = ex_fs
        and es = ex_dir and sh = "\<lambda>e. [1, 0]" and grad = ex_grad
        and vs_init = "zero_variables autoencoder_layers input_shape",
        OF resampler_ok_nearest ex_run_hyps(1,2) ex_dir_images ex_run_hyps(3) g ex_vars] c
    by (simp add: ex_adam_state_def selected_ex_dir numeral_2_eq_2)
qed

theorem main_keras3_fails_witness:
  "main Keras3 nearest_resample ex_fs ex_step (\<lambda>e. [1, 0]) (\<lambda>w. ex_predictor) ex_state
     = Inl (ValueError WeightsFilename)"
  by (rule main_keras3_fails [where rs = nearest_resample and fs = ex_fs and es = ex_dir
        and sh = "\<lambda>e. [1, 0]" and net = "\<lambda>w. ex_predictor",
        OF resampler_ok_nearest ex_run_hyps(1,2) ex_dir_images(1) ex_run_hyps(3,4)])

theorem main_no_images_witness:
  "main Keras2 nearest_resample (Map.empty(pics_dir \<mapsto> [(''notes.txt'', None)])) ex_step (\<lambda>e. [1, 0])
     (\<lambda>w. ex_predictor) ex_state = Inl (ValueError EmptyTrainingData)"
  by (rule main_no_images) (simp, code_simp)

end
